(* ===== verification/Prelude.thy ===== *)
theory Prelude
  imports Main "HOL-Library.Product_Lexorder" "HOL-Library.Char_ord" "HOL-Library.Multiset"
begin

text \<open>
  Shared vocabulary of the development: the shape of a JSON field as the
  Flask handlers of \<open>src/backend/app.py\<close> read it (absent key, explicit
  \<open>null\<close>, or a value), Python truthiness on those fields, the exceptions the
  handlers catch, and generic lemmas on lists used by every component theory.
  The collection \<open>store_simps\<close> gathers the unfolding rules of the store
  operations; component proofs use \<open>simp add: store_simps\<close>.
\<close>

named_theorems store_simps "unfolding rules of the entity-store operations"
named_theorems wf_simps "rules that reduce the store invariant"

section \<open>JSON fields\<close>

text \<open>
  \<open>request.get_json()\<close> yields a dictionary. A handler either tests a key for
  presence (\<open>field in data\<close>), indexes it (\<open>data[k]\<close>), or reads it with
  \<open>data.get(k)\<close>, which gives \<open>None\<close> both for an absent key and for a JSON
  \<open>null\<close>. A field is therefore one of three things.
\<close>

datatype 'a field = Missing | Null | Val 'a

fun present :: "'a field \<Rightarrow> bool" where
  "present Missing = False"
| "present _ = True"

text \<open>\<open>data.get(k)\<close>: \<open>None\<close> for an absent key and for \<open>null\<close>.\<close>

fun get_field :: "'a field \<Rightarrow> 'a option" where
  "get_field (Val v) = Some v"
| "get_field _ = None"

text \<open>Python truthiness of a string or list field (\<open>None\<close>, \<open>''\<close>, \<open>[]\<close> are false).\<close>

fun truthy :: "'a list field \<Rightarrow> bool" where
  "truthy (Val v) = (v \<noteq> [])"
| "truthy _ = False"

section \<open>Exceptions\<close>

text \<open>
  The exceptions that reach an \<open>except Exception as e\<close> clause of the
  handlers: \<open>ValueError\<close> from \<open>datetime.strptime\<close>, \<open>TypeError\<close> from
  \<open>strptime(None, ...)\<close>, and the store's \<open>IntegrityError\<close> for a violated
  \<open>NOT NULL\<close>, foreign-key or primary-key constraint, tagged with the
  constraint's table. \<open>AttributeError\<close> is raised by werkzeug's
  \<open>check_password_hash\<close> on a password that is not a string
  (\<open>None.encode()\<close>); no handler catches it, so Flask answers 500.
\<close>

datatype exn = ValueError | TypeError | IntegrityError string | AttributeError

section \<open>Generic list lemmas\<close>

lemma find_SomeD [dest]:
  "find P xs = Some x \<Longrightarrow> P x \<and> x \<in> set xs"
  by (induction xs) (auto split: if_splits)

lemma find_unique_key:
  assumes "distinct (map k xs)" and "x \<in> set xs"
  shows "find (\<lambda>y. k y = k x) xs = Some x"
  using assms by (induction xs) (auto simp: image_iff)

lemma find_key_None [simp]:
  "(find (\<lambda>y. k y = a) xs = None) = (a \<notin> k ` set xs)"
  by (induction xs) auto

lemma find_key_absent [simp]:
  "a \<notin> k ` set xs \<Longrightarrow> find (\<lambda>y. k y = a) xs = None"
  by simp

lemma find_append_None:
  "find P xs = None \<Longrightarrow> find P (xs @ ys) = find P ys"
  by (induction xs) (auto split: if_splits)

lemma find_key_Some_iff:
  "distinct (map k xs) \<Longrightarrow> (find (\<lambda>y. k y = a) xs = Some x) = (x \<in> set xs \<and> k x = a)"
  by (induction xs) (auto simp: image_iff)

lemma distinct_map_filter_keep:
  "distinct (map k xs) \<Longrightarrow> distinct (map k (filter P xs))"
  by (simp add: distinct_map_filter)

lemma distinct_map_update_same_key:
  "distinct (map k xs) \<Longrightarrow> (\<And>x. k (f x) = k x) \<Longrightarrow> distinct (map k (map f xs))"
  by (induction xs) (auto simp: image_iff)

lemma set_map_key_same [simp]:
  "(\<And>x. k (f x) = k x) \<Longrightarrow> k ` f ` A = k ` A"
  by (auto simp: image_iff)

lemma distinct_map_Pair [simp]: "distinct (map (Pair a) xs) = distinct xs"
  by (induction xs) auto

lemma mem_Pair_image [simp]: "((a, x) \<in> Pair b ` S) = (a = b \<and> x \<in> S)"
  by auto

lemma bex_image_eq: "(\<exists>x \<in> f ` A. P x) = (\<exists>x \<in> A. P (f x))"
  by blast

end
