(* ===== verification/DateTime.thy ===== *)
theory DateTime
  imports Prelude
begin

text \<open>
  The calendar values the application stores and the Python library calls it
  makes on them: \<open>datetime.strptime(s, '%Y-%m-%d').date()\<close> and
  \<open>datetime.strptime(s, '%H:%M').time()\<close> (app.py lines 101, 118, 119) and
  \<open>strftime('%Y-%m-%d')\<close>, \<open>strftime('%H:%M')\<close> in \<open>Reservation.to_dict\<close>
  (lines 55, 56). The library is not part of the repository: the readers follow
  the regular expressions of CPython's \<open>_strptime\<close> for these directives
  (\<open>%Y = \d\d\d\d\<close>, \<open>%m = 1[0-2]|0[1-9]|[1-9]\<close>,
  \<open>%d = 3[01]|[12]\d|0[1-9]|[1-9]| [1-9]\<close>, \<open>%H = 2[0-3]|[0-1]\d|\d\<close>,
  \<open>%M = [0-5]\d|\d\<close>), the ``unconverted data remains'' check and the range
  check of the \<open>date\<close> constructor; digits are ASCII.
  \<open>sql_time_literal\<close> is the store's reading of the time string that
  \<open>get_table_status\<close> compares with the \<open>TIME\<close> column without parsing it.
\<close>

record date =
  year :: nat
  month :: nat
  day :: nat

record time_of_day =
  hour :: nat
  minute :: nat

section \<open>Calendar validity (the range check of \<open>datetime.date\<close>)\<close>

definition is_leap :: "nat \<Rightarrow> bool" where
  "is_leap y \<longleftrightarrow> 4 dvd y \<and> (\<not> 100 dvd y \<or> 400 dvd y)"

definition days_in_month :: "nat \<Rightarrow> nat \<Rightarrow> nat" where
  "days_in_month y m =
     (if m = 2 then (if is_leap y then 29 else 28)
      else if m \<in> {4, 6, 9, 11} then 30 else 31)"

definition valid_date :: "date \<Rightarrow> bool" where
  "valid_date d \<longleftrightarrow> 1 \<le> year d \<and> year d \<le> 9999 \<and> 1 \<le> month d \<and> month d \<le> 12
     \<and> 1 \<le> day d \<and> day d \<le> days_in_month (year d) (month d)"

definition valid_time :: "time_of_day \<Rightarrow> bool" where
  "valid_time t \<longleftrightarrow> hour t < 24 \<and> minute t < 60"

section \<open>Digits\<close>

definition is_digit :: "char \<Rightarrow> bool" where
  "is_digit c \<longleftrightarrow> CHR ''0'' \<le> c \<and> c \<le> CHR ''9''"

definition digit_val :: "char \<Rightarrow> nat" where
  "digit_val c = of_char c - of_char CHR ''0''"

definition digit_chr :: "nat \<Rightarrow> char" where
  "digit_chr n = char_of (of_char CHR ''0'' + n)"

text \<open>The value of a string of digits, most significant first.\<close>

definition digits_val :: "char list \<Rightarrow> nat" where
  "digits_val cs = foldl (\<lambda>acc c. 10 * acc + digit_val c) 0 cs"

text \<open>Zero-padded decimal rendering, as \<open>strftime\<close> prints \<open>%m\<close>, \<open>%d\<close>, \<open>%H\<close>, \<open>%M\<close>,
  and four digits, as \<open>strptime\<close> reads \<open>%Y\<close> and as CPython (3.12.5 on,
  and 3.13) prints it for every year, below 1000 included.\<close>

definition pad2 :: "nat \<Rightarrow> string" where
  "pad2 n = [digit_chr (n div 10 mod 10), digit_chr (n mod 10)]"

definition pad4 :: "nat \<Rightarrow> string" where
  "pad4 n = [digit_chr (n div 1000 mod 10), digit_chr (n div 100 mod 10),
             digit_chr (n div 10 mod 10), digit_chr (n mod 10)]"

text \<open>Decimal rendering without padding, as \<open>str(int)\<close> prints a
  non-negative integer.\<close>

fun dec_str :: "nat \<Rightarrow> string" where
  "dec_str n = (if n < 10 then [digit_chr n] else dec_str (n div 10) @ [digit_chr (n mod 10)])"

declare dec_str.simps [simp del]

section \<open>The directive alternatives of \<open>_strptime\<close>\<close>

text \<open>
  A field between separators (or a last field, after which the reader demands
  that no data remain) is accepted exactly when the whole field is one of the
  alternatives of its directive: the alternatives are tried longest first.
\<close>

fun month_field :: "string \<Rightarrow> bool" where
  "month_field [a, b] = (a = CHR ''1'' \<and> CHR ''0'' \<le> b \<and> b \<le> CHR ''2''
                          \<or> a = CHR ''0'' \<and> CHR ''1'' \<le> b \<and> b \<le> CHR ''9'')"
| "month_field [a] = (CHR ''1'' \<le> a \<and> a \<le> CHR ''9'')"
| "month_field _ = False"

fun day_field :: "string \<Rightarrow> bool" where
  "day_field [a, b] = (a = CHR ''3'' \<and> (b = CHR ''0'' \<or> b = CHR ''1'')
                        \<or> (a = CHR ''1'' \<or> a = CHR ''2'') \<and> is_digit b
                        \<or> a = CHR ''0'' \<and> CHR ''1'' \<le> b \<and> b \<le> CHR ''9''
                        \<or> a = CHR '' '' \<and> CHR ''1'' \<le> b \<and> b \<le> CHR ''9'')"
| "day_field [a] = (CHR ''1'' \<le> a \<and> a \<le> CHR ''9'')"
| "day_field _ = False"

fun hour_field :: "string \<Rightarrow> bool" where
  "hour_field [a, b] = (a = CHR ''2'' \<and> CHR ''0'' \<le> b \<and> b \<le> CHR ''3''
                         \<or> (a = CHR ''0'' \<or> a = CHR ''1'') \<and> is_digit b)"
| "hour_field [a] = is_digit a"
| "hour_field _ = False"

fun minute_field :: "string \<Rightarrow> bool" where
  "minute_field [a, b] = (CHR ''0'' \<le> a \<and> a \<le> CHR ''5'' \<and> is_digit b)"
| "minute_field [a] = is_digit a"
| "minute_field _ = False"

text \<open>The value of a field; the space of \<open>' [1-9]'\<close> is dropped, as \<open>int()\<close> does.\<close>

definition field_val :: "string \<Rightarrow> nat" where
  "field_val s = digits_val (filter is_digit s)"

section \<open>\<open>strptime\<close> and \<open>strftime\<close>\<close>

definition parse_date :: "string \<Rightarrow> date option" where
  "parse_date s =
     (let ys = take 4 s; r = drop 4 s;
          ms = takeWhile (\<lambda>c. c \<noteq> CHR ''-'') (drop 1 r);
          r2 = dropWhile (\<lambda>c. c \<noteq> CHR ''-'') (drop 1 r);
          ds = drop 1 r2;
          d = \<lparr>year = digits_val ys, month = field_val ms, day = field_val ds\<rparr>
      in if length ys = 4 \<and> list_all is_digit ys \<and> take 1 r = ''-''
            \<and> month_field ms \<and> take 1 r2 = ''-'' \<and> day_field ds \<and> valid_date d
         then Some d else None)"

definition parse_time :: "string \<Rightarrow> time_of_day option" where
  "parse_time s =
     (let hs = takeWhile (\<lambda>c. c \<noteq> CHR '':'') s;
          r = dropWhile (\<lambda>c. c \<noteq> CHR '':'') s;
          ms = drop 1 r
      in if hour_field hs \<and> take 1 r = '':'' \<and> minute_field ms
         then Some \<lparr>hour = field_val hs, minute = field_val ms\<rparr> else None)"

definition format_date :: "date \<Rightarrow> string" where
  "format_date d = pad4 (year d) @ ''-'' @ pad2 (month d) @ ''-'' @ pad2 (day d)"

definition format_time :: "time_of_day \<Rightarrow> string" where
  "format_time t = pad2 (hour t) @ '':'' @ pad2 (minute t)"

text \<open>
  The store's reading of a string compared with a \<open>TIME\<close> column, after
  MySQL's documented literal formats: \<open>'D hh:mm:ss'\<close>, \<open>'hh:mm:ss'\<close>,
  \<open>'hh:mm'\<close>, \<open>'D hh:mm'\<close>, \<open>'D hh'\<close>, fields of one or two digits
  (hours up to three); without delimiter, the digits read right-aligned as
  \<open>hhmmss\<close> (\<open>'1112'\<close> is 00:11:12); a trailing \<open>.fraction\<close>; a day part
  adds 24 hours. Every stored time was built from \<open>'%H:%M'\<close>, so the
  string matches a stored time exactly when its value has zero seconds and a
  zero fraction and lies within a day; \<open>time_literal_value\<close> gives the
  value as hours, minutes and seconds.
\<close>

fun split_on :: "char \<Rightarrow> string \<Rightarrow> string list" where
  "split_on c [] = [[]]"
| "split_on c (x # xs) =
     (if x = c then [] # split_on c xs
      else (case split_on c xs of w # ws \<Rightarrow> (x # w) # ws | [] \<Rightarrow> [[x]]))"

definition num_field :: "nat \<Rightarrow> string \<Rightarrow> bool" where
  "num_field k f \<longleftrightarrow> f \<noteq> [] \<and> length f \<le> k \<and> list_all is_digit f"

definition hms_fields :: "string list \<Rightarrow> (nat \<times> nat \<times> nat) option" where
  "hms_fields fs =
     (case fs of
        [h, m] \<Rightarrow> if num_field 3 h \<and> num_field 2 m then Some (digits_val h, digits_val m, 0) else None
      | [h, m, sec] \<Rightarrow> if num_field 3 h \<and> num_field 2 m \<and> num_field 2 sec
                        then Some (digits_val h, digits_val m, digits_val sec) else None
      | _ \<Rightarrow> None)"

definition time_literal_value :: "string \<Rightarrow> (nat \<times> nat \<times> nat) option" where
  "time_literal_value s =
     (let main = takeWhile (\<lambda>c. c \<noteq> CHR ''.'') s;
          frac = drop 1 (dropWhile (\<lambda>c. c \<noteq> CHR ''.'') s);
          zero_frac = list_all (\<lambda>c. c = CHR ''0'') frac
      in if \<not> zero_frac then None
         else if CHR '' '' \<in> set main then
           (let dpart = takeWhile (\<lambda>c. c \<noteq> CHR '' '') main;
                rest = drop 1 (dropWhile (\<lambda>c. c \<noteq> CHR '' '') main)
            in if \<not> num_field 2 dpart then None
               else if CHR '':'' \<in> set rest
               then map_option (\<lambda>(h, m, sec). (24 * digits_val dpart + h, m, sec)) (hms_fields (split_on CHR '':'' rest))
               else if num_field 3 rest then Some (24 * digits_val dpart + digits_val rest, 0, 0) else None)
         else if CHR '':'' \<in> set main then hms_fields (split_on CHR '':'' main)
         else if num_field 7 main
         then (let n = digits_val main in Some (n div 10000, n div 100 mod 100, n mod 100))
         else None)"

definition sql_time_literal :: "string \<Rightarrow> time_of_day option" where
  "sql_time_literal s =
     (case time_literal_value s of
        Some (h, m, sec) \<Rightarrow> if h < 24 \<and> m < 60 \<and> sec = 0 then Some \<lparr>hour = h, minute = m\<rparr> else None
      | None \<Rightarrow> None)"

section \<open>Digits and padding\<close>

lemma char_eq_iff_code: "(c = d) = ((of_char c :: nat) = of_char d)"
  by (metis of_char_eq_iff)

lemma of_char_digit_chr [simp]: "n < 10 \<Longrightarrow> (of_char (digit_chr n) :: nat) = 48 + n"
  by (simp add: digit_chr_def)

lemma digit_chr_cmp:
  assumes "n < 10"
  shows "(digit_chr n \<le> c) = (48 + n \<le> (of_char c :: nat))"
    and "(c \<le> digit_chr n) = ((of_char c :: nat) \<le> 48 + n)"
    and "(digit_chr n = c) = (48 + n = (of_char c :: nat))"
  using assms by (simp_all add: less_eq_char_def char_eq_iff_code [of "digit_chr n"])

lemma digit_val_chr: "n < 10 \<Longrightarrow> digit_val (digit_chr n) = n"
  by (simp add: digit_val_def)

lemma is_digit_chr: "n < 10 \<Longrightarrow> is_digit (digit_chr n)"
  by (simp add: is_digit_def digit_chr_cmp)

lemma pad2_split:
  assumes "n < 100"
  obtains q r where "q < 10" "r < 10" "n = 10 * q + r" "pad2 n = [digit_chr q, digit_chr r]"
proof
  show "n div 10 < 10" "n mod 10 < 10" "n = 10 * (n div 10) + n mod 10" using assms by auto
  show "pad2 n = [digit_chr (n div 10), digit_chr (n mod 10)]" using assms by (simp add: pad2_def)
qed

lemma field_val_pad2: "n < 100 \<Longrightarrow> field_val (pad2 n) = n"
  by (elim pad2_split) (simp add: field_val_def digits_val_def digit_val_chr is_digit_chr)

lemma month_field_pad2:
  assumes "1 \<le> m" "m \<le> 12" shows "month_field (pad2 m)"
proof -
  from assms have "m < 100" by simp
  then obtain q r where "q < 10" "r < 10" "m = 10 * q + r" "pad2 m = [digit_chr q, digit_chr r]"
    by (rule pad2_split)
  with assms show ?thesis by (simp add: digit_chr_cmp) presburger
qed

lemma day_field_pad2:
  assumes "1 \<le> d" "d \<le> 31" shows "day_field (pad2 d)"
proof -
  from assms have "d < 100" by simp
  then obtain q r where "q < 10" "r < 10" "d = 10 * q + r" "pad2 d = [digit_chr q, digit_chr r]"
    by (rule pad2_split)
  with assms show ?thesis by (simp add: digit_chr_cmp is_digit_chr) presburger
qed

lemma digits_val_pad4: "n < 10000 \<Longrightarrow> digits_val (pad4 n) = n"
proof -
  assume "n < 10000"
  have "n div 100 = n div 10 div 10" "n div 1000 = n div 10 div 10 div 10"
    by (simp_all add: div_mult2_eq [symmetric])
  moreover have "n = 10 * (n div 10) + n mod 10" "n div 10 = 10 * (n div 10 div 10) + n div 10 mod 10"
    "n div 10 div 10 = 10 * (n div 10 div 10 div 10) + n div 10 div 10 mod 10" by simp_all
  moreover from \<open>n < 10000\<close> have "n div 10 div 10 div 10 < 10" by simp
  ultimately show ?thesis by (simp add: digits_val_def pad4_def digit_val_chr)
qed

lemma is_digit_pad2: "c \<in> set (pad2 n) \<Longrightarrow> is_digit c"
  by (auto simp: pad2_def is_digit_chr)

lemma is_digit_pad4: "list_all is_digit (pad4 n)"
  by (simp add: pad4_def is_digit_chr)

lemma is_digit_not_sep: "is_digit c \<Longrightarrow> c \<noteq> CHR ''-'' \<and> c \<noteq> CHR '':''"
  by (auto simp: is_digit_def)

lemma takeWhile_pad2 [simp]:
  "\<not> is_digit x \<Longrightarrow> takeWhile (\<lambda>c. c \<noteq> x) (pad2 n @ x # r) = pad2 n"
  by (subst takeWhile_append2) (auto dest: is_digit_pad2)

lemma dropWhile_pad2 [simp]:
  "\<not> is_digit x \<Longrightarrow> dropWhile (\<lambda>c. c \<noteq> x) (pad2 n @ x # r) = x # r"
  by (subst dropWhile_append2) (auto dest: is_digit_pad2)

lemma hour_field_pad2:
  assumes "h < 24" shows "hour_field (pad2 h)"
proof -
  from assms have "h < 100" by simp
  then obtain q r where "q < 10" "r < 10" "h = 10 * q + r" "pad2 h = [digit_chr q, digit_chr r]"
    by (rule pad2_split)
  with assms show ?thesis by (simp add: digit_chr_cmp is_digit_chr) presburger
qed

lemma minute_field_pad2:
  assumes "m < 60" shows "minute_field (pad2 m)"
proof -
  from assms have "m < 100" by simp
  then obtain q r where "q < 10" "r < 10" "m = 10 * q + r" "pad2 m = [digit_chr q, digit_chr r]"
    by (rule pad2_split)
  with assms show ?thesis by (simp add: digit_chr_cmp is_digit_chr)
qed

lemma days_in_month_le: "days_in_month y m \<le> 31"
  by (simp add: days_in_month_def)

lemma hour_field_val: "hour_field s \<Longrightarrow> field_val s < 24"
  by (induction s rule: hour_field.induct)
     (auto simp: field_val_def digits_val_def digit_val_def is_digit_def less_eq_char_def)

lemma minute_field_val: "minute_field s \<Longrightarrow> field_val s < 60"
  by (induction s rule: minute_field.induct)
     (auto simp: field_val_def digits_val_def digit_val_def is_digit_def less_eq_char_def)

text \<open>Bounds: a time accepted by \<open>strptime(..., '%H:%M')\<close> has an hour below 24
  and a minute below 60, although the hour and minute fields may have one
  digit; a date accepted by \<open>strptime(..., '%Y-%m-%d')\<close> is a calendar date.\<close>

lemma parse_time_valid: "parse_time s = Some t \<Longrightarrow> valid_time t"
  by (auto simp: parse_time_def valid_time_def Let_def hour_field_val minute_field_val split: if_splits)

lemma parse_date_valid: "parse_date s = Some d \<Longrightarrow> valid_date d"
  by (auto simp: parse_date_def Let_def split: if_splits)

lemma dec_str_digits: "list_all is_digit (dec_str n)"
proof (induction n rule: dec_str.induct)
  case (1 n)
  then show ?case by (simp add: dec_str.simps [of n] is_digit_chr)
qed

section \<open>Round trips\<close>

text \<open>C19. Round trip of the date column: every valid calendar date, rendered by
  \<open>strftime('%Y-%m-%d')\<close>, as \<open>Reservation.to_dict\<close> does, is read back by
  \<open>strptime(..., '%Y-%m-%d')\<close>, as \<open>create_reservation\<close> does, to the same date.\<close>

theorem parse_format_date:
  assumes "valid_date d"
  shows "parse_date (format_date d) = Some d"
proof -
  from assms have y: "year d < 10000" and m: "1 \<le> month d" "month d \<le> 12"
    and dd: "1 \<le> day d" "day d \<le> 31"
    using days_in_month_le [of "year d" "month d"] by (auto simp: valid_date_def)
  have fmt: "format_date d = pad4 (year d) @ ''-'' @ pad2 (month d) @ ''-'' @ pad2 (day d)"
    by (simp add: format_date_def)
  have sep: "\<not> is_digit CHR ''-''" by (simp add: is_digit_def)
  have "length (pad4 (year d)) = 4" by (simp add: pad4_def)
  then show ?thesis using y m dd assms(1) sep unfolding fmt
    by (simp add: parse_date_def Let_def is_digit_pad4 digits_val_pad4
        field_val_pad2 month_field_pad2 day_field_pad2 valid_date_def)
qed

theorem parse_format_date_witness:
  "parse_date (format_date \<lparr>year = 2024, month = 2, day = 29\<rparr>) = Some \<lparr>year = 2024, month = 2, day = 29\<rparr>"
  using parse_format_date [of "\<lparr>year = 2024, month = 2, day = 29\<rparr>"]
  by (simp add: valid_date_def days_in_month_def is_leap_def)

text \<open>Round trip of the time column: every valid time of day rendered by
  \<open>strftime('%H:%M')\<close> is read back by \<open>strptime(..., '%H:%M')\<close> to the same time.\<close>

theorem parse_format_time:
  assumes "valid_time t" shows "parse_time (format_time t) = Some t"
proof -
  from assms have "hour t < 24" "minute t < 60" by (auto simp: valid_time_def)
  moreover have "\<not> is_digit CHR '':''" by (simp add: is_digit_def)
  ultimately show ?thesis
    by (simp add: parse_time_def format_time_def field_val_pad2 hour_field_pad2 minute_field_pad2)
qed

theorem parse_format_time_witness:
  "parse_time (format_time \<lparr>hour = 23, minute = 59\<rparr>) = Some \<lparr>hour = 23, minute = 59\<rparr>"
  using parse_format_time [of "\<lparr>hour = 23, minute = 59\<rparr>"] by (simp add: valid_time_def)

end
