(* ===== verification/Entities.thy ===== *)
theory Entities
  imports DateTime
begin

text \<open>
  The entity store: the three SQLAlchemy models \<open>User\<close>, \<open>Reservation\<close>,
  \<open>DiningTable\<close> and the association table \<open>reservation_tables\<close> of
  app.py lines 26--65, one \<^theory_text>\<open>record\<close> per row type and one record
  \<open>db\<close> for the whole database. Rows are kept in lists in insertion order,
  which is primary-key order since ids come from \<open>AUTO_INCREMENT\<close>
  counters. The constraints the schema declares (\<open>primary_key\<close>,
  \<open>unique\<close>, \<open>nullable=False\<close>, \<open>ForeignKey\<close>) are checked by the
  engine operations below, which raise \<open>IntegrityError\<close> as the store does.
  A unit of work (\<open>db.session\<close> between two commits) is a function from a
  store to a result and a store; \<open>uow_commit\<close> keeps its writes, and
  \<open>rollback\<close> discards them but keeps the \<open>AUTO_INCREMENT\<close> counters,
  which InnoDB never gives back.
\<close>

section \<open>Rows\<close>

text \<open>The \<open>status\<close> column (\<open>String(20)\<close>, default \<open>'Pending'\<close>) only ever
  holds one of the four strings the handlers write.\<close>

datatype status = Pending | Accepted | Rejected | Cancelled

fun status_str :: "status \<Rightarrow> string" where
  "status_str Pending = ''Pending''"
| "status_str Accepted = ''Accepted''"
| "status_str Rejected = ''Rejected''"
| "status_str Cancelled = ''Cancelled''"

text \<open>MySQL's default collation (\<open>utf8mb4_0900_ai_ci\<close>) compares strings
  without regard to case: the unique indexes and the \<open>filter_by\<close> lookups
  on \<open>username\<close>, \<open>email\<close> and \<open>table_number\<close> compare the folded
  strings. \<open>ci_key\<close> folds the ASCII letters; the accent folding of the
  collation is not modelled.\<close>

definition lower_ascii :: "char \<Rightarrow> char" where
  "lower_ascii c = (if CHR ''A'' \<le> c \<and> c \<le> CHR ''Z'' then char_of (of_char c + (32::nat)) else c)"

definition ci_key :: "string \<Rightarrow> string" where
  "ci_key s = map lower_ascii s"

record user =
  user_id :: int
  username :: string
  password_hash :: string
  email :: string
  phone_number :: string

record reservation =
  res_id :: int
  customer_name :: string
  contact_info :: string
  reservation_date :: date
  reservation_time :: time_of_day
  status :: status
  res_user :: "int option"

record dining_table =
  table_id :: int
  table_number :: string
  capacity :: int

record db =
  users :: "user list"
  reservations :: "reservation list"
  dining_tables :: "dining_table list"
  reservation_tables :: "(int \<times> int) list"
  next_user_id :: int
  next_res_id :: int

section \<open>Responses\<close>

text \<open>\<open>DiningTable.to_dict\<close> renders a table row as its three columns, so a
  rendered table is the row itself. \<open>Reservation.to_dict\<close> (lines 52--58)
  and the rows of \<open>get_table_status\<close> (line 105) are records of their own.\<close>

record res_dict =
  rd_id :: int
  rd_customer_name :: string
  rd_contact_info :: string
  rd_date :: string
  rd_time :: string
  rd_status :: string
  rd_booked_tables :: "dining_table list"

record table_row =
  tr_id :: int
  tr_number :: string
  tr_capacity :: int
  tr_is_booked :: bool

text \<open>The JSON bodies the handlers return.\<close>

datatype payload =
    Message string
  | Error string
  | ErrorExn exn
  | Created string int
  | Tables "table_row list"
  | Reservations "res_dict list"
  | StatusUpdated int string
  | Deleted int
  | LoginOk string int string

type_synonym response = "nat \<times> payload"

section \<open>Lookups (\<open>db.session.get\<close>, \<open>filter_by(...).first()\<close>)\<close>

definition get_user :: "db \<Rightarrow> int \<Rightarrow> user option" where
  "get_user s uid = find (\<lambda>u. user_id u = uid) (users s)"

definition get_reservation :: "db \<Rightarrow> int \<Rightarrow> reservation option" where
  "get_reservation s rid = find (\<lambda>r. res_id r = rid) (reservations s)"

definition user_ids :: "db \<Rightarrow> int set" where
  "user_ids s = user_id ` set (users s)"

definition res_ids :: "db \<Rightarrow> int set" where
  "res_ids s = res_id ` set (reservations s)"

definition table_ids :: "db \<Rightarrow> int set" where
  "table_ids s = table_id ` set (dining_tables s)"

text \<open>The tables joined to a reservation through \<open>reservation_tables\<close>,
  in the order of the \<open>dining_tables\<close> rows (\<open>Reservation.tables\<close>).\<close>

definition tables_of :: "db \<Rightarrow> int \<Rightarrow> dining_table list" where
  "tables_of s rid = filter (\<lambda>t. (rid, table_id t) \<in> set (reservation_tables s)) (dining_tables s)"

text \<open>\<open>Reservation.to_dict\<close>.\<close>

definition to_dict :: "db \<Rightarrow> reservation \<Rightarrow> res_dict" where
  "to_dict s r = \<lparr>rd_id = res_id r, rd_customer_name = customer_name r,
     rd_contact_info = contact_info r, rd_date = format_date (reservation_date r),
     rd_time = format_time (reservation_time r), rd_status = status_str (status r),
     rd_booked_tables = tables_of s (res_id r)\<rparr>"

section \<open>Engine operations with their constraint checks\<close>

text \<open>
  \<open>db.session.add(Reservation(...)); db.session.flush()\<close>:
  \<open>customer_name\<close> and \<open>contact_info\<close> are \<open>NOT NULL\<close>, and MySQL
  refuses a \<open>NULL\<close> there (error 1048) before it draws an
  \<open>AUTO_INCREMENT\<close> value; otherwise the \<open>INSERT\<close> draws the next value,
  which stays consumed when the nullable foreign key \<open>user_id\<close> to
  \<open>users\<close> then fails; \<open>status\<close> takes its default \<open>'Pending'\<close>.
\<close>

definition insert_reservation ::
  "string option \<Rightarrow> string option \<Rightarrow> date \<Rightarrow> time_of_day \<Rightarrow> int option \<Rightarrow> db \<Rightarrow> (exn + int) \<times> db" where
  "insert_reservation name contact d t uid s =
     (case (name, contact) of
        (Some n, Some c) \<Rightarrow>
          (let rid = next_res_id s; s1 = s\<lparr>next_res_id := rid + 1\<rparr>
           in case uid of
                Some u \<Rightarrow> if u \<notin> user_ids s then (Inl (IntegrityError ''reservations.user_id''), s1)
                          else (Inr rid, s1\<lparr>reservations := reservations s @
                                  [\<lparr>res_id = rid, customer_name = n, contact_info = c,
                                    reservation_date = d, reservation_time = t,
                                    status = Pending, res_user = uid\<rparr>]\<rparr>)
              | None \<Rightarrow> (Inr rid, s1\<lparr>reservations := reservations s @
                                  [\<lparr>res_id = rid, customer_name = n, contact_info = c,
                                    reservation_date = d, reservation_time = t,
                                    status = Pending, res_user = None\<rparr>]\<rparr>))
      | _ \<Rightarrow> (Inl (IntegrityError ''reservations.not_null''), s))"

text \<open>\<open>reservation_tables.insert().values(reservation_id=..., table_id=...)\<close>:
  the pair is the primary key, both columns are foreign keys.\<close>

definition insert_assoc :: "int \<Rightarrow> int \<Rightarrow> db \<Rightarrow> (exn + unit) \<times> db" where
  "insert_assoc rid tid s =
     (if (rid, tid) \<in> set (reservation_tables s) then (Inl (IntegrityError ''reservation_tables.PRIMARY''), s)
      else if rid \<notin> res_ids s then (Inl (IntegrityError ''reservation_tables.reservation_id''), s)
      else if tid \<notin> table_ids s then (Inl (IntegrityError ''reservation_tables.table_id''), s)
      else (Inr (), s\<lparr>reservation_tables := reservation_tables s @ [(rid, tid)]\<rparr>))"

text \<open>The loop \<open>for table_id in unique_table_ids: ...\<close> (lines 125--126),
  stopping at the first statement that raises.\<close>

fun insert_assocs :: "int \<Rightarrow> int list \<Rightarrow> db \<Rightarrow> (exn + unit) \<times> db" where
  "insert_assocs rid [] s = (Inr (), s)"
| "insert_assocs rid (t # ts) s =
     (case insert_assoc rid t s of
        (Inl e, s') \<Rightarrow> (Inl e, s')
      | (Inr u, s') \<Rightarrow> insert_assocs rid ts s')"

text \<open>\<open>reservation.status = ...\<close> on the row loaded by \<open>db.session.get\<close>.\<close>

definition upd_status :: "int \<Rightarrow> status \<Rightarrow> reservation \<Rightarrow> reservation" where
  "upd_status rid st r = (if res_id r = rid then r\<lparr>status := st\<rparr> else r)"

definition set_status :: "int \<Rightarrow> status \<Rightarrow> db \<Rightarrow> db" where
  "set_status rid st s = s\<lparr>reservations := map (upd_status rid st) (reservations s)\<rparr>"

text \<open>\<open>db.session.delete(reservation)\<close>: SQLAlchemy first deletes the rows of
  the secondary table \<open>reservation_tables\<close> that belong to the object, then
  the object's row.\<close>

definition delete_res :: "int \<Rightarrow> db \<Rightarrow> db" where
  "delete_res rid s =
     s\<lparr>reservation_tables := filter (\<lambda>p. fst p \<noteq> rid) (reservation_tables s),
       reservations := filter (\<lambda>r. res_id r \<noteq> rid) (reservations s)\<rparr>"

text \<open>\<open>db.session.add(User(...)); db.session.commit()\<close>.\<close>

definition insert_user :: "string \<Rightarrow> string \<Rightarrow> string \<Rightarrow> string \<Rightarrow> db \<Rightarrow> db" where
  "insert_user name h mail phone s =
     s\<lparr>users := users s @ [\<lparr>user_id = next_user_id s, username = name, password_hash = h,
                             email = mail, phone_number = phone\<rparr>],
       next_user_id := next_user_id s + 1\<rparr>"

section \<open>Units of work\<close>

type_synonym 'a uow = "db \<Rightarrow> (exn + 'a) \<times> db"

definition uow_bind :: "'a uow \<Rightarrow> ('a \<Rightarrow> 'b uow) \<Rightarrow> 'b uow" where
  "uow_bind m f s = (case m s of (Inl e, s') \<Rightarrow> (Inl e, s') | (Inr x, s') \<Rightarrow> f x s')"

text \<open>\<open>db.session.rollback()\<close>: the store as it was when the unit of work
  began, with the counters the unit of work advanced.\<close>

definition rollback :: "db \<Rightarrow> db \<Rightarrow> db" where
  "rollback s0 s1 = s0\<lparr>next_user_id := next_user_id s1, next_res_id := next_res_id s1\<rparr>"

text \<open>Run a unit of work: commit on success, roll back on an exception.\<close>

definition run_uow :: "'a uow \<Rightarrow> db \<Rightarrow> (exn + 'a) \<times> db" where
  "run_uow m s0 = (case m s0 of (Inl e, s1) \<Rightarrow> (Inl e, rollback s0 s1) | (Inr x, s1) \<Rightarrow> (Inr x, s1))"

section \<open>The store invariant\<close>

text \<open>
  What the schema's constraints guarantee of every committed state
  (\<open>wf_store\<close>), and the invariant of the specification that every
  reservation holds at least one table (\<open>wf_db\<close>).
\<close>

definition fk_user :: "db \<Rightarrow> reservation \<Rightarrow> bool" where
  "fk_user s r \<longleftrightarrow> set_option (res_user r) \<subseteq> user_ids s"

definition wf_store :: "db \<Rightarrow> bool" where
  "wf_store s \<longleftrightarrow>
     distinct (map user_id (users s)) \<and> distinct (map (\<lambda>u. ci_key (username u)) (users s))
     \<and> distinct (map (\<lambda>u. ci_key (email u)) (users s)) \<and> (\<forall>u \<in> set (users s). user_id u < next_user_id s)
     \<and> distinct (map res_id (reservations s))
     \<and> (\<forall>r \<in> set (reservations s). res_id r < next_res_id s \<and> fk_user s r)
     \<and> distinct (map table_id (dining_tables s)) \<and> distinct (map (\<lambda>tb. ci_key (table_number tb)) (dining_tables s))
     \<and> distinct (reservation_tables s)
     \<and> (\<forall>p \<in> set (reservation_tables s). fst p \<in> res_ids s \<and> snd p \<in> table_ids s)"

definition has_table :: "db \<Rightarrow> reservation \<Rightarrow> bool" where
  "has_table s r \<longleftrightarrow> (\<exists>p \<in> set (reservation_tables s). fst p = res_id r)"

definition wf_db :: "db \<Rightarrow> bool" where
  "wf_db s \<longleftrightarrow> wf_store s \<and> (\<forall>r \<in> set (reservations s). has_table s r)"

declare get_user_def [store_simps] get_reservation_def [store_simps] user_ids_def [store_simps]
  res_ids_def [store_simps] table_ids_def [store_simps] insert_assoc_def [store_simps]
  set_status_def [store_simps] delete_res_def [store_simps] insert_user_def [store_simps]
  rollback_def [store_simps] run_uow_def [store_simps] uow_bind_def [store_simps]

section \<open>A concrete store\<close>

text \<open>The store of the end-to-end scenario of the specification: two tables
  \<open>T1\<close> (four seats) and \<open>T2\<close> (two seats), one registered user, no
  reservation yet. The witnesses of the component theories evaluate the
  handlers on it.\<close>

definition demo_db :: db where
  "demo_db = \<lparr>users = [\<lparr>user_id = 1, username = ''ann'', password_hash = ''h'',
                          email = ''ann@example.org'', phone_number = ''555''\<rparr>],
              reservations = [],
              dining_tables = [\<lparr>table_id = 1, table_number = ''T1'', capacity = 4\<rparr>,
                               \<lparr>table_id = 2, table_number = ''T2'', capacity = 2\<rparr>],
              reservation_tables = [], next_user_id = 2, next_res_id = 1\<rparr>"

lemma wf_store_demo_db: "wf_store demo_db"
  by code_simp

section \<open>Characteristic equations of the store operations\<close>

lemma upd_status_sel [simp]:
  "res_id (upd_status rid st r) = res_id r"
  "res_user (upd_status rid st r) = res_user r"
  "customer_name (upd_status rid st r) = customer_name r"
  "contact_info (upd_status rid st r) = contact_info r"
  "reservation_date (upd_status rid st r) = reservation_date r"
  "reservation_time (upd_status rid st r) = reservation_time r"
  "status (upd_status rid st r) = (if res_id r = rid then st else status r)"
  by (simp_all add: upd_status_def)

lemma set_status_sel [simp]:
  "users (set_status rid st s) = users s"
  "dining_tables (set_status rid st s) = dining_tables s"
  "reservation_tables (set_status rid st s) = reservation_tables s"
  "reservations (set_status rid st s) = map (upd_status rid st) (reservations s)"
  "next_user_id (set_status rid st s) = next_user_id s"
  "next_res_id (set_status rid st s) = next_res_id s"
  by (simp_all add: set_status_def)

lemma delete_res_sel [simp]:
  "users (delete_res rid s) = users s"
  "dining_tables (delete_res rid s) = dining_tables s"
  "reservation_tables (delete_res rid s) = filter (\<lambda>p. fst p \<noteq> rid) (reservation_tables s)"
  "reservations (delete_res rid s) = filter (\<lambda>r. res_id r \<noteq> rid) (reservations s)"
  "next_user_id (delete_res rid s) = next_user_id s"
  "next_res_id (delete_res rid s) = next_res_id s"
  by (simp_all add: delete_res_def)

lemma ids_ops [simp]:
  "user_ids (set_status rid st s) = user_ids s"
  "table_ids (set_status rid st s) = table_ids s"
  "res_ids (set_status rid st s) = res_ids s"
  "user_ids (delete_res rid s) = user_ids s"
  "table_ids (delete_res rid s) = table_ids s"
  by (simp_all add: user_ids_def table_ids_def res_ids_def image_image)

lemma fk_user_ops [simp]:
  "fk_user (set_status rid st s) = fk_user s"
  "fk_user (delete_res rid s) = fk_user s"
  "fk_user s (upd_status rid st r) = fk_user s r"
  by (simp_all add: fk_user_def fun_eq_iff)

lemma res_id_comp_upd_status [simp]: "res_id \<circ> upd_status rid st = res_id"
  by (simp add: fun_eq_iff)

section \<open>The operations keep the invariant\<close>

lemma wf_store_set_status: "wf_store s \<Longrightarrow> wf_store (set_status rid st s)"
  by (simp add: wf_store_def)

lemma wf_db_set_status: "wf_db s \<Longrightarrow> wf_db (set_status rid st s)"
  by (simp add: wf_db_def wf_store_set_status has_table_def)

lemma wf_db_delete_res: "wf_db s \<Longrightarrow> wf_db (delete_res rid s)"
  unfolding wf_db_def wf_store_def has_table_def
  by (auto simp: res_ids_def distinct_map_filter) force

section \<open>The association loop and the reservation insert\<close>

lemma insert_assocs_ok:
  assumes "distinct ts" "set ts \<subseteq> table_ids s" "rid \<in> res_ids s"
    "\<forall>t \<in> set ts. (rid, t) \<notin> set (reservation_tables s)"
  shows "insert_assocs rid ts s = (Inr (), s\<lparr>reservation_tables := reservation_tables s @ map (Pair rid) ts\<rparr>)"
  using assms
proof (induction ts arbitrary: s)
  case Nil
  then show ?case by simp
next
  case (Cons t ts)
  then have step: "insert_assoc rid t s = (Inr (), s\<lparr>reservation_tables := reservation_tables s @ [(rid, t)]\<rparr>)"
    by (simp add: insert_assoc_def)
  let ?s' = "s\<lparr>reservation_tables := reservation_tables s @ [(rid, t)]\<rparr>"
  have "insert_assocs rid ts ?s' = (Inr (), ?s'\<lparr>reservation_tables := reservation_tables ?s' @ map (Pair rid) ts\<rparr>)"
    by (rule Cons.IH) (use Cons.prems in \<open>auto simp: table_ids_def res_ids_def\<close>)
  with step show ?case by simp
qed

lemma db_rt_self: "\<exists>rt. s = s\<lparr>reservation_tables := rt\<rparr>"
  by (rule exI [of _ "reservation_tables s"]) simp

lemma insert_assoc_frame:
  "\<exists>rt. snd (insert_assoc rid t s) = s\<lparr>reservation_tables := rt\<rparr>"
  by (auto simp: insert_assoc_def intro: db_rt_self)

lemma insert_assocs_frame:
  "\<exists>rt. snd (insert_assocs rid ts s) = s\<lparr>reservation_tables := rt\<rparr>"
proof (induction ts arbitrary: s)
  case Nil
  show ?case by (simp add: db_rt_self)
next
  case (Cons t ts)
  obtain r s' where step: "insert_assoc rid t s = (r, s')" by (cases "insert_assoc rid t s")
  obtain rt where s': "s' = s\<lparr>reservation_tables := rt\<rparr>"
    using insert_assoc_frame [of rid t s] step by auto
  show ?case
  proof (cases r)
    case (Inl e)
    with step s' show ?thesis by auto
  next
    case (Inr u)
    with step have "insert_assocs rid (t # ts) s = insert_assocs rid ts s'" by simp
    moreover obtain rt' where "snd (insert_assocs rid ts s') = s'\<lparr>reservation_tables := rt'\<rparr>"
      using Cons.IH by blast
    ultimately show ?thesis using s' by auto
  qed
qed

lemma wf_store_fresh_rid:
  "wf_store s \<Longrightarrow> (next_res_id s, t) \<notin> set (reservation_tables s)"
  by (fastforce simp: wf_store_def res_ids_def)

lemma insert_reservation_ok:
  assumes "set_option uid \<subseteq> user_ids s"
  shows "insert_reservation (Some n) (Some c) d t uid s =
    (Inr (next_res_id s), s\<lparr>next_res_id := next_res_id s + 1,
       reservations := reservations s @
         [\<lparr>res_id = next_res_id s, customer_name = n, contact_info = c, reservation_date = d,
           reservation_time = t, status = Pending, res_user = uid\<rparr>]\<rparr>)"
  using assms by (auto simp: insert_reservation_def Let_def split: option.splits)

lemma insert_reservation_sel [simp]:
  "users (snd (insert_reservation n c d t uid s)) = users s"
  "dining_tables (snd (insert_reservation n c d t uid s)) = dining_tables s"
  "reservation_tables (snd (insert_reservation n c d t uid s)) = reservation_tables s"
  "next_user_id (snd (insert_reservation n c d t uid s)) = next_user_id s"
  "next_res_id (snd (insert_reservation n c d t uid s)) =
     (if n = None \<or> c = None then next_res_id s else next_res_id s + 1)"
  by (auto simp: insert_reservation_def Let_def split: option.splits)

lemma insert_assocs_sel:
  "users (snd (insert_assocs rid ts s)) = users s \<and> reservations (snd (insert_assocs rid ts s)) = reservations s
   \<and> dining_tables (snd (insert_assocs rid ts s)) = dining_tables s
   \<and> next_user_id (snd (insert_assocs rid ts s)) = next_user_id s
   \<and> next_res_id (snd (insert_assocs rid ts s)) = next_res_id s"
proof (induction ts arbitrary: s)
  case Nil
  then show ?case by simp
next
  case (Cons t ts)
  then show ?case by (simp add: insert_assoc_def split: prod.split sum.split)
qed

lemma insert_reservation_selD:
  "insert_reservation n c d t uid s = (r, s') \<Longrightarrow>
   users s' = users s \<and> dining_tables s' = dining_tables s \<and> reservation_tables s' = reservation_tables s
   \<and> next_user_id s' = next_user_id s
   \<and> next_res_id s' = (if n = None \<or> c = None then next_res_id s else next_res_id s + 1)"
  using insert_reservation_sel [of n c d t uid s] by simp

lemma insert_assocs_selD:
  "insert_assocs rid ts s = (r, s') \<Longrightarrow>
   users s' = users s \<and> reservations s' = reservations s \<and> dining_tables s' = dining_tables s
   \<and> next_user_id s' = next_user_id s \<and> next_res_id s' = next_res_id s"
  using insert_assocs_sel [of rid ts s] by simp

lemma insert_assocs_InrD:
  "insert_assocs rid ts s = (Inr u, s') \<Longrightarrow>
   s' = s\<lparr>reservation_tables := reservation_tables s @ map (Pair rid) ts\<rparr> \<and> set ts \<subseteq> table_ids s"
proof (induction ts arbitrary: s)
  case Nil
  then show ?case by simp
next
  case (Cons t ts)
  let ?s1 = "s\<lparr>reservation_tables := reservation_tables s @ [(rid, t)]\<rparr>"
  from Cons.prems have t: "t \<in> table_ids s" and rest: "insert_assocs rid ts ?s1 = (Inr u, s')"
    by (auto simp: insert_assoc_def split: if_splits)
  from Cons.IH [OF rest] have "s' = ?s1\<lparr>reservation_tables := reservation_tables ?s1 @ map (Pair rid) ts\<rparr>"
    and "set ts \<subseteq> table_ids ?s1" by auto
  with t show ?case by (simp add: table_ids_def)
qed

lemma insert_assocs_missing_table:
  assumes "rid \<in> res_ids s" "\<forall>t \<in> set ts. (rid, t) \<notin> set (reservation_tables s)" "distinct ts"
    "\<not> set ts \<subseteq> table_ids s"
  shows "fst (insert_assocs rid ts s) = Inl (IntegrityError ''reservation_tables.table_id'')"
  using assms
proof (induction ts arbitrary: s)
  case Nil
  then show ?case by simp
next
  case (Cons t ts)
  show ?case
  proof (cases "t \<in> table_ids s")
    case False
    with Cons.prems show ?thesis by (simp add: insert_assoc_def)
  next
    case True
    let ?s1 = "s\<lparr>reservation_tables := reservation_tables s @ [(rid, t)]\<rparr>"
    from True Cons.prems have step: "insert_assoc rid t s = (Inr (), ?s1)"
      by (simp add: insert_assoc_def)
    have "fst (insert_assocs rid ts ?s1) = Inl (IntegrityError ''reservation_tables.table_id'')"
      by (rule Cons.IH) (use Cons.prems True in \<open>auto simp: res_ids_def table_ids_def\<close>)
    with step show ?thesis by simp
  qed
qed

lemma wf_db_bump_res:
  "wf_db s \<Longrightarrow> next_res_id s \<le> k \<Longrightarrow> wf_db (s\<lparr>next_res_id := k\<rparr>)"
  by (fastforce simp: wf_db_def wf_store_def has_table_def fk_user_def user_ids_def res_ids_def table_ids_def)

end
