(* ===== verification/Booking.thy ===== *)
theory Booking
  imports Entities
begin

text \<open>
  The booking coordinator: the handler \<open>create_reservation\<close> of
  \<open>POST /api/reservations\<close> (app.py lines 108--132). The request body is a
  record of JSON fields; the handler checks that all six keys are present and
  that \<open>table_ids\<close> is truthy, de-duplicates the table ids
  (\<open>list(set(...))\<close>), and then runs one unit of work: parse the date and the
  time, insert the reservation and flush it, insert one association row per
  table id, commit. Any exception rolls the unit of work back and answers
  500. The handler does not consult the availability of the tables.
\<close>

record create_body =
  cb_name :: "string field"
  cb_contact :: "string field"
  cb_date :: "string field"
  cb_time :: "string field"
  cb_table_ids :: "int list field"
  cb_user_id :: "int field"

text \<open>\<open>all(field in data for field in required_fields)\<close>.\<close>

definition required_present :: "create_body \<Rightarrow> bool" where
  "required_present b \<longleftrightarrow> present (cb_name b) \<and> present (cb_contact b) \<and> present (cb_date b)
     \<and> present (cb_time b) \<and> present (cb_table_ids b) \<and> present (cb_user_id b)"

fun field_list :: "'a list field \<Rightarrow> 'a list" where
  "field_list (Val xs) = xs"
| "field_list _ = []"

text \<open>\<open>datetime.strptime(data[k], fmt)\<close>: \<open>TypeError\<close> on \<open>None\<close>, \<open>ValueError\<close>
  on a string that does not parse.\<close>

definition parse_arg :: "(string \<Rightarrow> 'a option) \<Rightarrow> string field \<Rightarrow> 'a uow" where
  "parse_arg p f s =
     (case f of
        Val x \<Rightarrow> (case p x of Some v \<Rightarrow> (Inr v, s) | None \<Rightarrow> (Inl ValueError, s))
      | _ \<Rightarrow> (Inl TypeError, s))"

text \<open>The body of the \<open>try\<close> block, lines 118--128.\<close>

definition create_uow :: "create_body \<Rightarrow> int list \<Rightarrow> int uow" where
  "create_uow b ids =
     uow_bind (parse_arg parse_date (cb_date b)) (\<lambda>d.
     uow_bind (parse_arg parse_time (cb_time b)) (\<lambda>t.
     uow_bind (insert_reservation (get_field (cb_name b)) (get_field (cb_contact b)) d t
                 (get_field (cb_user_id b))) (\<lambda>rid.
     uow_bind (insert_assocs rid ids) (\<lambda>_ s. (Inr rid, s)))))"

definition create_reservation :: "create_body \<Rightarrow> db \<Rightarrow> response \<times> db" where
  "create_reservation b s =
     (if \<not> required_present b \<or> \<not> truthy (cb_table_ids b)
      then ((400, Error ''Missing required fields''), s)
      else (let unique_table_ids = remdups (field_list (cb_table_ids b))
            in case run_uow (create_uow b unique_table_ids) s of
                 (Inr rid, s') \<Rightarrow> ((201, Created ''Reservation successful!'' rid), s')
               | (Inl e, s') \<Rightarrow> ((500, ErrorExn e), s')))"

text \<open>The preconditions of a successful booking, as the code checks them.\<close>

definition user_ref_ok :: "db \<Rightarrow> int field \<Rightarrow> bool" where
  "user_ref_ok s f = (case f of Missing \<Rightarrow> False | Null \<Rightarrow> True | Val u \<Rightarrow> u \<in> user_ids s)"

text \<open>The state a successful booking commits.\<close>

definition booked_state :: "db \<Rightarrow> string \<Rightarrow> string \<Rightarrow> date \<Rightarrow> time_of_day \<Rightarrow> int option \<Rightarrow> int list \<Rightarrow> db" where
  "booked_state s n c d t uid ids =
     s\<lparr>next_res_id := next_res_id s + 1,
       reservations := reservations s @
         [\<lparr>res_id = next_res_id s, customer_name = n, contact_info = c, reservation_date = d,
           reservation_time = t, status = Pending, res_user = uid\<rparr>],
       reservation_tables := reservation_tables s @ map (Pair (next_res_id s)) ids\<rparr>"

text \<open>The request of the specification's scenario, with table \<open>1\<close> named twice.\<close>

definition demo_body :: create_body where
  "demo_body = \<lparr>cb_name = Val ''Ann'', cb_contact = Val ''555'', cb_date = Val ''2025-07-04'',
                cb_time = Val ''18:00'', cb_table_ids = Val [1, 2, 1], cb_user_id = Val 1\<rparr>"

section \<open>The unit of work\<close>

lemma create_uow_ok:
  assumes "wf_store s" "distinct ids" "set ids \<subseteq> table_ids s"
    "cb_date b = Val ds" "parse_date ds = Some d" "cb_time b = Val ts" "parse_time ts = Some t"
    "cb_name b = Val n" "cb_contact b = Val c" "user_ref_ok s (cb_user_id b)"
  shows "create_uow b ids s = (Inr (next_res_id s),
           booked_state s n c d t (get_field (cb_user_id b)) ids)"
proof -
  let ?uid = "get_field (cb_user_id b)"
  let ?s1 = "s\<lparr>next_res_id := next_res_id s + 1,
       reservations := reservations s @
         [\<lparr>res_id = next_res_id s, customer_name = n, contact_info = c, reservation_date = d,
           reservation_time = t, status = Pending, res_user = ?uid\<rparr>]\<rparr>"
  from assms(10) have uid: "set_option ?uid \<subseteq> user_ids s"
    by (cases "cb_user_id b") (auto simp: user_ref_ok_def)
  have ins: "insert_reservation (Some n) (Some c) d t ?uid s = (Inr (next_res_id s), ?s1)"
    using insert_reservation_ok [OF uid] .
  have "insert_assocs (next_res_id s) ids ?s1 =
          (Inr (), ?s1\<lparr>reservation_tables := reservation_tables ?s1 @ map (Pair (next_res_id s)) ids\<rparr>)"
    using assms(1-3) wf_store_fresh_rid [OF assms(1)]
    by (intro insert_assocs_ok) (auto simp: table_ids_def res_ids_def)
  with ins assms(4-9) show ?thesis
    by (simp add: create_uow_def uow_bind_def parse_arg_def booked_state_def)
qed

lemma create_uow_counters:
  "next_user_id (snd (create_uow b ids s)) = next_user_id s \<and>
   next_res_id s \<le> next_res_id (snd (create_uow b ids s)) \<and>
   next_res_id (snd (create_uow b ids s)) \<le> next_res_id s + 1 \<and>
   users (snd (create_uow b ids s)) = users s \<and> dining_tables (snd (create_uow b ids s)) = dining_tables s"
  by (auto simp: create_uow_def uow_bind_def parse_arg_def
      split: field.split option.split prod.split sum.split
      dest!: insert_assocs_selD insert_reservation_selD)

lemma create_uow_InrD:
  assumes "create_uow b ids s = (Inr rid, s')"
  shows "\<exists>n c d t. s' = booked_state s n c d t (get_field (cb_user_id b)) ids \<and> rid = next_res_id s
     \<and> set ids \<subseteq> table_ids s \<and> set_option (get_field (cb_user_id b)) \<subseteq> user_ids s"
  using assms
  by (auto simp: create_uow_def uow_bind_def parse_arg_def insert_reservation_def Let_def booked_state_def
      table_ids_def split: field.splits option.splits prod.splits sum.splits if_splits
      dest!: insert_assocs_InrD) blast+

lemma wf_store_booked_state:
  assumes "wf_store s" "distinct ids" "set ids \<subseteq> table_ids s" "set_option uid \<subseteq> user_ids s"
  shows "wf_store (booked_state s n c d t uid ids)"
proof -
  let ?rid = "next_res_id s"
  from assms(1) have fresh: "?rid \<notin> res_ids s" and below: "\<forall>r \<in> set (reservations s). res_id r < ?rid"
    by (auto simp: wf_store_def res_ids_def)
  have pairs: "\<forall>t. (?rid, t) \<notin> set (reservation_tables s)"
    using wf_store_fresh_rid [OF assms(1)] by blast
  show ?thesis
    using assms fresh pairs below
    by (auto simp: wf_store_def booked_state_def fk_user_def user_ids_def res_ids_def table_ids_def)
qed

lemma wf_db_booked_state:
  assumes "wf_db s" "distinct ids" "ids \<noteq> []" "set ids \<subseteq> table_ids s"
    "set_option uid \<subseteq> user_ids s"
  shows "wf_db (booked_state s n c d t uid ids)"
  unfolding wf_db_def
proof
  from assms(1) have ws: "wf_store s" and ht: "\<forall>r \<in> set (reservations s). has_table s r"
    by (auto simp: wf_db_def)
  from ws assms(2,4,5) show "wf_store (booked_state s n c d t uid ids)" by (rule wf_store_booked_state)
  from assms(3) obtain i where "i \<in> set ids" by (cases ids) auto
  then show "\<forall>r \<in> set (reservations (booked_state s n c d t uid ids)). has_table (booked_state s n c d t uid ids) r"
    using ht unfolding booked_state_def has_table_def by force
qed

text \<open>The booking handler keeps the store invariant: keys distinct and below
  their counters, every foreign key resolved, and every reservation holding at
  least one table.\<close>

lemma create_reservation_wf: "wf_db s \<Longrightarrow> wf_db (snd (create_reservation b s))"
proof -
  assume wf: "wf_db s"
  show ?thesis
  proof (cases "\<not> required_present b \<or> \<not> truthy (cb_table_ids b)")
    case True
    with wf show ?thesis by (simp add: create_reservation_def)
  next
    case False
    let ?xs = "field_list (cb_table_ids b)"
    obtain r s1 where run: "create_uow b (remdups ?xs) s = (r, s1)" by (cases "create_uow b (remdups ?xs) s")
    from False have ne: "?xs \<noteq> []" by (cases "cb_table_ids b") auto
    show ?thesis
    proof (cases r)
      case (Inl e)
      have "next_user_id s1 = next_user_id s" "next_res_id s \<le> next_res_id s1"
        using create_uow_counters [of b "remdups ?xs" s] run by simp_all
      with False run Inl wf show ?thesis
        by (simp add: create_reservation_def run_uow_def rollback_def wf_db_bump_res)
    next
      case (Inr rid)
      with run obtain n c d t where "s1 = booked_state s n c d t (get_field (cb_user_id b)) (remdups ?xs)"
        and "set ?xs \<subseteq> table_ids s" and "set_option (get_field (cb_user_id b)) \<subseteq> user_ids s"
        using create_uow_InrD by fastforce
      with False run Inr wf ne show ?thesis
        by (simp add: create_reservation_def run_uow_def wf_db_booked_state)
    qed
  qed
qed

text \<open>What a booking does to the rest of the store: the users and the dining
  tables are untouched, the reservation counter never decreases, and every
  reservation it adds carries the date and time the request's strings parse
  to.\<close>

lemma create_uow_InrD_parsed:
  assumes "create_uow b ids s = (Inr rid, s')"
  shows "\<exists>ds ts d t n c. cb_date b = Val ds \<and> parse_date ds = Some d \<and> cb_time b = Val ts
     \<and> parse_time ts = Some t \<and> s' = booked_state s n c d t (get_field (cb_user_id b)) ids"
  using assms
  by (auto simp: create_uow_def uow_bind_def parse_arg_def insert_reservation_def Let_def booked_state_def
      split: field.splits option.splits prod.splits sum.splits if_splits
      dest!: insert_assocs_InrD) blast+

lemma create_reservation_frame:
  "users (snd (create_reservation b s)) = users s
   \<and> dining_tables (snd (create_reservation b s)) = dining_tables s
   \<and> next_user_id (snd (create_reservation b s)) = next_user_id s
   \<and> next_res_id s \<le> next_res_id (snd (create_reservation b s))
   \<and> next_res_id (snd (create_reservation b s)) \<le> next_res_id s + 1"
  using create_uow_counters [of b "remdups (field_list (cb_table_ids b))" s]
  by (auto simp: create_reservation_def run_uow_def rollback_def Let_def split: prod.split sum.split)

lemma create_reservation_rows:
  assumes "r \<in> set (reservations (snd (create_reservation b s)))"
  shows "r \<in> set (reservations s) \<or> (\<exists>ds ts. cb_date b = Val ds \<and> parse_date ds = Some (reservation_date r)
           \<and> cb_time b = Val ts \<and> parse_time ts = Some (reservation_time r))"
proof -
  obtain x s1 where run: "create_uow b (remdups (field_list (cb_table_ids b))) s = (x, s1)"
    by fastforce
  show ?thesis
  proof (cases x)
    case (Inl e)
    with run assms show ?thesis
      by (auto simp: create_reservation_def run_uow_def rollback_def split: if_splits)
  next
    case (Inr rid)
    with run obtain ds ts d t n c where "cb_date b = Val ds" "parse_date ds = Some d" "cb_time b = Val ts"
      "parse_time ts = Some t" "s1 = booked_state s n c d t (get_field (cb_user_id b)) (remdups (field_list (cb_table_ids b)))"
      using create_uow_InrD_parsed by blast
    with Inr run assms show ?thesis
      by (auto simp: create_reservation_def run_uow_def booked_state_def split: if_splits)
  qed
qed

text \<open>A 201 answer: the request named a list of existing tables, and the store
  committed is the booked state with the next id.\<close>

lemma create_reservation_201D:
  assumes "fst (create_reservation b s) = (201, Created msg rid)"
  shows "\<exists>xs n c d t. cb_table_ids b = Val xs \<and> rid = next_res_id s \<and> set xs \<subseteq> table_ids s
     \<and> snd (create_reservation b s) = booked_state s n c d t (get_field (cb_user_id b)) (remdups xs)"
proof -
  let ?ids = "remdups (field_list (cb_table_ids b))"
  obtain x s1 where run: "create_uow b ?ids s = (x, s1)" by fastforce
  from assms have ok: "required_present b \<and> truthy (cb_table_ids b)"
    by (auto simp: create_reservation_def split: if_splits)
  then obtain xs where xs: "cb_table_ids b = Val xs" by (cases "cb_table_ids b") auto
  from assms ok run have "x = Inr rid"
    by (cases x) (auto simp: create_reservation_def run_uow_def)
  with run obtain n c d t where "s1 = booked_state s n c d t (get_field (cb_user_id b)) ?ids"
    "rid = next_res_id s" "set ?ids \<subseteq> table_ids s"
    using create_uow_InrD by blast
  with ok run xs \<open>x = Inr rid\<close> show ?thesis
    by (auto simp: create_reservation_def run_uow_def)
qed

lemma tables_of_booked:
  assumes "wf_store s" "set ids \<subseteq> table_ids s"
  shows "map table_id (tables_of (booked_state s n c d t uid ids) (next_res_id s)) =
           filter (\<lambda>i. i \<in> set ids) (map table_id (dining_tables s))"
proof -
  have "(next_res_id s, i) \<in> set (reservation_tables (booked_state s n c d t uid ids)) \<longleftrightarrow> i \<in> set ids" for i
    using wf_store_fresh_rid [OF assms(1), of i] by (auto simp: booked_state_def)
  then show ?thesis
    by (simp add: tables_of_def booked_state_def filter_map comp_def)
qed

section \<open>Properties of the handler\<close>

text \<open>C2. A booking request whose six fields are present, whose table list is non-empty and names existing tables, whose date and time parse, whose name and contact are not null and whose user is null or registered is answered 201 with the next reservation id, and commits exactly one new Pending reservation with those values and one association row per distinct requested table.\<close>

theorem create_reservation_success:
  assumes "wf_store s" "cb_table_ids b = Val xs" "xs \<noteq> []" "set xs \<subseteq> table_ids s"
    "cb_date b = Val ds" "parse_date ds = Some d" "cb_time b = Val ts" "parse_time ts = Some t"
    "cb_name b = Val n" "cb_contact b = Val c" "user_ref_ok s (cb_user_id b)"
  shows "create_reservation b s =
    ((201, Created ''Reservation successful!'' (next_res_id s)),
     booked_state s n c d t (get_field (cb_user_id b)) (remdups xs))"
proof -
  from assms(11) have "present (cb_user_id b)" by (cases "cb_user_id b") (auto simp: user_ref_ok_def)
  with assms(2,3,5,7,9,10) have valid: "required_present b \<and> truthy (cb_table_ids b)"
    by (simp add: required_present_def)
  have "create_uow b (remdups xs) s = (Inr (next_res_id s), booked_state s n c d t (get_field (cb_user_id b)) (remdups xs))"
    using assms by (intro create_uow_ok) auto
  with valid assms(2) show ?thesis by (simp add: create_reservation_def run_uow_def)
qed

theorem create_reservation_success_witness:
  "create_reservation demo_body demo_db =
    ((201, Created ''Reservation successful!'' 1),
     booked_state demo_db ''Ann'' ''555'' \<lparr>year = 2025, month = 7, day = 4\<rparr> \<lparr>hour = 18, minute = 0\<rparr> (Some 1) [2, 1])"
proof -
  have "parse_date ''2025-07-04'' = Some \<lparr>year = 2025, month = 7, day = 4\<rparr>" by code_simp
  moreover have "parse_time ''18:00'' = Some \<lparr>hour = 18, minute = 0\<rparr>" by code_simp
  moreover note wf_store_demo_db
  ultimately show ?thesis
    using create_reservation_success [of demo_db demo_body "[1, 2, 1]" "''2025-07-04''" _ "''18:00''" _ "''Ann''" "''555''"]
    by (simp add: demo_body_def demo_db_def user_ref_ok_def table_ids_def user_ids_def)
qed

text \<open>C3. Atomicity: whenever the booking handler does not answer 201, the store afterwards is the store before the request except for the reservation id counter; no reservation row and no association row of the failed request survives the rollback.\<close>

theorem create_reservation_atomic:
  assumes "fst (fst (create_reservation b s)) \<noteq> 201"
  shows "snd (create_reservation b s) = s\<lparr>next_res_id := next_res_id (snd (create_reservation b s))\<rparr>"
proof (cases "\<not> required_present b \<or> \<not> truthy (cb_table_ids b)")
  case True
  then show ?thesis by (simp add: create_reservation_def)
next
  case False
  let ?ids = "remdups (field_list (cb_table_ids b))"
  obtain r s1 where run: "create_uow b ?ids s = (r, s1)" by (cases "create_uow b ?ids s")
  have "next_user_id s1 = next_user_id s" using create_uow_counters [of b ?ids s] run by simp
  with False run assms show ?thesis
    by (cases r) (auto simp: create_reservation_def run_uow_def rollback_def)
qed

theorem create_reservation_atomic_witness:
  "snd (create_reservation (demo_body\<lparr>cb_table_ids := Val [1, 7]\<rparr>) demo_db) = demo_db\<lparr>next_res_id := 2\<rparr>"
proof -
  have "fst (create_reservation (demo_body\<lparr>cb_table_ids := Val [1, 7]\<rparr>) demo_db) =
        (500, ErrorExn (IntegrityError ''reservation_tables.table_id''))"
    by code_simp
  moreover have "next_res_id (snd (create_reservation (demo_body\<lparr>cb_table_ids := Val [1, 7]\<rparr>) demo_db)) = 2"
    by code_simp
  ultimately show ?thesis
    using create_reservation_atomic [of "demo_body\<lparr>cb_table_ids := Val [1, 7]\<rparr>" demo_db] by simp
qed

text \<open>De-duplication: after a successful booking, reading the new reservation back shows exactly the tables whose ids were requested, and the association table holds exactly one row per distinct requested id.\<close>

theorem create_reservation_dedup:
  assumes "wf_store s" "cb_table_ids b = Val xs" "xs \<noteq> []" "set xs \<subseteq> table_ids s"
    "cb_date b = Val ds" "parse_date ds = Some d" "cb_time b = Val ts" "parse_time ts = Some t"
    "cb_name b = Val n" "cb_contact b = Val c" "user_ref_ok s (cb_user_id b)"
    "create_reservation b s = ((201, Created msg rid), s')"
  shows "tables_of s' rid = filter (\<lambda>tb. table_id tb \<in> set xs) (dining_tables s)
     \<and> length (filter (\<lambda>p. fst p = rid) (reservation_tables s')) = card (set xs)"
proof -
  from assms(11) have "present (cb_user_id b)" by (cases "cb_user_id b") (auto simp: user_ref_ok_def)
  with assms(2,3,5,7,9,10) have valid: "required_present b \<and> truthy (cb_table_ids b)"
    by (simp add: required_present_def)
  have "create_uow b (remdups xs) s = (Inr (next_res_id s), booked_state s n c d t (get_field (cb_user_id b)) (remdups xs))"
    using assms by (intro create_uow_ok) auto
  with valid assms(2,12) have rid: "rid = next_res_id s"
    and s': "s' = booked_state s n c d t (get_field (cb_user_id b)) (remdups xs)"
    by (simp_all add: create_reservation_def run_uow_def)
  have old: "\<And>tb. (rid, tb) \<notin> set (reservation_tables s)" using wf_store_fresh_rid [OF assms(1)] rid by simp
  then have "filter (\<lambda>p. fst p = rid) (reservation_tables s) = []" by (auto simp: filter_empty_conv)
  moreover have "filter (\<lambda>p. fst p = rid) (map (Pair rid) (remdups xs)) = map (Pair rid) (remdups xs)"
    by simp
  ultimately show ?thesis using old s' rid
    by (simp add: tables_of_def booked_state_def length_remdups_card_conv)
qed

theorem create_reservation_dedup_witness:
  "length (filter (\<lambda>p. fst p = 1) (reservation_tables (snd (create_reservation demo_body demo_db)))) = 2"
proof -
  have "parse_date ''2025-07-04'' = Some \<lparr>year = 2025, month = 7, day = 4\<rparr>" by code_simp
  moreover have "parse_time ''18:00'' = Some \<lparr>hour = 18, minute = 0\<rparr>" by code_simp
  moreover note wf_store_demo_db
  moreover have "set [1, 2, 1] \<subseteq> table_ids demo_db" by (simp add: demo_db_def table_ids_def)
  moreover have "user_ref_ok demo_db (cb_user_id demo_body)"
    by (simp add: demo_db_def demo_body_def user_ref_ok_def user_ids_def)
  moreover have "create_reservation demo_body demo_db = ((201, Created ''Reservation successful!'' 1),
       snd (create_reservation demo_body demo_db))" by code_simp
  ultimately have "tables_of (snd (create_reservation demo_body demo_db)) 1 =
      filter (\<lambda>tb. table_id tb \<in> set [1, 2, 1]) (dining_tables demo_db) \<and>
      length (filter (\<lambda>p. fst p = 1) (reservation_tables (snd (create_reservation demo_body demo_db)))) =
      card (set [1, 2, (1::int)])"
    by (intro create_reservation_dedup [of demo_db demo_body "[1, 2, 1]" "''2025-07-04''" _ "''18:00''" _
        "''Ann''" "''555''"]) (simp_all add: demo_body_def)
  then show ?thesis by (simp add: card_insert_if)
qed

text \<open>C8. A booking that names a table id with no dining table fails with the foreign-key error of the store on reservation_tables.table_id and answers 500; the store is left as before, with one reservation id consumed.\<close>

theorem create_reservation_unknown_table:
  assumes "wf_store s" "cb_table_ids b = Val xs" "xs \<noteq> []" "\<not> set xs \<subseteq> table_ids s"
    "cb_date b = Val ds" "parse_date ds = Some d" "cb_time b = Val ts" "parse_time ts = Some t"
    "cb_name b = Val n" "cb_contact b = Val c" "user_ref_ok s (cb_user_id b)"
  shows "create_reservation b s =
    ((500, ErrorExn (IntegrityError ''reservation_tables.table_id'')), s\<lparr>next_res_id := next_res_id s + 1\<rparr>)"
proof -
  let ?uid = "get_field (cb_user_id b)"
  let ?rid = "next_res_id s"
  let ?s1 = "s\<lparr>next_res_id := next_res_id s + 1,
       reservations := reservations s @
         [\<lparr>res_id = next_res_id s, customer_name = n, contact_info = c, reservation_date = d,
           reservation_time = t, status = Pending, res_user = ?uid\<rparr>]\<rparr>"
  from assms(11) have "present (cb_user_id b)" and uid: "set_option ?uid \<subseteq> user_ids s"
    by (cases "cb_user_id b"; auto simp: user_ref_ok_def)+
  with assms(2,3,5,7,9,10) have valid: "required_present b \<and> truthy (cb_table_ids b)"
    by (simp add: required_present_def)
  have ins: "insert_reservation (Some n) (Some c) d t ?uid s = (Inr ?rid, ?s1)"
    using insert_reservation_ok [OF uid] .
  have miss: "fst (insert_assocs ?rid (remdups xs) ?s1) = Inl (IntegrityError ''reservation_tables.table_id'')"
    using assms(4) wf_store_fresh_rid [OF assms(1)]
    by (intro insert_assocs_missing_table) (auto simp: res_ids_def table_ids_def)
  obtain s2 where s2: "insert_assocs ?rid (remdups xs) ?s1 = (Inl (IntegrityError ''reservation_tables.table_id''), s2)"
    using miss by (cases "insert_assocs ?rid (remdups xs) ?s1") auto
  have "next_user_id s2 = next_user_id s" "next_res_id s2 = next_res_id s + 1"
    using insert_assocs_selD [OF s2] by simp_all
  with ins s2 valid assms(2,5-10) show ?thesis
    by (simp add: create_reservation_def run_uow_def create_uow_def uow_bind_def parse_arg_def rollback_def)
qed

theorem create_reservation_unknown_table_witness:
  "create_reservation (demo_body\<lparr>cb_table_ids := Val [1, 7]\<rparr>) demo_db =
    ((500, ErrorExn (IntegrityError ''reservation_tables.table_id'')), demo_db\<lparr>next_res_id := 2\<rparr>)"
proof -
  have "parse_date ''2025-07-04'' = Some \<lparr>year = 2025, month = 7, day = 4\<rparr>" by code_simp
  moreover have "parse_time ''18:00'' = Some \<lparr>hour = 18, minute = 0\<rparr>" by code_simp
  moreover note wf_store_demo_db
  ultimately show ?thesis
    using create_reservation_unknown_table [of demo_db "demo_body\<lparr>cb_table_ids := Val [1, 7]\<rparr>" "[1, 7]"
        "''2025-07-04''" _ "''18:00''" _ "''Ann''" "''555''"]
    by (simp add: demo_body_def demo_db_def user_ref_ok_def table_ids_def user_ids_def)
qed

text \<open>C12. A request whose date does not parse as \<open>%Y-%m-%d\<close> (including a calendar-invalid date such as 2025-02-30) is answered 500 with ValueError, not 400, and leaves the store unchanged: the date is parsed before the flush, so no id is consumed.\<close>

theorem create_reservation_bad_date:
  assumes "required_present b" "truthy (cb_table_ids b)" "cb_date b = Val ds" "parse_date ds = None"
  shows "create_reservation b s = ((500, ErrorExn ValueError), s)"
  using assms by (simp add: create_reservation_def run_uow_def create_uow_def uow_bind_def parse_arg_def rollback_def)

theorem create_reservation_bad_date_witness:
  "create_reservation (demo_body\<lparr>cb_date := Val ''2025-02-30''\<rparr>) demo_db = ((500, ErrorExn ValueError), demo_db)"
proof -
  have "parse_date ''2025-02-30'' = None" by code_simp
  then show ?thesis
    using create_reservation_bad_date [of "demo_body\<lparr>cb_date := Val ''2025-02-30''\<rparr>" "''2025-02-30''" demo_db]
    by (simp add: demo_body_def required_present_def)
qed

text \<open>C25. A name or contact given as \<open>null\<close> passes the presence check of
  line 112, then violates \<open>NOT NULL\<close> at the flush: the request is answered
  500 instead of 400, and the store, id counters included, is left unchanged.\<close>

theorem create_reservation_null_field:
  assumes "required_present b" "truthy (cb_table_ids b)" "cb_date b = Val ds" "parse_date ds = Some d"
    "cb_time b = Val ts" "parse_time ts = Some t" "cb_name b = Null \<or> cb_contact b = Null"
  shows "create_reservation b s =
    ((500, ErrorExn (IntegrityError ''reservations.not_null'')), s)"
  using assms
  by (auto simp: create_reservation_def run_uow_def create_uow_def uow_bind_def parse_arg_def
      insert_reservation_def rollback_def Let_def split: option.split)

theorem create_reservation_null_field_witness:
  "create_reservation (demo_body\<lparr>cb_name := Null\<rparr>) demo_db =
    ((500, ErrorExn (IntegrityError ''reservations.not_null'')), demo_db)"
proof -
  have "parse_date ''2025-07-04'' = Some \<lparr>year = 2025, month = 7, day = 4\<rparr>" by code_simp
  moreover have "parse_time ''18:00'' = Some \<lparr>hour = 18, minute = 0\<rparr>" by code_simp
  ultimately show ?thesis
    using create_reservation_null_field [of "demo_body\<lparr>cb_name := Null\<rparr>" "''2025-07-04''" _ "''18:00''" _ demo_db]
    by (simp add: demo_body_def demo_db_def required_present_def)
qed

text \<open>C9. The handler does not consult availability: a valid booking request
  sent twice is accepted twice with 201, with consecutive reservation ids, and
  leaves two Pending reservations for the same date and time, each holding
  every requested table.\<close>

theorem create_reservation_double_booking:
  assumes "wf_store s" "cb_table_ids b = Val xs" "xs \<noteq> []" "set xs \<subseteq> table_ids s"
    "cb_date b = Val ds" "parse_date ds = Some d" "cb_time b = Val ts" "parse_time ts = Some t"
    "cb_name b = Val n" "cb_contact b = Val c" "user_ref_ok s (cb_user_id b)"
    and s1: "s1 = snd (create_reservation b s)" and s2: "s2 = snd (create_reservation b s1)"
  shows "fst (create_reservation b s) = (201, Created ''Reservation successful!'' (next_res_id s))
    \<and> fst (create_reservation b s1) = (201, Created ''Reservation successful!'' (next_res_id s + 1))
    \<and> drop (length (reservations s)) (reservations s2) =
         [\<lparr>res_id = next_res_id s, customer_name = n, contact_info = c, reservation_date = d,
           reservation_time = t, status = Pending, res_user = get_field (cb_user_id b)\<rparr>,
          \<lparr>res_id = next_res_id s + 1, customer_name = n, contact_info = c, reservation_date = d,
           reservation_time = t, status = Pending, res_user = get_field (cb_user_id b)\<rparr>]
    \<and> (\<forall>i \<in> set xs. (next_res_id s, i) \<in> set (reservation_tables s2)
                     \<and> (next_res_id s + 1, i) \<in> set (reservation_tables s2))"
proof -
  let ?uid = "get_field (cb_user_id b)"
  let ?b1 = "booked_state s n c d t ?uid (remdups xs)"
  from assms(11) have "present (cb_user_id b)" by (cases "cb_user_id b") (auto simp: user_ref_ok_def)
  with assms(2,3,5,7,9,10) have valid: "required_present b \<and> truthy (cb_table_ids b)"
    by (simp add: required_present_def)
  from assms(11) have uid: "set_option ?uid \<subseteq> user_ids s"
    by (cases "cb_user_id b") (auto simp: user_ref_ok_def)
  have run1: "create_uow b (remdups xs) s = (Inr (next_res_id s), ?b1)"
    using assms(1-11) by (intro create_uow_ok) auto
  have wf1: "wf_store ?b1" using assms(1,4) uid by (intro wf_store_booked_state) auto
  have tab1: "table_ids ?b1 = table_ids s" and usr1: "user_ids ?b1 = user_ids s"
    by (simp_all add: booked_state_def table_ids_def user_ids_def)
  have "user_ref_ok ?b1 (cb_user_id b)" using assms(11) usr1
    by (cases "cb_user_id b") (simp_all add: user_ref_ok_def)
  then have run2: "create_uow b (remdups xs) ?b1 =
      (Inr (next_res_id ?b1), booked_state ?b1 n c d t ?uid (remdups xs))"
    using wf1 assms(2-10) tab1 by (intro create_uow_ok) auto
  have r1: "create_reservation b s = ((201, Created ''Reservation successful!'' (next_res_id s)), ?b1)"
    using valid assms(2) run1 by (simp add: create_reservation_def run_uow_def)
  have r2: "create_reservation b ?b1 = ((201, Created ''Reservation successful!'' (next_res_id s + 1)),
      booked_state ?b1 n c d t ?uid (remdups xs))"
    using valid assms(2) run2 by (simp add: create_reservation_def run_uow_def booked_state_def)
  from s1 s2 r1 r2 show ?thesis by (simp add: booked_state_def)
qed

theorem create_reservation_double_booking_witness:
  "fst (create_reservation demo_body demo_db) = (201, Created ''Reservation successful!'' 1)
    \<and> fst (create_reservation demo_body (snd (create_reservation demo_body demo_db))) =
        (201, Created ''Reservation successful!'' 2)
    \<and> drop 0 (reservations (snd (create_reservation demo_body (snd (create_reservation demo_body demo_db))))) =
         [\<lparr>res_id = 1, customer_name = ''Ann'', contact_info = ''555'', reservation_date = \<lparr>year = 2025, month = 7, day = 4\<rparr>,
           reservation_time = \<lparr>hour = 18, minute = 0\<rparr>, status = Pending, res_user = Some 1\<rparr>,
          \<lparr>res_id = 2, customer_name = ''Ann'', contact_info = ''555'', reservation_date = \<lparr>year = 2025, month = 7, day = 4\<rparr>,
           reservation_time = \<lparr>hour = 18, minute = 0\<rparr>, status = Pending, res_user = Some 1\<rparr>]
    \<and> {(1, 1), (1, 2), (2, 1), (2, 2)} \<subseteq>
         set (reservation_tables (snd (create_reservation demo_body (snd (create_reservation demo_body demo_db)))))"
proof -
  have "parse_date ''2025-07-04'' = Some \<lparr>year = 2025, month = 7, day = 4\<rparr>" by code_simp
  moreover have "parse_time ''18:00'' = Some \<lparr>hour = 18, minute = 0\<rparr>" by code_simp
  moreover note wf_store_demo_db
  ultimately show ?thesis
    using create_reservation_double_booking [of demo_db demo_body "[1, 2, 1]" "''2025-07-04''" _ "''18:00''" _
        "''Ann''" "''555''" "snd (create_reservation demo_body demo_db)"
        "snd (create_reservation demo_body (snd (create_reservation demo_body demo_db)))"]
    by (simp add: demo_body_def demo_db_def user_ref_ok_def table_ids_def user_ids_def)
qed

end
