(* ===== verification/Availability.thy ===== *)
theory Availability
  imports Entities
begin

text \<open>
  The availability resolver: the handler \<open>get_table_status\<close> of
  \<open>GET /api/tables\<close> (app.py lines 96--106). It parses the date argument,
  selects the table ids of the association rows joined to a reservation of
  that date, whose time equals the time argument and whose status is
  \<open>Pending\<close> or \<open>Accepted\<close>, and renders every dining table with a flag
  saying whether its id is among them. The time argument is never parsed by
  the handler: it is compared with the \<open>TIME\<close> column as a string, which the
  store reads with \<open>sql_time_literal\<close> (MySQL's documented \<open>TIME\<close>
  literal formats). The abstract specification
  \<open>occupied\<close> is the predicate of section 3 of the specification; the main
  lemma of this theory says that the handler computes it.
\<close>

text \<open>\<open>Reservation.status.in_(['Pending', 'Accepted'])\<close>.\<close>

definition active :: "status \<Rightarrow> bool" where
  "active st \<longleftrightarrow> st \<in> set [Pending, Accepted]"

text \<open>The filter of the subquery on the joined reservation row.\<close>

definition slot_match :: "date \<Rightarrow> string \<Rightarrow> reservation \<Rightarrow> bool" where
  "slot_match d tstr r \<longleftrightarrow>
     reservation_date r = d \<and> sql_time_literal tstr = Some (reservation_time r) \<and> active (status r)"

text \<open>\<open>{item[0] for item in db.session.query(subquery.c.table_id).all()}\<close>: the
  \<open>table_id\<close> of every association row whose reservation matches.\<close>

definition booked_ids :: "db \<Rightarrow> date \<Rightarrow> string \<Rightarrow> int list" where
  "booked_ids s d tstr =
     remdups [snd p. p \<leftarrow> reservation_tables s,
                     list_ex (\<lambda>r. res_id r = fst p \<and> slot_match d tstr r) (reservations s)]"

text \<open>The list comprehension of line 105 over \<open>DiningTable.query.all()\<close>.\<close>

definition table_status_rows :: "db \<Rightarrow> int list \<Rightarrow> table_row list" where
  "table_status_rows s booked =
     map (\<lambda>tb. \<lparr>tr_id = table_id tb, tr_number = table_number tb, tr_capacity = capacity tb,
               tr_is_booked = (table_id tb \<in> set booked)\<rparr>) (dining_tables s)"

definition get_table_status :: "string option \<Rightarrow> string option \<Rightarrow> db \<Rightarrow> response" where
  "get_table_status date_arg time_arg s =
     (case (date_arg, time_arg) of
        (Some ds, Some ts) \<Rightarrow>
          if ds = [] \<or> ts = [] then (400, Error ''Date and time query parameters are required'')
          else (case parse_date ds of
                  None \<Rightarrow> (500, ErrorExn ValueError)
                | Some d \<Rightarrow> (200, Tables (table_status_rows s (booked_ids s d ts))))
      | _ \<Rightarrow> (400, Error ''Date and time query parameters are required''))"

section \<open>The specification\<close>

text \<open>Section 3: a table is occupied for a slot iff it is associated with at
  least one reservation for exactly that date and time whose status is
  \<open>Pending\<close> or \<open>Accepted\<close>.\<close>

definition occupied :: "db \<Rightarrow> date \<Rightarrow> time_of_day \<Rightarrow> int set" where
  "occupied s d t = {tid. \<exists>r \<in> set (reservations s). (res_id r, tid) \<in> set (reservation_tables s)
       \<and> reservation_date r = d \<and> reservation_time r = t \<and> status r \<in> {Pending, Accepted}}"

text \<open>The rows the handler should render for a slot.\<close>

definition spec_rows :: "db \<Rightarrow> date \<Rightarrow> time_of_day \<Rightarrow> table_row list" where
  "spec_rows s d t =
     map (\<lambda>tb. \<lparr>tr_id = table_id tb, tr_number = table_number tb, tr_capacity = capacity tb,
               tr_is_booked = (table_id tb \<in> occupied s d t)\<rparr>) (dining_tables s)"

text \<open>The store of the specification's availability example: reservation 1 for
  2025-07-04 at 18:00, accepted, holds table 1.\<close>

definition demo_booked :: db where
  "demo_booked = demo_db\<lparr>reservations := [\<lparr>res_id = 1, customer_name = ''Ann'', contact_info = ''555'',
       reservation_date = \<lparr>year = 2025, month = 7, day = 4\<rparr>, reservation_time = \<lparr>hour = 18, minute = 0\<rparr>,
       status = Accepted, res_user = Some 1\<rparr>],
     reservation_tables := [(1, 1)], next_res_id := 2\<rparr>"

section \<open>The booked set\<close>

lemma active_iff [simp]: "active st \<longleftrightarrow> st = Pending \<or> st = Accepted"
  by (simp add: active_def)

lemma set_booked_ids:
  "set (booked_ids s d tstr) =
     {tid. \<exists>r \<in> set (reservations s). (res_id r, tid) \<in> set (reservation_tables s) \<and> slot_match d tstr r}"
  by (force simp: booked_ids_def list_ex_iff)

lemma booked_ids_occupied:
  "sql_time_literal tstr = Some t \<Longrightarrow> set (booked_ids s d tstr) = occupied s d t"
  by (auto simp: set_booked_ids occupied_def slot_match_def)

section \<open>Properties of the handler\<close>

text \<open>C1. Refinement: for a date that parses and a time the store reads, the
  handler answers 200 with one row per dining table, in table order, whose
  flag is set exactly when the table is occupied for that slot in the sense of
  the specification (associated with a Pending or Accepted reservation of that
  exact date and time).\<close>

theorem get_table_status_refines:
  assumes "ds \<noteq> []" "ts \<noteq> []" "parse_date ds = Some d" "sql_time_literal ts = Some t"
  shows "get_table_status (Some ds) (Some ts) s = (200, Tables (spec_rows s d t))"
  using assms
  by (simp add: get_table_status_def table_status_rows_def spec_rows_def booked_ids_occupied)

theorem get_table_status_refines_witness:
  "get_table_status (Some ''2025-07-04'') (Some ''18:00'') demo_booked =
     (200, Tables [\<lparr>tr_id = 1, tr_number = ''T1'', tr_capacity = 4, tr_is_booked = True\<rparr>,
                   \<lparr>tr_id = 2, tr_number = ''T2'', tr_capacity = 2, tr_is_booked = False\<rparr>])"
proof -
  have "parse_date ''2025-07-04'' = Some \<lparr>year = 2025, month = 7, day = 4\<rparr>" by code_simp
  moreover have "sql_time_literal ''18:00'' = Some \<lparr>hour = 18, minute = 0\<rparr>" by code_simp
  ultimately have "get_table_status (Some ''2025-07-04'') (Some ''18:00'') demo_booked =
      (200, Tables (spec_rows demo_booked \<lparr>year = 2025, month = 7, day = 4\<rparr> \<lparr>hour = 18, minute = 0\<rparr>))"
    by (intro get_table_status_refines) simp_all
  then show ?thesis
    by (simp add: spec_rows_def occupied_def demo_booked_def demo_db_def)
qed

text \<open>C13. A date argument that does not parse is answered 500 with the
  \<open>ValueError\<close> of \<open>strptime\<close>, where the specification asks for a 400
  \<open>InvalidDate\<close> error; a missing or empty argument is answered 400.\<close>

theorem get_table_status_bad_date:
  assumes "ds \<noteq> []" "ts \<noteq> []" "parse_date ds = None"
  shows "get_table_status (Some ds) (Some ts) s = (500, ErrorExn ValueError)
    \<and> get_table_status None (Some ts) s = (400, Error ''Date and time query parameters are required'')
    \<and> get_table_status (Some ds) (Some []) s = (400, Error ''Date and time query parameters are required'')"
  using assms by (simp add: get_table_status_def)

theorem get_table_status_bad_date_witness:
  "get_table_status (Some ''2025-13-01'') (Some ''18:00'') demo_booked = (500, ErrorExn ValueError)"
proof -
  have "parse_date ''2025-13-01'' = None" by code_simp
  then show ?thesis using get_table_status_bad_date [of "''2025-13-01''" "''18:00''" demo_booked] by simp
qed

end
