(* ===== verification/Lifecycle.thy ===== *)
theory Lifecycle
  imports Availability
begin

text \<open>
  The status lifecycle manager: the handlers \<open>cancel_reservation\<close>
  (\<open>PUT /api/reservations/<id>/cancel\<close>, app.py lines 142--148),
  \<open>update_reservation_status\<close> (\<open>PUT /api/reservations/<id>/status\<close>,
  lines 156--165) and \<open>delete_reservation\<close> (\<open>DELETE /api/reservations/<id>\<close>,
  lines 167--173). The specification's lifecycle is the inductive relation
  \<open>spec_step\<close>; the code writes the new status without looking at the old
  one, so its transitions are strictly more than the specification's. Freeing
  tables is a pure function of the status, through \<open>occupied\<close>.
\<close>

definition update_reservation_status :: "int \<Rightarrow> string field \<Rightarrow> db \<Rightarrow> response \<times> db" where
  "update_reservation_status rid st s =
     (case get_field st of
        None \<Rightarrow> ((400, Error ''Invalid status provided''), s)
      | Some v \<Rightarrow>
          if v = [] \<or> v \<notin> set [''Accepted'', ''Rejected''] then ((400, Error ''Invalid status provided''), s)
          else (case get_reservation s rid of
                  None \<Rightarrow> ((404, Error ''Reservation not found''), s)
                | Some r \<Rightarrow> ((200, StatusUpdated rid v),
                             set_status rid (if v = ''Accepted'' then Accepted else Rejected) s)))"

definition cancel_reservation :: "int \<Rightarrow> db \<Rightarrow> response \<times> db" where
  "cancel_reservation rid s =
     (case get_reservation s rid of
        None \<Rightarrow> ((404, Error ''Reservation not found''), s)
      | Some r \<Rightarrow> ((200, Message ''Reservation cancelled successfully''), set_status rid Cancelled s))"

definition delete_reservation :: "int \<Rightarrow> db \<Rightarrow> response \<times> db" where
  "delete_reservation rid s =
     (case get_reservation s rid of
        None \<Rightarrow> ((404, Error ''Reservation not found.''), s)
      | Some r \<Rightarrow> ((200, Deleted rid), delete_res rid s))"

text \<open>The two status-changing calls a client can make on a reservation: the
  staff review with a status string, and the holder's cancel.\<close>

datatype lc_call = Review string | Cancel

fun lifecycle :: "lc_call \<Rightarrow> int \<Rightarrow> db \<Rightarrow> response \<times> db" where
  "lifecycle (Review v) rid s = update_reservation_status rid (Val v) s"
| "lifecycle Cancel rid s = cancel_reservation rid s"

text \<open>The call a client makes to move a reservation to a status: the staff
  review \<open>PUT /api/reservations/<id>/status\<close> with the status's name, or
  the holder's \<open>PUT /api/reservations/<id>/cancel\<close> for \<open>Cancelled\<close>.\<close>

fun spec_call :: "status \<Rightarrow> lc_call" where
  "spec_call Cancelled = Cancel"
| "spec_call st = Review (status_str st)"

definition status_of :: "db \<Rightarrow> int \<Rightarrow> status option" where
  "status_of s rid = map_option status (get_reservation s rid)"

section \<open>The specification's lifecycle\<close>

text \<open>Section 4.4: \<open>Pending\<close> is initial; \<open>Pending \<rightarrow> Accepted\<close>,
  \<open>Pending \<rightarrow> Rejected\<close>, and \<open>{Pending, Accepted} \<rightarrow> Cancelled\<close>.\<close>

inductive spec_step :: "status \<Rightarrow> status \<Rightarrow> bool" where
  accept: "spec_step Pending Accepted"
| reject: "spec_step Pending Rejected"
| cancel_pending: "spec_step Pending Cancelled"
| cancel_accepted: "spec_step Accepted Cancelled"

code_pred spec_step .

text \<open>The tables a slot keeps when reservation \<open>rid\<close> stops holding its own.\<close>

definition occupied_without :: "int \<Rightarrow> db \<Rightarrow> date \<Rightarrow> time_of_day \<Rightarrow> int set" where
  "occupied_without rid s d t = {tid. \<exists>r \<in> set (reservations s). res_id r \<noteq> rid
       \<and> (res_id r, tid) \<in> set (reservation_tables s)
       \<and> reservation_date r = d \<and> reservation_time r = t \<and> status r \<in> {Pending, Accepted}}"

inductive_cases spec_step_from_Rejected: "spec_step Rejected b"

inductive_cases spec_step_from_Cancelled: "spec_step Cancelled b"
inductive_cases spec_step_to_Pending: "spec_step a Pending"

lemmas lifecycle_defs = update_reservation_status_def cancel_reservation_def delete_reservation_def

section \<open>Status reads after a status write\<close>

lemma find_map_upd_status:
  "find (\<lambda>r. res_id r = rid) (map (upd_status rid' st) xs) =
   map_option (upd_status rid' st) (find (\<lambda>r. res_id r = rid) xs)"
  by (induction xs) auto

lemma get_reservation_set_status:
  "get_reservation (set_status rid' st s) rid = map_option (upd_status rid' st) (get_reservation s rid)"
  by (simp add: get_reservation_def find_map_upd_status)

lemma get_reservation_None_iff [simp]: "(get_reservation s rid = None) = (rid \<notin> res_ids s)"
  by (simp add: get_reservation_def res_ids_def)

lemma get_reservation_absent [simp]: "rid \<notin> res_ids s \<Longrightarrow> get_reservation s rid = None"
  by simp

lemma get_reservation_SomeD:
  "get_reservation s rid = Some r \<Longrightarrow> res_id r = rid \<and> r \<in> set (reservations s)"
  by (auto simp: get_reservation_def dest: find_SomeD)

lemma status_of_set_status [simp]:
  "status_of (set_status rid st s) rid = (if rid \<in> res_ids s then Some st else None)"
proof (cases "get_reservation s rid")
  case None
  then show ?thesis by (simp add: status_of_def get_reservation_set_status)
next
  case (Some r)
  with get_reservation_SomeD [OF Some] show ?thesis
    by (auto simp: status_of_def get_reservation_set_status res_ids_def upd_status_def)
qed

lemma status_of_Some_res_ids: "status_of s rid = Some a \<Longrightarrow> rid \<in> res_ids s"
  by (cases "get_reservation s rid") (auto simp: status_of_def res_ids_def dest!: get_reservation_SomeD)

lemma occupied_set_status:
  "occupied (set_status rid st s) d t =
     occupied_without rid s d t \<union>
     (if active st then {tid. \<exists>r \<in> set (reservations s). res_id r = rid
         \<and> (rid, tid) \<in> set (reservation_tables s) \<and> reservation_date r = d \<and> reservation_time r = t}
      else {})"
proof -
  have "occupied (set_status rid st s) d t = {tid. \<exists>r \<in> set (reservations s).
      (res_id r, tid) \<in> set (reservation_tables s) \<and> reservation_date r = d \<and> reservation_time r = t
      \<and> (if res_id r = rid then st else status r) \<in> {Pending, Accepted}}"
    unfolding occupied_def by (simp only: set_status_sel set_map bex_image_eq) simp
  then show ?thesis by (auto simp: occupied_without_def split: if_splits)
qed

lemma occupied_absent:
  "rid \<notin> res_ids s \<Longrightarrow> occupied s d t = occupied_without rid s d t"
  by (force simp: occupied_def occupied_without_def res_ids_def)

lemma get_reservation_demo_booked [simp]:
  "get_reservation demo_booked 1 \<noteq> None"
  "1 \<in> res_ids demo_booked"
  by (simp_all add: demo_booked_def res_ids_def)

text \<open>A cancel writes \<open>Cancelled\<close> into the rows with its id, and nothing
  else; for an absent id there is no such row.\<close>

lemma cancel_reservation_effect:
  "reservations (snd (cancel_reservation rid s)) = map (upd_status rid Cancelled) (reservations s)
   \<and> reservation_tables (snd (cancel_reservation rid s)) = reservation_tables s"
proof (cases "rid \<in> res_ids s")
  case True
  then obtain r where "get_reservation s rid = Some r" by (cases "get_reservation s rid") auto
  then show ?thesis by (simp add: cancel_reservation_def)
next
  case False
  then have "map (upd_status rid Cancelled) (reservations s) = reservations s"
    by (auto simp: upd_status_def res_ids_def intro!: map_idI)
  with False show ?thesis by (simp add: cancel_reservation_def)
qed

text \<open>The three lifecycle handlers keep the store invariant.\<close>

lemma lifecycle_wf:
  assumes "wf_db s"
  shows "wf_db (snd (update_reservation_status rid f s)) \<and> wf_db (snd (cancel_reservation rid s))
    \<and> wf_db (snd (delete_reservation rid s))"
  using assms
  by (auto simp: lifecycle_defs wf_db_set_status wf_db_delete_res split: option.split)

section \<open>Properties of the handlers\<close>

text \<open>C4. Simulation of the specification: every transition the specification
  allows (Pending to Accepted, Pending to Rejected, Pending or Accepted to
  Cancelled) is carried out by the call for its target status (the review
  with \<open>'Accepted'\<close> or \<open>'Rejected'\<close>, or the cancel), which answers 200
  and writes exactly the target status into the reservation.\<close>

theorem lifecycle_simulates_spec:
  assumes "spec_step a b" "status_of s rid = Some a"
  shows "fst (fst (lifecycle (spec_call b) rid s)) = 200
    \<and> snd (lifecycle (spec_call b) rid s) = set_status rid b s
    \<and> status_of (snd (lifecycle (spec_call b) rid s)) rid = Some b"
proof -
  from assms(2) have rid: "rid \<in> res_ids s" by (rule status_of_Some_res_ids)
  then obtain r where r: "get_reservation s rid = Some r" by (cases "get_reservation s rid") auto
  from assms(1) have "b \<noteq> Pending" by (auto elim: spec_step_to_Pending)
  with r rid show ?thesis by (cases b) (simp_all add: lifecycle_defs)
qed

theorem lifecycle_simulates_spec_witness:
  "fst (fst (lifecycle Cancel 1 demo_booked)) = 200
    \<and> snd (lifecycle Cancel 1 demo_booked) = set_status 1 Cancelled demo_booked
    \<and> status_of (snd (lifecycle Cancel 1 demo_booked)) 1 = Some Cancelled"
proof -
  have "status_of demo_booked 1 = Some Accepted" by (simp add: status_of_def demo_booked_def get_reservation_def)
  with spec_step.cancel_accepted have "fst (fst (lifecycle (spec_call Cancelled) 1 demo_booked)) = 200
    \<and> snd (lifecycle (spec_call Cancelled) 1 demo_booked) = set_status 1 Cancelled demo_booked
    \<and> status_of (snd (lifecycle (spec_call Cancelled) 1 demo_booked)) 1 = Some Cancelled"
    by (rule lifecycle_simulates_spec)
  then show ?thesis by simp
qed

text \<open>C6. The code does not implement the specification's terminal states:
  staff review with \<open>'Accepted'\<close> on a Cancelled reservation succeeds with 200,
  although the specification has no transition out of Cancelled, and the
  reservation's tables become occupied again for its slot.\<close>

theorem review_reopens_cancelled:
  assumes "get_reservation s rid = Some r" "status r = Cancelled" "(rid, tid) \<in> set (reservation_tables s)"
  shows "\<not> spec_step Cancelled Accepted
    \<and> update_reservation_status rid (Val ''Accepted'') s = ((200, StatusUpdated rid ''Accepted''), set_status rid Accepted s)
    \<and> status_of (set_status rid Accepted s) rid = Some Accepted
    \<and> tid \<in> occupied (set_status rid Accepted s) (reservation_date r) (reservation_time r)"
proof -
  from assms(1) have r: "res_id r = rid" "r \<in> set (reservations s)" by (auto dest: get_reservation_SomeD)
  then have "rid \<in> res_ids s" by (auto simp: res_ids_def)
  moreover have "\<not> spec_step Cancelled Accepted" by (auto elim: spec_step_from_Cancelled)
  ultimately show ?thesis using assms r
    by (auto simp: update_reservation_status_def occupied_set_status)
qed

theorem review_reopens_cancelled_witness:
  "update_reservation_status 1 (Val ''Accepted'') (set_status 1 Cancelled demo_booked) =
     ((200, StatusUpdated 1 ''Accepted''), set_status 1 Accepted (set_status 1 Cancelled demo_booked))
   \<and> 1 \<in> occupied (set_status 1 Accepted (set_status 1 Cancelled demo_booked))
          \<lparr>year = 2025, month = 7, day = 4\<rparr> \<lparr>hour = 18, minute = 0\<rparr>"
proof -
  let ?s = "set_status 1 Cancelled demo_booked"
  let ?r = "\<lparr>res_id = 1, customer_name = ''Ann'', contact_info = ''555'',
       reservation_date = \<lparr>year = 2025, month = 7, day = 4\<rparr>, reservation_time = \<lparr>hour = 18, minute = 0\<rparr>,
       status = Cancelled, res_user = Some 1\<rparr>"
  have "get_reservation ?s 1 = Some ?r"
    by (simp add: get_reservation_def demo_booked_def upd_status_def)
  moreover have "(1, 1) \<in> set (reservation_tables ?s)" by (simp add: demo_booked_def)
  ultimately show ?thesis using review_reopens_cancelled [of ?s 1 ?r 1] by simp
qed

text \<open>C7. Freeing is a pure function of the status: after a cancel or a
  rejection of reservation \<open>rid\<close>, a table is occupied for a slot exactly when
  another Pending or Accepted reservation of that slot holds it; the
  association rows and the tables are not touched.\<close>

theorem lifecycle_frees_tables:
  assumes "call = Cancel \<or> call = Review ''Rejected''"
  shows "occupied (snd (lifecycle call rid s)) d t = occupied_without rid s d t
    \<and> reservation_tables (snd (lifecycle call rid s)) = reservation_tables s
    \<and> dining_tables (snd (lifecycle call rid s)) = dining_tables s"
proof -
  have "snd (lifecycle call rid s) =
      (if rid \<in> res_ids s then set_status rid (if call = Cancel then Cancelled else Rejected) s else s)"
    using assms by (auto simp: lifecycle_defs split: option.split)
  then show ?thesis using assms by (auto simp: occupied_set_status occupied_absent)
qed

theorem lifecycle_frees_tables_witness:
  "occupied (snd (lifecycle Cancel 1 demo_booked)) \<lparr>year = 2025, month = 7, day = 4\<rparr> \<lparr>hour = 18, minute = 0\<rparr> = {}"
proof -
  have "occupied (snd (lifecycle Cancel 1 demo_booked)) \<lparr>year = 2025, month = 7, day = 4\<rparr> \<lparr>hour = 18, minute = 0\<rparr> =
      occupied_without 1 demo_booked \<lparr>year = 2025, month = 7, day = 4\<rparr> \<lparr>hour = 18, minute = 0\<rparr>"
    using lifecycle_frees_tables [of Cancel] by simp
  then show ?thesis by (simp add: occupied_without_def demo_booked_def)
qed

text \<open>Validation before lookup: a status update whose status is absent,
  null, or any string other than \<open>'Accepted'\<close> and \<open>'Rejected'\<close> (including
  \<open>'Cancelled'\<close> and \<open>'Pending'\<close>) is answered 400 and changes nothing,
  whether or not the reservation exists.\<close>

theorem update_status_invalid:
  assumes "get_field f \<notin> {Some ''Accepted'', Some ''Rejected''}"
  shows "update_reservation_status rid f s = ((400, Error ''Invalid status provided''), s)"
  using assms by (auto simp: update_reservation_status_def split: option.split)

theorem update_status_invalid_witness:
  "update_reservation_status 7 (Val ''Cancelled'') demo_booked = ((400, Error ''Invalid status provided''), demo_booked)"
  using update_status_invalid [of "Val ''Cancelled''" 7 demo_booked] by simp

text \<open>An id with no reservation is answered 404 by cancel, by a valid
  status update and by delete, and the store is unchanged.\<close>

theorem lifecycle_unknown_id:
  assumes "rid \<notin> res_ids s" "v \<in> {''Accepted'', ''Rejected''}"
  shows "cancel_reservation rid s = ((404, Error ''Reservation not found''), s)
    \<and> update_reservation_status rid (Val v) s = ((404, Error ''Reservation not found''), s)
    \<and> delete_reservation rid s = ((404, Error ''Reservation not found.''), s)"
  using assms by (auto simp: lifecycle_defs)

theorem lifecycle_unknown_id_witness:
  "cancel_reservation 7 demo_booked = ((404, Error ''Reservation not found''), demo_booked)"
proof -
  have "7 \<notin> res_ids demo_booked" by (simp add: res_ids_def demo_booked_def)
  then show ?thesis using lifecycle_unknown_id [of 7 demo_booked "''Accepted''"] by simp
qed

text \<open>C14. Delete removes the reservation and, by SQLAlchemy's handling of the
  secondary table, every association row of it, whatever its status; the
  other reservations keep their order and every table it held is free for its
  slot unless another active reservation holds it.\<close>

theorem delete_reservation_effect:
  assumes "rid \<in> res_ids s"
  shows "fst (delete_reservation rid s) = (200, Deleted rid)
    \<and> rid \<notin> res_ids (snd (delete_reservation rid s))
    \<and> (\<forall>p \<in> set (reservation_tables (snd (delete_reservation rid s))). fst p \<noteq> rid)
    \<and> reservations (snd (delete_reservation rid s)) = filter (\<lambda>r. res_id r \<noteq> rid) (reservations s)
    \<and> occupied (snd (delete_reservation rid s)) d t = occupied_without rid s d t"
  using assms
  by (auto simp: delete_reservation_def occupied_def occupied_without_def split: option.split)
     (auto simp: res_ids_def)

theorem delete_reservation_effect_witness:
  "fst (delete_reservation 1 demo_booked) = (200, Deleted 1) \<and> reservations (snd (delete_reservation 1 demo_booked)) = []"
proof -
  have "fst (delete_reservation 1 demo_booked) = (200, Deleted 1) \<and>
      reservations (snd (delete_reservation 1 demo_booked)) = filter (\<lambda>r. res_id r \<noteq> 1) (reservations demo_booked)"
    using delete_reservation_effect [of 1 demo_booked] by simp
  then show ?thesis by (simp add: demo_booked_def)
qed

end
