(* ===== verification/Queries.thy ===== *)
theory Queries
  imports Entities
begin

text \<open>
  The query facade: \<open>get_my_reservations\<close> (\<open>GET /api/my-reservations/<id>\<close>,
  app.py lines 135--140) and \<open>get_all_reservations\<close>
  (\<open>GET /api/reservations\<close>, lines 151--154), each a read-only projection of
  the store rendered with \<open>Reservation.to_dict\<close>. \<open>ORDER BY key DESC\<close> is
  \<open>sort_desc\<close>: a sort in descending key order. The query has no
  tie-breaking column, so MySQL may return rows with equal keys in any order;
  \<open>sort_desc\<close> (stable, equal keys in primary-key order) is one admissible
  order, and the properties below state only what every admissible order has:
  the rows are a permutation of the stored ones, sorted descending by key.
\<close>

definition sort_desc :: "('a \<Rightarrow> 'k::linorder) \<Rightarrow> 'a list \<Rightarrow> 'a list" where
  "sort_desc k xs = rev (sort_key k (rev xs))"

text \<open>The order of the \<open>DATE\<close> and \<open>TIME\<close> columns.\<close>

definition date_key :: "date \<Rightarrow> nat \<times> nat \<times> nat" where
  "date_key d = (year d, month d, day d)"

definition time_key :: "time_of_day \<Rightarrow> nat \<times> nat" where
  "time_key t = (hour t, minute t)"

definition get_my_reservations :: "int \<Rightarrow> db \<Rightarrow> response" where
  "get_my_reservations uid s =
     (case get_user s uid of
        None \<Rightarrow> (404, Error ''User not found'')
      | Some u \<Rightarrow> (200, Reservations (map (to_dict s)
                    (sort_desc (\<lambda>r. date_key (reservation_date r))
                       (filter (\<lambda>r. res_user r = Some uid) (reservations s))))))"

definition all_key :: "reservation \<Rightarrow> (nat \<times> nat \<times> nat) \<times> nat \<times> nat" where
  "all_key r = (date_key (reservation_date r), time_key (reservation_time r))"

definition get_all_reservations :: "db \<Rightarrow> response" where
  "get_all_reservations s = (200, Reservations (map (to_dict s) (sort_desc all_key (reservations s))))"

text \<open>A store with three reservations, two of them on the same day and time.\<close>

definition demo_three :: db where
  "demo_three = demo_db\<lparr>reservations :=
     [\<lparr>res_id = 1, customer_name = ''A'', contact_info = ''1'', reservation_date = \<lparr>year = 2025, month = 7, day = 4\<rparr>,
        reservation_time = \<lparr>hour = 18, minute = 0\<rparr>, status = Pending, res_user = Some 1\<rparr>,
      \<lparr>res_id = 2, customer_name = ''B'', contact_info = ''2'', reservation_date = \<lparr>year = 2025, month = 7, day = 5\<rparr>,
        reservation_time = \<lparr>hour = 12, minute = 0\<rparr>, status = Accepted, res_user = None\<rparr>,
      \<lparr>res_id = 3, customer_name = ''C'', contact_info = ''3'', reservation_date = \<lparr>year = 2025, month = 7, day = 4\<rparr>,
        reservation_time = \<lparr>hour = 18, minute = 0\<rparr>, status = Pending, res_user = Some 1\<rparr>],
     reservation_tables := [(1, 1), (2, 2), (3, 2)], next_res_id := 4\<rparr>"

section \<open>The descending stable sort\<close>

lemma mset_sort_desc [simp]: "mset (sort_desc k xs) = mset xs"
  by (simp add: sort_desc_def)

lemma set_sort_desc [simp]: "set (sort_desc k xs) = set xs"
  by (simp add: sort_desc_def)

lemma sorted_wrt_sort_desc: "sorted_wrt (\<lambda>x y. k y \<le> k x) (sort_desc k xs)"
proof -
  have "sorted (map k (sort_key k (rev xs)))" by simp
  then have "sorted_wrt (\<lambda>x y. k x \<le> k y) (sort_key k (rev xs))"
    by (simp add: sorted_wrt_map)
  then show ?thesis by (simp add: sort_desc_def sorted_wrt_rev)
qed

section \<open>Properties of the projections\<close>

text \<open>C10. \<open>get_all_reservations\<close> renders every reservation exactly once (the
  rendered rows are a permutation of the stored ones), newest date and time
  first.\<close>

theorem get_all_reservations_order:
  "\<exists>rs. get_all_reservations s = (200, Reservations (map (to_dict s) rs))
     \<and> mset rs = mset (reservations s)
     \<and> sorted_wrt (\<lambda>x y. all_key y \<le> all_key x) rs"
  by (intro exI [of _ "sort_desc all_key (reservations s)"])
     (simp add: get_all_reservations_def sorted_wrt_sort_desc)

lemma get_all_reservations_demo:
  "map rd_id (case snd (get_all_reservations demo_three) of Reservations ds \<Rightarrow> ds | _ \<Rightarrow> []) = [2, 1, 3]"
  by code_simp

text \<open>C11. \<open>get_my_reservations\<close> for a registered user renders exactly that
  user's reservations, latest date first.\<close>

theorem get_my_reservations_spec:
  assumes "get_user s uid = Some u"
  shows "\<exists>rs. get_my_reservations uid s = (200, Reservations (map (to_dict s) rs))
     \<and> mset rs = mset (filter (\<lambda>r. res_user r = Some uid) (reservations s))
     \<and> sorted_wrt (\<lambda>x y. date_key (reservation_date y) \<le> date_key (reservation_date x)) rs"
  using assms
  by (intro exI [of _ "sort_desc (\<lambda>r. date_key (reservation_date r)) (filter (\<lambda>r. res_user r = Some uid) (reservations s))"])
     (simp add: get_my_reservations_def sorted_wrt_sort_desc)

theorem get_my_reservations_spec_witness:
  "\<exists>rs. get_my_reservations 1 demo_three = (200, Reservations (map (to_dict demo_three) rs))
     \<and> mset rs = mset (filter (\<lambda>r. res_user r = Some 1) (reservations demo_three))"
proof -
  have "get_user demo_three 1 = Some (hd (users demo_db))"
    by (simp add: get_user_def demo_three_def demo_db_def)
  from get_my_reservations_spec [OF this] show ?thesis by blast
qed

text \<open>An id with no user is answered 404 by \<open>get_my_reservations\<close>.\<close>

theorem get_my_reservations_unknown:
  assumes "uid \<notin> user_ids s"
  shows "get_my_reservations uid s = (404, Error ''User not found'')"
proof -
  have "get_user s uid = None" using assms by (simp add: get_user_def user_ids_def)
  then show ?thesis by (simp add: get_my_reservations_def)
qed

theorem get_my_reservations_unknown_witness:
  "get_my_reservations 5 demo_three = (404, Error ''User not found'')"
  using get_my_reservations_unknown [of 5 demo_three]
  by (simp add: user_ids_def demo_three_def demo_db_def)

end
