(* ===== verification/Auth.thy ===== *)
theory Auth
  imports Entities
begin

text \<open>
  The authentication endpoints of app.py (lines 68--93): \<open>register_client\<close>
  (\<open>POST /api/register\<close>), \<open>login_client\<close> (\<open>POST /api/login/client\<close>) and
  \<open>login_admin\<close> (\<open>POST /api/login/admin\<close>). werkzeug's salted
  \<open>generate_password_hash\<close> and \<open>check_password_hash\<close> are not modelled; the
  handlers take them as parameters \<open>hash\<close> and \<open>check\<close>, and the lemmas that
  need them assume werkzeug's contract, that \<open>check (hash p) q\<close> holds exactly
  when \<open>q = p\<close>. The JSON fields are modelled as strings; a field of another
  JSON type is not.
\<close>

record reg_body =
  rb_username :: "string field"
  rb_password :: "string field"
  rb_email :: "string field"
  rb_phone :: "string field"

record login_body =
  lb_username :: "string field"
  lb_password :: "string field"

text \<open>\<open>User.query.filter_by(username=...).first()\<close> and the same on \<open>email\<close>,
  compared under the column's case-insensitive collation.\<close>

definition find_by_username :: "db \<Rightarrow> string \<Rightarrow> user option" where
  "find_by_username s un = find (\<lambda>u. ci_key (username u) = ci_key un) (users s)"

definition find_by_email :: "db \<Rightarrow> string \<Rightarrow> user option" where
  "find_by_email s em = find (\<lambda>u. ci_key (email u) = ci_key em) (users s)"

text \<open>\<open>register_client\<close>: \<open>all([username, password, email, phone])\<close> fails on
  a missing, null or empty field; the two uniqueness checks answer 409; the new
  row receives the next \<open>AUTO_INCREMENT\<close> id and the hash of the password, and
  is committed.\<close>

definition register_client :: "(string \<Rightarrow> string) \<Rightarrow> reg_body \<Rightarrow> db \<Rightarrow> response \<times> db" where
  "register_client hash b s =
     (case (rb_username b, rb_password b, rb_email b, rb_phone b) of
        (Val un, Val pw, Val em, Val ph) \<Rightarrow>
          if un = [] \<or> pw = [] \<or> em = [] \<or> ph = [] then ((400, Error ''All fields are required''), s)
          else (case find_by_username s un of
                  Some _ \<Rightarrow> ((409, Error ''Username already exists''), s)
                | None \<Rightarrow> (case find_by_email s em of
                    Some _ \<Rightarrow> ((409, Error ''Email address already registered''), s)
                  | None \<Rightarrow> ((201, Message ''User registered successfully''),
                             insert_user un (hash pw) em ph s)))
      | _ \<Rightarrow> ((400, Error ''All fields are required''), s))"

text \<open>\<open>login_client\<close>: \<open>filter_by(username=None)\<close> matches no row (the column
  is \<open>NOT NULL\<close>); for a user found, \<open>check_password_hash\<close> on a password that
  is not a string raises \<open>AttributeError\<close>, which no handler catches.\<close>

definition login_client :: "(string \<Rightarrow> string \<Rightarrow> bool) \<Rightarrow> login_body \<Rightarrow> db \<Rightarrow> response" where
  "login_client check b s =
     (case lb_username b of
        Val un \<Rightarrow>
          (case find_by_username s un of
             None \<Rightarrow> (401, Error ''Invalid username or password'')
           | Some u \<Rightarrow>
               (case lb_password b of
                  Val pw \<Rightarrow>
                    if check (password_hash u) pw
                    then (200, LoginOk ''Client login successful'' (user_id u) (username u))
                    else (401, Error ''Invalid username or password'')
                | _ \<Rightarrow> (500, ErrorExn AttributeError)))
      | _ \<Rightarrow> (401, Error ''Invalid username or password''))"

text \<open>\<open>login_admin\<close>: a fixed credential pair compared as strings.\<close>

definition login_admin :: "login_body \<Rightarrow> response" where
  "login_admin b =
     (if lb_username b = Val ''admin'' \<and> lb_password b = Val ''admin123''
      then (200, Message ''Admin login successful'')
      else (401, Error ''Invalid admin credentials''))"

text \<open>A password hash and its check that meet werkzeug's contract, for the
  concrete runs.\<close>

definition demo_hash :: "string \<Rightarrow> string" where
  "demo_hash p = ''pbkdf2$'' @ p"

definition demo_check :: "string \<Rightarrow> string \<Rightarrow> bool" where
  "demo_check h q \<longleftrightarrow> h = ''pbkdf2$'' @ q"

section \<open>Registration\<close>

lemma register_client_201:
  assumes "fst (register_client hash b s) = (201, Message ''User registered successfully'')"
  obtains un pw em ph where
    "rb_username b = Val un" "rb_password b = Val pw" "rb_email b = Val em" "rb_phone b = Val ph"
    "un \<noteq> []" "pw \<noteq> []" "em \<noteq> []" "ph \<noteq> []"
    "ci_key un \<notin> (\<lambda>u. ci_key (username u)) ` set (users s)"
    "ci_key em \<notin> (\<lambda>u. ci_key (email u)) ` set (users s)"
    "snd (register_client hash b s) = insert_user un (hash pw) em ph s"
  using assms
  by (auto simp: register_client_def find_by_username_def find_by_email_def
           split: field.splits if_splits option.splits intro!: that)

lemma find_by_username_insert_user:
  "ci_key un \<notin> (\<lambda>u. ci_key (username u)) ` set (users s) \<Longrightarrow>
   find_by_username (insert_user un h em ph s) un =
     Some \<lparr>user_id = next_user_id s, username = un, password_hash = h, email = em, phone_number = ph\<rparr>"
  by (simp add: find_by_username_def insert_user_def find_append_None)

lemma wf_db_insert_user:
  assumes "wf_db s" "ci_key un \<notin> (\<lambda>u. ci_key (username u)) ` set (users s)"
    "ci_key em \<notin> (\<lambda>u. ci_key (email u)) ` set (users s)"
  shows "wf_db (insert_user un h em ph s)"
proof -
  have fresh: "next_user_id s \<notin> user_id ` set (users s)"
    using assms(1) by (auto simp: wf_db_def wf_store_def)
  have "fk_user (insert_user un h em ph s) r" if "fk_user s r" for r
    using that by (auto simp: fk_user_def user_ids_def insert_user_def)
  with assms fresh show ?thesis
    by (auto simp: wf_db_def wf_store_def has_table_def res_ids_def table_ids_def insert_user_def)
qed

lemma register_client_unchanged:
  "fst (register_client hash b s) \<noteq> (201, Message ''User registered successfully'') \<Longrightarrow>
   snd (register_client hash b s) = s"
  by (auto simp: register_client_def split: field.splits if_splits option.splits)

lemma register_client_frame:
  "reservations (snd (register_client hash b s)) = reservations s
   \<and> reservation_tables (snd (register_client hash b s)) = reservation_tables s
   \<and> dining_tables (snd (register_client hash b s)) = dining_tables s
   \<and> next_res_id (snd (register_client hash b s)) = next_res_id s
   \<and> next_user_id s \<le> next_user_id (snd (register_client hash b s))
   \<and> next_user_id (snd (register_client hash b s)) \<le> next_user_id s + 1"
  by (auto simp: register_client_def insert_user_def split: field.splits if_splits option.splits)

text \<open>Registration keeps the store invariant: usernames, emails and user ids
  stay unique and below the id counter.\<close>

lemma register_client_wf:
  assumes "wf_db s"
  shows "wf_db (snd (register_client hash b s))"
proof (cases "fst (register_client hash b s) = (201, Message ''User registered successfully'')")
  case True
  then obtain un pw em ph where "ci_key un \<notin> (\<lambda>u. ci_key (username u)) ` set (users s)"
    "ci_key em \<notin> (\<lambda>u. ci_key (email u)) ` set (users s)"
    and "snd (register_client hash b s) = insert_user un (hash pw) em ph s"
    by (rule register_client_201)
  with assms show ?thesis by (simp add: wf_db_insert_user)
next
  case False
  with assms show ?thesis by (simp add: register_client_unchanged)
qed

section \<open>Properties of the endpoints\<close>

text \<open>C16. Registration then login: once \<open>register_client\<close> has answered 201
  for a username and password, \<open>login_client\<close> on the resulting store succeeds
  with that username and password, reporting the id the new row received, and
  fails with 401 for any other password (given werkzeug's contract for the
  password hash).\<close>

theorem register_then_login:
  assumes contract: "\<And>p q. check (hash p) q \<longleftrightarrow> q = p"
    and reg: "fst (register_client hash b s) = (201, Message ''User registered successfully'')"
    and un: "rb_username b = Val un" and pw: "rb_password b = Val pw"
  shows "login_client check \<lparr>lb_username = Val un, lb_password = Val q\<rparr> (snd (register_client hash b s)) =
    (if q = pw then (200, LoginOk ''Client login successful'' (next_user_id s) un)
     else (401, Error ''Invalid username or password''))"
proof -
  obtain un' pw' em ph where
    "rb_username b = Val un'" "rb_password b = Val pw'"
    and fresh: "ci_key un' \<notin> (\<lambda>u. ci_key (username u)) ` set (users s)"
    and st: "snd (register_client hash b s) = insert_user un' (hash pw') em ph s"
    using reg by (rule register_client_201)
  with un pw have "un' = un" "pw' = pw" by simp_all
  with fresh st show ?thesis
    by (simp add: login_client_def find_by_username_insert_user contract)
qed

theorem register_then_login_witness:
  "login_client demo_check \<lparr>lb_username = Val ''bob'', lb_password = Val ''secret''\<rparr>
     (snd (register_client demo_hash \<lparr>rb_username = Val ''bob'', rb_password = Val ''secret'',
        rb_email = Val ''bob@example.org'', rb_phone = Val ''556''\<rparr> demo_db))
   = (200, LoginOk ''Client login successful'' 2 ''bob'')"
proof -
  have "fst (register_client demo_hash \<lparr>rb_username = Val ''bob'', rb_password = Val ''secret'',
        rb_email = Val ''bob@example.org'', rb_phone = Val ''556''\<rparr> demo_db)
      = (201, Message ''User registered successfully'')"
    by code_simp
  moreover have "\<And>p q. demo_check (demo_hash p) q \<longleftrightarrow> q = p"
    by (auto simp: demo_check_def demo_hash_def)
  ultimately show ?thesis
    using register_then_login [of demo_check demo_hash _ demo_db "''bob''" "''secret''" "''secret''"]
    by (simp add: demo_db_def)
qed

text \<open>C17. \<open>register_client\<close> with all four fields non-empty answers 409 and
  leaves the store unchanged when the username is taken, up to the case of its
  letters, 409 likewise when the email is taken, and otherwise appends the new
  user with the hashed password and answers 201.\<close>

theorem register_client_outcome:
  assumes "rb_username b = Val un" "rb_password b = Val pw" "rb_email b = Val em" "rb_phone b = Val ph"
    and "un \<noteq> []" "pw \<noteq> []" "em \<noteq> []" "ph \<noteq> []"
  shows "register_client hash b s =
    (if ci_key un \<in> (\<lambda>u. ci_key (username u)) ` set (users s) then ((409, Error ''Username already exists''), s)
     else if ci_key em \<in> (\<lambda>u. ci_key (email u)) ` set (users s) then ((409, Error ''Email address already registered''), s)
     else ((201, Message ''User registered successfully''), insert_user un (hash pw) em ph s))"
  using assms
  by (auto simp: register_client_def find_by_username_def find_by_email_def split: option.split)

theorem register_client_outcome_witness:
  "register_client demo_hash \<lparr>rb_username = Val ''Ann'', rb_password = Val ''x'',
     rb_email = Val ''a2@example.org'', rb_phone = Val ''1''\<rparr> demo_db
   = ((409, Error ''Username already exists''), demo_db)"
proof -
  have "ci_key ''Ann'' = ci_key ''ann''" by code_simp
  then show ?thesis
    using register_client_outcome [of "\<lparr>rb_username = Val ''Ann'', rb_password = Val ''x'',
       rb_email = Val ''a2@example.org'', rb_phone = Val ''1''\<rparr>" "''Ann''" "''x''" "''a2@example.org''" "''1''"
       demo_hash demo_db]
    by (simp add: demo_db_def)
qed

text \<open>A request missing one of the four fields, or giving it as null or
  the empty string, is answered 400 and changes nothing.\<close>

theorem register_client_missing:
  assumes "\<not> list_all truthy [rb_username b, rb_password b, rb_email b, rb_phone b]"
  shows "register_client hash b s = ((400, Error ''All fields are required''), s)"
  using assms
  by (auto simp: register_client_def elim!: truthy.elims split: field.split)

theorem register_client_missing_witness:
  "register_client demo_hash \<lparr>rb_username = Val ''bob'', rb_password = Null,
     rb_email = Val ''bob@example.org'', rb_phone = Val ''556''\<rparr> demo_db
   = ((400, Error ''All fields are required''), demo_db)"
  by (rule register_client_missing) simp

text \<open>C18. \<open>login_client\<close> for an existing username without a password (the
  key absent or null) does not answer 401: \<open>check_password_hash\<close> raises on
  \<open>None\<close> and the request fails with 500.\<close>

theorem login_client_no_password:
  assumes "lb_username b = Val un" "un \<in> username ` set (users s)" "lb_password b \<in> {Missing, Null}"
  shows "login_client check b s = (500, ErrorExn AttributeError)"
proof -
  from assms(2) obtain u where "find_by_username s un = Some u"
    by (cases "find_by_username s un") (auto simp: find_by_username_def find_None_iff)
  with assms show ?thesis by (auto simp: login_client_def)
qed

theorem login_client_no_password_witness:
  "login_client demo_check \<lparr>lb_username = Val ''ann'', lb_password = Missing\<rparr> demo_db = (500, ErrorExn AttributeError)"
  by (rule login_client_no_password [of _ "''ann''"]) (simp_all add: demo_db_def)

end
