(* ===== verification/App.thy ===== *)
theory App
  imports Booking Lifecycle Queries Auth
begin

text \<open>
  The request surface of app.py: one constructor of \<open>request\<close> per view
  function (the ten \<open>@app.route\<close> rules) with the inputs the view reads, the
  dispatch \<open>handle\<close> of a request to its view function, and \<open>serve\<close>, which
  runs a sequence of requests one after the other.
\<close>

text \<open>One request of the HTTP surface: the route of each \<open>@app.route\<close>
  decorator with the inputs its handler reads (the JSON body, the query
  arguments, the id in the path).\<close>

datatype request =
    Register reg_body
  | LoginClient login_body
  | LoginAdmin login_body
  | GetTables "string option" "string option"
  | CreateReservation create_body
  | MyReservations int
  | CancelReservation int
  | AllReservations
  | UpdateStatus int "string field"
  | DeleteReservation int

text \<open>Flask's dispatch of a request to its view function. Read-only views
  return the store unchanged.\<close>

fun handle :: "(string \<Rightarrow> string) \<Rightarrow> (string \<Rightarrow> string \<Rightarrow> bool) \<Rightarrow> request \<Rightarrow> db \<Rightarrow> response \<times> db" where
  "handle hash check (Register b) s = register_client hash b s"
| "handle hash check (LoginClient b) s = (login_client check b s, s)"
| "handle hash check (LoginAdmin b) s = (login_admin b, s)"
| "handle hash check (GetTables d t) s = (get_table_status d t s, s)"
| "handle hash check (CreateReservation b) s = create_reservation b s"
| "handle hash check (MyReservations uid) s = (get_my_reservations uid s, s)"
| "handle hash check (CancelReservation rid) s = cancel_reservation rid s"
| "handle hash check AllReservations s = (get_all_reservations s, s)"
| "handle hash check (UpdateStatus rid st) s = update_reservation_status rid st s"
| "handle hash check (DeleteReservation rid) s = delete_reservation rid s"

text \<open>A sequence of requests served one after the other, each as one
  committed or rolled-back transaction.\<close>

fun serve :: "(string \<Rightarrow> string) \<Rightarrow> (string \<Rightarrow> string \<Rightarrow> bool) \<Rightarrow> request list \<Rightarrow> db \<Rightarrow> response list \<times> db" where
  "serve hash check [] s = ([], s)"
| "serve hash check (rq # rqs) s =
     (let (r, s1) = handle hash check rq s; (rs, s2) = serve hash check rqs s1 in (r # rs, s2))"

fun readonly :: "request \<Rightarrow> bool" where
  "readonly (LoginClient _) = True"
| "readonly (LoginAdmin _) = True"
| "readonly (GetTables _ _) = True"
| "readonly (MyReservations _) = True"
| "readonly AllReservations = True"
| "readonly _ = False"

end
