(* ===== verification/Routing.thy ===== *)
theory Routing
  imports DateTime
begin

text \<open>
  The URL map of the application: the ten \<open>@app.route\<close> rules of app.py
  (lines 68, 81, 89, 96, 108, 135, 142, 151, 156, 167) as Werkzeug matches
  them. A path is split at its slashes into segments; a rule matches when its
  static segments are equal and its \<open><int:...>\<close> segment is accepted by
  Werkzeug's \<open>IntegerConverter\<close> (regular expression \<open>\d+\<close>, unsigned, so
  a negative or empty id matches no rule). A path that no rule matches is a
  404 of the router, a path matched only by rules of other methods a 405;
  Flask adds \<open>HEAD\<close> to every \<open>GET\<close> rule and answers \<open>OPTIONS\<close> itself.
  Werkzeug's redirect of a path with repeated slashes to its merged form is
  not modelled: paths are taken after that merge. URL building
  (\<open>endpoint_path\<close>, what \<open>url_for\<close> returns) is the inverse the lemmas
  check matching against; the splitting loop is shown to terminate.
\<close>

datatype http_method = GET | HEAD | POST | PUT | DELETE | OPTIONS

text \<open>The view function a rule selects, with the value of its path variable.\<close>

datatype endpoint =
    EpRegister | EpLoginClient | EpLoginAdmin | EpTables | EpCreateReservation
  | EpMyReservations int | EpCancelReservation int | EpAllReservations
  | EpUpdateStatus int | EpDeleteReservation int

datatype route_result = Matched endpoint | AutoOptions | NotFound | MethodNotAllowed

text \<open>The path after its leading slash, split at every slash.\<close>

function (domintros) split_segs :: "string \<Rightarrow> string list" where
  "split_segs s =
     (let seg = takeWhile (\<lambda>c. c \<noteq> CHR ''/'') s; rest = dropWhile (\<lambda>c. c \<noteq> CHR ''/'') s
      in if rest = [] then [seg] else seg # split_segs (tl rest))"
  by pat_completeness auto
termination
proof (relation "measure length")
  fix s :: string and seg rest
  assume rest: "rest = dropWhile (\<lambda>c. c \<noteq> CHR ''/'') s" and ne: "rest \<noteq> []"
  have "length rest \<le> length s"
    unfolding rest by (rule length_dropWhile_le)
  with ne show "(tl rest, s) \<in> measure length" by (cases rest) auto
qed simp

declare split_segs.simps [simp del]

definition url_segments :: "string \<Rightarrow> string list" where
  "url_segments p = split_segs (drop 1 p)"

text \<open>\<open>IntegerConverter.to_python\<close> on a segment its regular expression \<open>\d+\<close>
  accepted.\<close>

definition int_converter :: "string \<Rightarrow> int option" where
  "int_converter seg = (if seg \<noteq> [] \<and> list_all is_digit seg then Some (int (digits_val seg)) else None)"

text \<open>The rules whose path matches the segments, with their methods.\<close>

definition rule_matches :: "string list \<Rightarrow> (http_method list \<times> endpoint) list" where
  "rule_matches segs =
     (if segs = [''api'', ''register''] then [([POST], EpRegister)]
      else if segs = [''api'', ''login'', ''client''] then [([POST], EpLoginClient)]
      else if segs = [''api'', ''login'', ''admin''] then [([POST], EpLoginAdmin)]
      else if segs = [''api'', ''tables''] then [([GET, HEAD], EpTables)]
      else if segs = [''api'', ''reservations''] then
        [([POST], EpCreateReservation), ([GET, HEAD], EpAllReservations)]
      else case segs of
        [a, b, n] \<Rightarrow>
          (case int_converter n of
             Some i \<Rightarrow>
               if a = ''api'' \<and> b = ''my-reservations'' then [([GET, HEAD], EpMyReservations i)]
               else if a = ''api'' \<and> b = ''reservations'' then [([DELETE], EpDeleteReservation i)]
               else []
           | None \<Rightarrow> [])
      | [a, b, n, c] \<Rightarrow>
          (case int_converter n of
             Some i \<Rightarrow>
               if a = ''api'' \<and> b = ''reservations'' \<and> c = ''cancel'' then [([PUT], EpCancelReservation i)]
               else if a = ''api'' \<and> b = ''reservations'' \<and> c = ''status'' then [([PUT], EpUpdateStatus i)]
               else []
           | None \<Rightarrow> [])
      | _ \<Rightarrow> [])"

text \<open>\<open>MapAdapter.match\<close>: the first rule for the path that accepts the
  method; \<open>OPTIONS\<close> on a matched path is answered by Flask; otherwise 405
  when the path matched, 404 when it did not.\<close>

definition route :: "http_method \<Rightarrow> string \<Rightarrow> route_result" where
  "route m p =
     (let rs = rule_matches (url_segments p)
      in if rs = [] then NotFound
         else if m = OPTIONS then AutoOptions
         else case find (\<lambda>r. m \<in> set (fst r)) rs of
                Some r \<Rightarrow> Matched (snd r)
              | None \<Rightarrow> MethodNotAllowed)"

text \<open>Building a URL for an endpoint (Werkzeug's \<open>MapAdapter.build\<close>, what
  \<open>url_for\<close> returns): the rule's method, and its path with the variable
  rendered by \<open>IntegerConverter.to_url\<close>, which is \<open>str(value)\<close>.\<close>

definition int_to_url :: "int \<Rightarrow> string" where
  "int_to_url i = (if i < 0 then CHR ''-'' # dec_str (nat (- i)) else dec_str (nat i))"

fun endpoint_method :: "endpoint \<Rightarrow> http_method" where
  "endpoint_method EpRegister = POST"
| "endpoint_method EpLoginClient = POST"
| "endpoint_method EpLoginAdmin = POST"
| "endpoint_method EpTables = GET"
| "endpoint_method EpCreateReservation = POST"
| "endpoint_method (EpMyReservations _) = GET"
| "endpoint_method (EpCancelReservation _) = PUT"
| "endpoint_method EpAllReservations = GET"
| "endpoint_method (EpUpdateStatus _) = PUT"
| "endpoint_method (EpDeleteReservation _) = DELETE"

fun endpoint_segs :: "endpoint \<Rightarrow> string list" where
  "endpoint_segs EpRegister = [''api'', ''register'']"
| "endpoint_segs EpLoginClient = [''api'', ''login'', ''client'']"
| "endpoint_segs EpLoginAdmin = [''api'', ''login'', ''admin'']"
| "endpoint_segs EpTables = [''api'', ''tables'']"
| "endpoint_segs EpCreateReservation = [''api'', ''reservations'']"
| "endpoint_segs (EpMyReservations i) = [''api'', ''my-reservations'', int_to_url i]"
| "endpoint_segs (EpCancelReservation i) = [''api'', ''reservations'', int_to_url i, ''cancel'']"
| "endpoint_segs EpAllReservations = [''api'', ''reservations'']"
| "endpoint_segs (EpUpdateStatus i) = [''api'', ''reservations'', int_to_url i, ''status'']"
| "endpoint_segs (EpDeleteReservation i) = [''api'', ''reservations'', int_to_url i]"

fun join_path :: "string list \<Rightarrow> string" where
  "join_path [] = []"
| "join_path [x] = x"
| "join_path (x # y # r) = x @ CHR ''/'' # join_path (y # r)"

definition endpoint_path :: "endpoint \<Rightarrow> string" where
  "endpoint_path e = CHR ''/'' # join_path (endpoint_segs e)"

text \<open>The path variable of an endpoint, where it has one.\<close>

fun endpoint_id :: "endpoint \<Rightarrow> int option" where
  "endpoint_id (EpMyReservations i) = Some i"
| "endpoint_id (EpCancelReservation i) = Some i"
| "endpoint_id (EpUpdateStatus i) = Some i"
| "endpoint_id (EpDeleteReservation i) = Some i"
| "endpoint_id _ = None"

section \<open>Splitting and matching\<close>

lemma split_segs_no_sep:
  assumes "CHR ''/'' \<notin> set a" shows "split_segs a = [a]"
proof -
  from assms have "\<forall>x\<in>set a. x \<noteq> CHR ''/''" by auto
  then show ?thesis by (subst split_segs.simps) (simp add: Let_def)
qed

lemma split_segs_sep:
  assumes "CHR ''/'' \<notin> set a" shows "split_segs (a @ CHR ''/'' # b) = a # split_segs b"
proof -
  from assms have "\<forall>x\<in>set a. x \<noteq> CHR ''/''" by auto
  then show ?thesis by (subst split_segs.simps) (simp add: Let_def takeWhile_append2 dropWhile_append2)
qed

lemma digits_val_snoc: "digits_val (xs @ [c]) = 10 * digits_val xs + digit_val c"
  by (simp add: digits_val_def)

lemma digits_val_dec_str: "digits_val (dec_str n) = n"
proof (induction n rule: dec_str.induct)
  case (1 n)
  then show ?case
    by (simp add: dec_str.simps [of n] digits_val_snoc digit_val_chr digits_val_def)
qed

lemma dec_str_ne: "dec_str n \<noteq> []"
  by (simp add: dec_str.simps [of n])

lemma int_converter_dec_str: "int_converter (dec_str n) = Some (int n)"
  by (simp add: int_converter_def dec_str_ne dec_str_digits digits_val_dec_str)

lemma slash_notin_dec_str: "CHR ''/'' \<notin> set (dec_str n)"
  using dec_str_digits [of n] by (auto simp: list_all_iff is_digit_def)

lemma split_segs_length: "length (split_segs s) = length (filter (\<lambda>c. c = CHR ''/'') s) + 1"
proof (induction s rule: split_segs.induct)
  case (1 s)
  show ?case
  proof (cases "dropWhile (\<lambda>c. c \<noteq> CHR ''/'') s")
    case Nil
    then have "\<forall>x\<in>set s. x \<noteq> CHR ''/''" by (simp add: dropWhile_eq_Nil_conv)
    then show ?thesis by (subst split_segs.simps) (simp add: Let_def filter_empty_conv)
  next
    case (Cons c r)
    have s: "s = takeWhile (\<lambda>c. c \<noteq> CHR ''/'') s @ dropWhile (\<lambda>c. c \<noteq> CHR ''/'') s" by simp
    have c: "c = CHR ''/''" using Cons hd_dropWhile [of "\<lambda>c. c \<noteq> CHR ''/''" s] by auto
    have "filter (\<lambda>c. c = CHR ''/'') (takeWhile (\<lambda>c. c \<noteq> CHR ''/'') s) = []"
      by (auto simp: filter_empty_conv dest: set_takeWhileD)
    then have "length (filter (\<lambda>c. c = CHR ''/'') s) = length (filter (\<lambda>c. c = CHR ''/'') r) + 1"
      using Cons c by (subst s) simp
    with 1 Cons show ?thesis by (subst split_segs.simps) (simp add: Let_def)
  qed
qed

lemma split_segs_join:
  "xs \<noteq> [] \<Longrightarrow> \<forall>x\<in>set xs. CHR ''/'' \<notin> set x \<Longrightarrow> split_segs (join_path xs) = xs"
  by (induction xs rule: join_path.induct) (simp_all add: split_segs_sep split_segs_no_sep)

lemma url_segments_join:
  "xs \<noteq> [] \<Longrightarrow> \<forall>x\<in>set xs. CHR ''/'' \<notin> set x \<Longrightarrow> url_segments (CHR ''/'' # join_path xs) = xs"
  by (simp add: url_segments_def split_segs_join)

lemma int_converter_int_to_url: "int_converter (int_to_url i) = (if 0 \<le> i then Some i else None)"
  by (simp add: int_to_url_def int_converter_dec_str) (simp add: int_converter_def is_digit_def)

lemma slash_notin_int_to_url: "CHR ''/'' \<notin> set (int_to_url i)"
  by (simp add: int_to_url_def slash_notin_dec_str)

lemma url_segments_endpoint_path: "url_segments (endpoint_path e) = endpoint_segs e"
  unfolding endpoint_path_def
  by (rule url_segments_join) (cases e; simp add: slash_notin_int_to_url)+

text \<open>Termination of the path splitting loop: \<open>split_segs\<close> is
  defined on every path (its domain predicate holds everywhere, proved by
  induction on the length, each recursive call dropping at least the slash it
  split at), and it returns one segment more than the path has slashes, so it
  runs exactly that many rounds.\<close>

theorem split_segs_terminates:
  "split_segs_dom s \<and> length (split_segs s) = length (filter (\<lambda>c. c = CHR ''/'') s) + 1"
proof
  show "split_segs_dom s"
  proof (induction "length s" arbitrary: s rule: less_induct)
    case less
    show ?case
    proof (rule split_segs.domintros)
      let ?rest = "dropWhile (\<lambda>c. c \<noteq> CHR ''/'') s"
      assume "CHR ''/'' \<in> set s"
      then have ne: "?rest \<noteq> []" by (simp add: dropWhile_eq_Nil_conv)
      have "length ?rest \<le> length s" by (rule length_dropWhile_le)
      with ne have "length (tl ?rest) < length s" by (cases ?rest) auto
      then show "split_segs_dom (tl ?rest)" by (rule less)
    qed
  qed
  show "length (split_segs s) = length (filter (\<lambda>c. c = CHR ''/'') s) + 1"
    by (rule split_segs_length)
qed

text \<open>Round trip of URL building and matching: the URL built for an
  endpoint, requested with the endpoint's method, is dispatched to that very
  endpoint with the same path variable, for every endpoint whose id is
  non-negative; a negative id renders as \<open>-n\<close>, which the unsigned integer
  converter refuses, so that URL is a 404.\<close>

theorem route_endpoint_path:
  "route (endpoint_method e) (endpoint_path e) =
     (case endpoint_id e of None \<Rightarrow> Matched e | Some i \<Rightarrow> if 0 \<le> i then Matched e else NotFound)"
  by (cases e) (simp_all add: route_def rule_matches_def url_segments_endpoint_path int_converter_int_to_url)

text \<open>C28. A path variable that the integer converter refuses (empty, signed,
  or not decimal) makes every rule with an \<open>int\<close> variable miss, whatever the
  method: the request never reaches the view function and is answered by the
  router's 404, not by the view's JSON error.\<close>

theorem route_rejects_bad_id:
  assumes "int_converter seg = None" "CHR ''/'' \<notin> set seg"
  shows "route m (''/api/reservations/'' @ seg @ ''/cancel'') = NotFound
    \<and> route m (''/api/reservations/'' @ seg @ ''/status'') = NotFound
    \<and> route m (''/api/reservations/'' @ seg) = NotFound
    \<and> route m (''/api/my-reservations/'' @ seg) = NotFound"
proof -
  have p: "''/api/reservations/'' @ seg @ ''/cancel'' = CHR ''/'' # join_path [''api'', ''reservations'', seg, ''cancel'']"
    "''/api/reservations/'' @ seg @ ''/status'' = CHR ''/'' # join_path [''api'', ''reservations'', seg, ''status'']"
    "''/api/reservations/'' @ seg = CHR ''/'' # join_path [''api'', ''reservations'', seg]"
    "''/api/my-reservations/'' @ seg = CHR ''/'' # join_path [''api'', ''my-reservations'', seg]"
    by simp_all
  have "url_segments (''/api/reservations/'' @ seg @ ''/cancel'') = [''api'', ''reservations'', seg, ''cancel'']"
    unfolding p(1) by (rule url_segments_join) (use assms(2) in simp_all)
  moreover have "url_segments (''/api/reservations/'' @ seg @ ''/status'') = [''api'', ''reservations'', seg, ''status'']"
    unfolding p(2) by (rule url_segments_join) (use assms(2) in simp_all)
  moreover have "url_segments (''/api/reservations/'' @ seg) = [''api'', ''reservations'', seg]"
    unfolding p(3) by (rule url_segments_join) (use assms(2) in simp_all)
  moreover have "url_segments (''/api/my-reservations/'' @ seg) = [''api'', ''my-reservations'', seg]"
    unfolding p(4) by (rule url_segments_join) (use assms(2) in simp_all)
  ultimately show ?thesis using assms(1) by (simp add: route_def rule_matches_def)
qed

theorem route_rejects_bad_id_witness:
  "route PUT ''/api/reservations/-1/cancel'' = NotFound \<and> route DELETE ''/api/reservations/-1'' = NotFound"
proof -
  have "int_converter ''-1'' = None" by (simp add: int_converter_def is_digit_def)
  moreover have "CHR ''/'' \<notin> set ''-1''" by simp
  ultimately have "route PUT (''/api/reservations/'' @ ''-1'' @ ''/cancel'') = NotFound
      \<and> route DELETE (''/api/reservations/'' @ ''-1'') = NotFound"
    using route_rejects_bad_id [of "''-1''" PUT] route_rejects_bad_id [of "''-1''" DELETE] by blast
  then show ?thesis by simp
qed

end
