(* ===== verification/Json.thy ===== *)
theory Json
  imports Entities Routing
begin

text \<open>
  The JSON values of the application: the values the views pass to
  \<open>jsonify\<close> (every \<open>return jsonify(...)\<close> of app.py and the \<open>to_dict\<close>
  methods of lines 52--58 and 65), and the JSON bodies the views read. The
  byte encoding of a value (\<open>json.dumps\<close>, library code) is not modelled.
\<close>

datatype json =
    JNull
  | JBool bool
  | JInt int
  | JStr string
  | JList "json list"
  | JObj "(string \<times> json) list"

section \<open>The values passed to \<open>jsonify\<close>\<close>

text \<open>\<open>DiningTable.to_dict\<close> (line 65).\<close>

definition table_json :: "dining_table \<Rightarrow> json" where
  "table_json t = JObj [(''id'', JInt (table_id t)), (''table_number'', JStr (table_number t)),
                        (''capacity'', JInt (capacity t))]"

text \<open>\<open>Reservation.to_dict\<close> (lines 52--58), from the rendered record.\<close>

definition res_json :: "res_dict \<Rightarrow> json" where
  "res_json r = JObj [(''id'', JInt (rd_id r)), (''customer_name'', JStr (rd_customer_name r)),
     (''contact_info'', JStr (rd_contact_info r)), (''reservation_date'', JStr (rd_date r)),
     (''reservation_time'', JStr (rd_time r)), (''status'', JStr (rd_status r)),
     (''booked_tables'', JList (map table_json (rd_booked_tables r)))]"

text \<open>One row of \<open>get_table_status\<close> (line 105).\<close>

definition row_json :: "table_row \<Rightarrow> json" where
  "row_json r = JObj [(''id'', JInt (tr_id r)), (''table_number'', JStr (tr_number r)),
     (''capacity'', JInt (tr_capacity r)), (''is_booked'', JBool (tr_is_booked r))]"

text \<open>The argument of each \<open>jsonify\<close>; \<open>str(e)\<close> of a caught exception is
  the parameter \<open>str_exn\<close>. The f-strings of lines 165 and 173 render the id
  with \<open>str\<close>, as the URL converter does.\<close>

fun payload_json :: "(exn \<Rightarrow> string) \<Rightarrow> payload \<Rightarrow> json" where
  "payload_json str_exn (Message m) = JObj [(''message'', JStr m)]"
| "payload_json str_exn (Error e) = JObj [(''error'', JStr e)]"
| "payload_json str_exn (ErrorExn e) = JObj [(''error'', JStr (str_exn e))]"
| "payload_json str_exn (Created m rid) = JObj [(''message'', JStr m), (''id'', JInt rid)]"
| "payload_json str_exn (Tables rows) = JList (map row_json rows)"
| "payload_json str_exn (Reservations rs) = JList (map res_json rs)"
| "payload_json str_exn (StatusUpdated rid st) =
     JObj [(''message'', JStr (''Reservation #'' @ int_to_url rid @ '' status updated to '' @ st))]"
| "payload_json str_exn (Deleted rid) =
     JObj [(''message'', JStr (''Reservation #'' @ int_to_url rid @ '' deleted successfully.''))]"
| "payload_json str_exn (LoginOk m uid un) =
     JObj [(''message'', JStr m), (''user'', JObj [(''id'', JInt uid), (''username'', JStr un)])]"

end
