(* ===== verification/Http.thy ===== *)
theory Http
  imports App Json Routing "HOL-Library.Sublist"
begin

text \<open>
  One HTTP exchange end to end: Werkzeug routes the method and path
  (\<open>Routing\<close>), the view reads its inputs from the query string and from
  \<open>request.get_json()\<close> (\<open>decode_request\<close>), runs (\<open>handle\<close>), and Flask
  writes the reply: the JSON of \<open>jsonify\<close> with its status, or Flask's HTML
  error page for the router's 404 and 405 and for an exception no view
  catches. A request body is a JSON value; bodies whose values have types the
  views do not expect (a number where a string is read, for instance) are
  outside the model (\<open>Unmodelled\<close>). The encoding side (\<open>req_method\<close>,
  \<open>req_path\<close>, \<open>req_query\<close>, \<open>req_body\<close>) is what a client sends for a
  request of the model.
\<close>

datatype http_reply = JsonReply nat json | HtmlError nat | OptionsReply

section \<open>Reading the inputs\<close>

text \<open>\<open>data.get(k)\<close> on the dictionary \<open>json.loads\<close> builds (the last of
  duplicate keys wins), and \<open>request.args.get(k)\<close> (the first value).\<close>

definition json_get :: "(string \<times> json) list \<Rightarrow> string \<Rightarrow> json option" where
  "json_get kvs k = map_option snd (find (\<lambda>kv. fst kv = k) (rev kvs))"

definition query_get :: "(string \<times> string) list \<Rightarrow> string \<Rightarrow> string option" where
  "query_get q k = map_option snd (find (\<lambda>kv. fst kv = k) q)"

text \<open>A looked-up value at the type a view expects; \<open>None\<close> for a value of
  another JSON type.\<close>

fun str_field :: "json option \<Rightarrow> string field option" where
  "str_field None = Some Missing"
| "str_field (Some JNull) = Some Null"
| "str_field (Some (JStr v)) = Some (Val v)"
| "str_field (Some _) = None"

fun int_field :: "json option \<Rightarrow> int field option" where
  "int_field None = Some Missing"
| "int_field (Some JNull) = Some Null"
| "int_field (Some (JInt i)) = Some (Val i)"
| "int_field (Some _) = None"

fun json_ints :: "json list \<Rightarrow> int list option" where
  "json_ints [] = Some []"
| "json_ints (JInt i # xs) = map_option (Cons i) (json_ints xs)"
| "json_ints (_ # xs) = None"

fun int_list_field :: "json option \<Rightarrow> int list field option" where
  "int_list_field None = Some Missing"
| "int_list_field (Some JNull) = Some Null"
| "int_list_field (Some (JList xs)) = map_option Val (json_ints xs)"
| "int_list_field (Some _) = None"

text \<open>Python's \<open>k in data\<close> for the JSON value \<open>data\<close>: a key of an object,
  an element of an array, a substring of a string; on \<open>null\<close>, a number or
  a boolean it raises \<open>TypeError\<close> (\<open>None\<close>).\<close>

fun json_contains :: "json \<Rightarrow> string \<Rightarrow> bool option" where
  "json_contains (JObj kvs) k = Some (json_get kvs k \<noteq> None)"
| "json_contains (JList xs) k = Some (JStr k \<in> set xs)"
| "json_contains (JStr v) k = Some (sublist k v)"
| "json_contains _ k = None"

fun json_is_obj :: "json \<Rightarrow> bool" where
  "json_is_obj (JObj _) = True"
| "json_is_obj _ = False"

text \<open>What a view gets from its inputs before it touches the store: the
  request of the model, a reply it returns at once, an exception it does not
  catch, or inputs outside the model.\<close>

datatype decoded = Decoded request | EarlyReply response | Uncaught | Unmodelled

definition create_fields :: "string list" where
  "create_fields = [''name'', ''contact'', ''date'', ''time'', ''table_ids'', ''userId'']"

text \<open>Lines 110--112 of \<open>create_reservation\<close>: \<open>all(field in data for field
  in required_fields)\<close> (evaluated left to right, so the first \<open>in\<close> that
  raises ends it), then \<open>data[...]\<close>, which only an object supports.\<close>

definition decode_create :: "json \<Rightarrow> decoded" where
  "decode_create body =
     (case those (map (json_contains body) create_fields) of
        None \<Rightarrow> Uncaught
      | Some ps \<Rightarrow>
          if \<not> list_all id ps then EarlyReply (400, Error ''Missing required fields'')
          else (case body of
                  JObj kvs \<Rightarrow>
                    (case (str_field (json_get kvs ''name''), str_field (json_get kvs ''contact''),
                           str_field (json_get kvs ''date''), str_field (json_get kvs ''time''),
                           int_list_field (json_get kvs ''table_ids''), int_field (json_get kvs ''userId'')) of
                       (Some n, Some c, Some d, Some t, Some ids, Some u) \<Rightarrow>
                         Decoded (CreateReservation \<lparr>cb_name = n, cb_contact = c, cb_date = d, cb_time = t,
                                                     cb_table_ids = ids, cb_user_id = u\<rparr>)
                     | _ \<Rightarrow> Unmodelled)
                | _ \<Rightarrow> Uncaught))"

text \<open>The inputs of each view: \<open>data.get\<close> raises \<open>AttributeError\<close> on
  anything but an object (\<open>null\<close> included); \<open>login_admin\<close> compares with
  \<open>==\<close>, so a value of another type is just not equal (line 92), and
  \<open>update_reservation_status\<close> tests membership in a list of strings, so
  such a value is an invalid status (line 160).\<close>

fun decode_request :: "endpoint \<Rightarrow> (string \<times> string) list \<Rightarrow> json \<Rightarrow> decoded" where
  "decode_request EpRegister q (JObj kvs) =
     (case (str_field (json_get kvs ''username''), str_field (json_get kvs ''password''),
            str_field (json_get kvs ''email''), str_field (json_get kvs ''phone'')) of
        (Some u, Some p, Some e, Some ph) \<Rightarrow>
          Decoded (Register \<lparr>rb_username = u, rb_password = p, rb_email = e, rb_phone = ph\<rparr>)
      | _ \<Rightarrow> Unmodelled)"
| "decode_request EpLoginClient q (JObj kvs) =
     (case (str_field (json_get kvs ''username''), str_field (json_get kvs ''password'')) of
        (Some u, Some p) \<Rightarrow> Decoded (LoginClient \<lparr>lb_username = u, lb_password = p\<rparr>)
      | _ \<Rightarrow> Unmodelled)"
| "decode_request EpLoginAdmin q (JObj kvs) =
     (case (str_field (json_get kvs ''username''), str_field (json_get kvs ''password'')) of
        (Some u, Some p) \<Rightarrow> Decoded (LoginAdmin \<lparr>lb_username = u, lb_password = p\<rparr>)
      | _ \<Rightarrow> EarlyReply (401, Error ''Invalid admin credentials''))"
| "decode_request EpTables q body = Decoded (GetTables (query_get q ''date'') (query_get q ''time''))"
| "decode_request EpCreateReservation q body = decode_create body"
| "decode_request (EpMyReservations i) q body = Decoded (MyReservations i)"
| "decode_request (EpCancelReservation i) q body = Decoded (CancelReservation i)"
| "decode_request EpAllReservations q body = Decoded AllReservations"
| "decode_request (EpUpdateStatus i) q (JObj kvs) =
     (case str_field (json_get kvs ''status'') of
        Some st \<Rightarrow> Decoded (UpdateStatus i st)
      | None \<Rightarrow> EarlyReply (400, Error ''Invalid status provided''))"
| "decode_request (EpDeleteReservation i) q body = Decoded (DeleteReservation i)"
| "decode_request _ q _ = Uncaught"

section \<open>Writing the reply\<close>

text \<open>The views whose \<open>try\<close> block turns an exception into a JSON 500
  (lines 100--106 and 117--132); an exception elsewhere reaches Flask, which
  answers with its HTML error page.\<close>

fun catches :: "request \<Rightarrow> bool" where
  "catches (GetTables _ _) = True"
| "catches (CreateReservation _) = True"
| "catches _ = False"

fun render :: "(exn \<Rightarrow> string) \<Rightarrow> request \<Rightarrow> response \<Rightarrow> http_reply" where
  "render str_exn rq (st, ErrorExn e) =
     (if catches rq then JsonReply st (payload_json str_exn (ErrorExn e)) else HtmlError 500)"
| "render str_exn rq (st, p) = JsonReply st (payload_json str_exn p)"

text \<open>One exchange: routing, then the view on its decoded inputs; \<open>None\<close>
  when the inputs are outside the model.\<close>

definition http_step ::
  "(string \<Rightarrow> string) \<Rightarrow> (string \<Rightarrow> string \<Rightarrow> bool) \<Rightarrow> (exn \<Rightarrow> string) \<Rightarrow>
   http_method \<Rightarrow> string \<Rightarrow> (string \<times> string) list \<Rightarrow> json \<Rightarrow> db \<Rightarrow> (http_reply \<times> db) option" where
  "http_step hash check str_exn m p q body s =
     (case route m p of
        NotFound \<Rightarrow> Some (HtmlError 404, s)
      | MethodNotAllowed \<Rightarrow> Some (HtmlError 405, s)
      | AutoOptions \<Rightarrow> Some (OptionsReply, s)
      | Matched ep \<Rightarrow>
          (case decode_request ep q body of
             Decoded rq \<Rightarrow> (case handle hash check rq s of (r, s') \<Rightarrow> Some (render str_exn rq r, s'))
           | EarlyReply r \<Rightarrow> Some (JsonReply (fst r) (payload_json str_exn (snd r)), s)
           | Uncaught \<Rightarrow> Some (HtmlError 500, s)
           | Unmodelled \<Rightarrow> None))"

section \<open>What a client sends for a request\<close>

fun endpoint_of :: "request \<Rightarrow> endpoint" where
  "endpoint_of (Register _) = EpRegister"
| "endpoint_of (LoginClient _) = EpLoginClient"
| "endpoint_of (LoginAdmin _) = EpLoginAdmin"
| "endpoint_of (GetTables _ _) = EpTables"
| "endpoint_of (CreateReservation _) = EpCreateReservation"
| "endpoint_of (MyReservations i) = EpMyReservations i"
| "endpoint_of (CancelReservation i) = EpCancelReservation i"
| "endpoint_of AllReservations = EpAllReservations"
| "endpoint_of (UpdateStatus i _) = EpUpdateStatus i"
| "endpoint_of (DeleteReservation i) = EpDeleteReservation i"

text \<open>A field as the members of a JSON object: nothing when absent.\<close>

fun field_members :: "('a \<Rightarrow> json) \<Rightarrow> string \<Rightarrow> 'a field \<Rightarrow> (string \<times> json) list" where
  "field_members f k Missing = []"
| "field_members f k Null = [(k, JNull)]"
| "field_members f k (Val v) = [(k, f v)]"

fun req_body :: "request \<Rightarrow> json" where
  "req_body (Register b) =
     JObj (field_members JStr ''username'' (rb_username b) @ field_members JStr ''password'' (rb_password b)
           @ field_members JStr ''email'' (rb_email b) @ field_members JStr ''phone'' (rb_phone b))"
| "req_body (LoginClient b) =
     JObj (field_members JStr ''username'' (lb_username b) @ field_members JStr ''password'' (lb_password b))"
| "req_body (LoginAdmin b) =
     JObj (field_members JStr ''username'' (lb_username b) @ field_members JStr ''password'' (lb_password b))"
| "req_body (CreateReservation b) =
     JObj (field_members JStr ''name'' (cb_name b) @ field_members JStr ''contact'' (cb_contact b)
           @ field_members JStr ''date'' (cb_date b) @ field_members JStr ''time'' (cb_time b)
           @ field_members (\<lambda>xs. JList (map JInt xs)) ''table_ids'' (cb_table_ids b)
           @ field_members JInt ''userId'' (cb_user_id b))"
| "req_body (UpdateStatus i st) = JObj (field_members JStr ''status'' st)"
| "req_body _ = JObj []"

fun req_query :: "request \<Rightarrow> (string \<times> string) list" where
  "req_query (GetTables d t) =
     (case d of Some v \<Rightarrow> [(''date'', v)] | None \<Rightarrow> []) @ (case t of Some v \<Rightarrow> [(''time'', v)] | None \<Rightarrow> [])"
| "req_query _ = []"

definition req_method :: "request \<Rightarrow> http_method" where
  "req_method rq = endpoint_method (endpoint_of rq)"

definition req_path :: "request \<Rightarrow> string" where
  "req_path rq = endpoint_path (endpoint_of rq)"

text \<open>The path id of a request is one the unsigned converter accepts.\<close>

definition req_ids_ok :: "request \<Rightarrow> bool" where
  "req_ids_ok rq \<longleftrightarrow> (case endpoint_id (endpoint_of rq) of None \<Rightarrow> True | Some i \<Rightarrow> 0 \<le> i)"

section \<open>Decoding what a client sends\<close>


lemma find_append_cases: "find P (xs @ ys) = (case find P xs of None \<Rightarrow> find P ys | Some x \<Rightarrow> Some x)"
  by (induction xs) auto

lemma json_get_append:
  "json_get (xs @ ys) k = (case json_get ys k of None \<Rightarrow> json_get xs k | Some j \<Rightarrow> Some j)"
  by (simp add: json_get_def find_append_cases split: option.split)

lemma json_get_other: "k' \<noteq> k \<Longrightarrow> json_get (field_members f k' v) k = None"
  by (cases v) (simp_all add: json_get_def)

lemma json_get_field_None: "json_get (field_members f k v) k = None \<longleftrightarrow> v = Missing"
  by (cases v) (simp_all add: json_get_def)

lemma str_field_members: "str_field (json_get (field_members JStr k v) k) = Some v"
  by (cases v) (simp_all add: json_get_def)

lemma int_field_members: "int_field (json_get (field_members JInt k v) k) = Some v"
  by (cases v) (simp_all add: json_get_def)

lemma json_ints_map: "json_ints (map JInt xs) = Some xs"
  by (induction xs) simp_all

lemma int_list_field_members:
  "int_list_field (json_get (field_members (\<lambda>xs. JList (map JInt xs)) k v) k) = Some v"
  by (cases v) (simp_all add: json_get_def json_ints_map)

lemma json_get_members_left: "k' \<noteq> k \<Longrightarrow> json_get (field_members f k' v @ ys) k = json_get ys k"
  by (simp add: json_get_append json_get_other split: option.split)

lemma json_get_notin_right: "k \<notin> fst ` set ys \<Longrightarrow> json_get (xs @ ys) k = json_get xs k"
proof -
  assume "k \<notin> fst ` set ys"
  then have "json_get ys k = None"
    by (auto simp: json_get_def find_None_iff)
  then show ?thesis by (simp add: json_get_append)
qed

lemma notin_keys_members: "k' \<noteq> k \<Longrightarrow> k \<notin> fst ` set (field_members f k' v)"
  by (cases v) simp_all

lemmas json_get_simps = json_get_members_left json_get_notin_right notin_keys_members json_get_other image_Un
  json_get_field_None str_field_members int_field_members int_list_field_members

lemma present_iff: "present f \<longleftrightarrow> f \<noteq> Missing"
  by (cases f) simp_all

lemma decode_req_body:
  "decode_request (endpoint_of rq) (req_query rq) (req_body rq) =
     (case rq of
        CreateReservation b \<Rightarrow>
          if required_present b then Decoded rq else EarlyReply (400, Error ''Missing required fields'')
      | _ \<Rightarrow> Decoded rq)"
proof (cases rq)
  case (GetTables d t)
  then show ?thesis by (cases d; cases t) (simp_all add: query_get_def)
next
  case (CreateReservation b)
  then show ?thesis
    by (simp add: decode_create_def create_fields_def json_get_simps required_present_def present_iff)
qed (simp_all add: json_get_simps)

lemma route_endpoint:
  "(case endpoint_id e of None \<Rightarrow> True | Some i \<Rightarrow> 0 \<le> i) \<Longrightarrow> route (endpoint_method e) (endpoint_path e) = Matched e"
  by (cases e) (simp_all add: route_def rule_matches_def url_segments_endpoint_path int_converter_int_to_url)

lemma route_req: "req_ids_ok rq \<Longrightarrow> route (req_method rq) (req_path rq) = Matched (endpoint_of rq)"
  unfolding req_ids_ok_def req_method_def req_path_def by (rule route_endpoint)

text \<open>Refinement of the request model by the HTTP exchange: every
  request of the model whose path id is non-negative, sent as its method,
  URL, query string and JSON body, is routed to its view, decoded back to
  itself, and answered exactly as \<open>handle\<close> answers it, with the same next
  store; only the exceptions no view catches become Flask's HTML 500.\<close>

theorem http_serves_request:
  assumes "req_ids_ok rq"
  shows "http_step hash check f (req_method rq) (req_path rq) (req_query rq) (req_body rq) s
         = Some (render f rq (fst (handle hash check rq s)), snd (handle hash check rq s))"
proof (cases "\<exists>b. rq = CreateReservation b \<and> \<not> required_present b")
  case True
  then obtain b where rq: "rq = CreateReservation b" "\<not> required_present b" by blast
  then show ?thesis
    using route_req [OF assms] decode_req_body [of rq] by (simp add: http_step_def create_reservation_def)
next
  case False
  then have "decode_request (endpoint_of rq) (req_query rq) (req_body rq) = Decoded rq"
    using decode_req_body [of rq] by (cases rq) auto
  then show ?thesis using route_req [OF assms] by (simp add: http_step_def split: prod.split)
qed

theorem http_serves_request_witness:
  "http_step demo_hash demo_check (\<lambda>_. []) PUT ''/api/reservations/1/cancel'' [] (JObj []) demo_booked
     = Some (JsonReply 200 (JObj [(''message'', JStr ''Reservation cancelled successfully'')]),
             set_status 1 Cancelled demo_booked)"
proof -
  have ok: "req_ids_ok (CancelReservation 1)" by (simp add: req_ids_ok_def)
  have p: "req_path (CancelReservation 1) = ''/api/reservations/1/cancel''" by code_simp
  have h: "handle demo_hash demo_check (CancelReservation 1) demo_booked
      = ((200, Message ''Reservation cancelled successfully''), set_status 1 Cancelled demo_booked)"
    by (simp add: cancel_reservation_def get_reservation_def demo_booked_def)
  from http_serves_request [OF ok, of demo_hash demo_check "\<lambda>_. []" demo_booked] p h show ?thesis
    by (simp add: req_method_def)
qed

lemma http_step_store:
  "http_step hash check f m p q b s = Some (rep, s') \<Longrightarrow> s' = s \<or> (\<exists>rq. s' = snd (handle hash check rq s))"
  by (auto simp: http_step_def split: route_result.splits decoded.splits prod.splits) (metis snd_conv)

lemma decode_create_nonobj:
  "\<not> json_is_obj body \<Longrightarrow>
   decode_create body \<in> {Uncaught, EarlyReply (400, Error ''Missing required fields'')}"
  by (cases body) (auto simp: decode_create_def split: option.split)

text \<open>C30. Error path of the JSON body: a body that is valid JSON but not an
  object (an array, a string, a number, \<open>null\<close>) makes the registration,
  both logins and the status update raise \<open>AttributeError\<close> in
  \<open>data.get\<close>, answered by Flask's HTML 500 instead of a JSON error, and the
  booking endpoint answers 400 or the same HTML 500; no such request changes
  the store.\<close>

theorem http_nonobject_body:
  assumes "\<not> json_is_obj body" "0 \<le> i"
  shows "http_step hash check f POST (endpoint_path EpRegister) q body s = Some (HtmlError 500, s)
    \<and> http_step hash check f POST (endpoint_path EpLoginClient) q body s = Some (HtmlError 500, s)
    \<and> http_step hash check f POST (endpoint_path EpLoginAdmin) q body s = Some (HtmlError 500, s)
    \<and> http_step hash check f PUT (endpoint_path (EpUpdateStatus i)) q body s = Some (HtmlError 500, s)
    \<and> (\<exists>rep. http_step hash check f POST (endpoint_path EpCreateReservation) q body s = Some (rep, s)
           \<and> rep \<in> {HtmlError 500, JsonReply 400 (JObj [(''error'', JStr ''Missing required fields'')])})"
proof -
  have r: "route POST (endpoint_path EpRegister) = Matched EpRegister"
    "route POST (endpoint_path EpLoginClient) = Matched EpLoginClient"
    "route POST (endpoint_path EpLoginAdmin) = Matched EpLoginAdmin"
    "route PUT (endpoint_path (EpUpdateStatus i)) = Matched (EpUpdateStatus i)"
    "route POST (endpoint_path EpCreateReservation) = Matched EpCreateReservation"
    using route_endpoint [of EpRegister] route_endpoint [of EpLoginClient] route_endpoint [of EpLoginAdmin]
      route_endpoint [of "EpUpdateStatus i"] route_endpoint [of EpCreateReservation] assms(2)
    by simp_all
  have d: "decode_request EpRegister q body = Uncaught" "decode_request EpLoginClient q body = Uncaught"
    "decode_request EpLoginAdmin q body = Uncaught" "decode_request (EpUpdateStatus i) q body = Uncaught"
    using assms(1) by (cases body; simp)+
  show ?thesis
    using r d decode_create_nonobj [OF assms(1)] by (auto simp: http_step_def)
qed

theorem http_nonobject_body_witness:
  "http_step demo_hash demo_check (\<lambda>_. []) POST ''/api/register'' [] (JList []) demo_db = Some (HtmlError 500, demo_db)"
proof -
  have "endpoint_path EpRegister = ''/api/register''" by (simp add: endpoint_path_def)
  moreover have "\<not> json_is_obj (JList [])" by simp
  ultimately show ?thesis
    using http_nonobject_body [of "JList []" 0 demo_hash demo_check "\<lambda>_. []" "[]" demo_db] by simp
qed

end
