(* ===== verification/Spec2Isabelle.thy ===== *)
theory Spec2Isabelle
  imports Http Config
begin

text \<open>
  Verification development of the restaurant reservation back end, the Flask
  application \<open>src/backend/app.py\<close> (one file, 179 lines). The program is a
  set of HTTP view functions over one MySQL database reached through
  SQLAlchemy: the authentication endpoints (lines 68--93), the availability
  query (96--106), the booking endpoint (108--132), the customer listing and
  cancel (135--148), and the admin listing, review and delete (151--173). The
  model is a shallow embedding: the database is a record of tables, every view
  function is a HOL function from its inputs and the store to a response
  (an HTTP status and a JSON payload) and the next store.

  \<^bold>\<open>Theories.\<close>
  \<^item> \<open>Prelude\<close>: JSON fields as \<open>'a field\<close> (absent key, \<open>null\<close>, value),
    Python truthiness, the exceptions that reach the handlers (\<open>exn\<close>), the
    \<open>store_simps\<close> collection and generic lemmas on \<open>find\<close> and \<open>distinct\<close>.
  \<^item> \<open>DateTime\<close>: \<open>datetime.strptime\<close> for \<open>%Y-%m-%d\<close> and \<open>%H:%M\<close> as
    CPython's regular expressions accept them (\<open>parse_date\<close>,
    \<open>parse_time\<close>, one-digit fields included), \<open>strftime\<close> (\<open>format_date\<close>,
    \<open>format_time\<close>; \<open>%Y\<close> with four digits, as CPython prints it from
    3.12.5 on), and MySQL's reading of a time string compared with a
    \<open>TIME\<close> column (\<open>sql_time_literal\<close>: the documented literal forms
    \<open>'D hh:mm:ss'\<close>, \<open>'hh:mm:ss'\<close>, \<open>'hh:mm'\<close>, \<open>'D hh:mm'\<close>,
    \<open>'D hh'\<close>, digits only as \<open>hhmmss\<close>, a fraction). Lemmas: parsed
    values are valid; printing then parsing is the identity for every valid
    date and time.
  \<^item> \<open>Entities\<close>: the models \<open>User\<close>, \<open>Reservation\<close>, \<open>DiningTable\<close> and the
    association table as records in the store \<open>db\<close>, with the
    \<open>AUTO_INCREMENT\<close> counters; the engine's checks (primary key, foreign keys,
    \<open>NOT NULL\<close>) raising \<open>IntegrityError\<close>; the session as a unit of work
    \<open>'a uow\<close> with \<open>run_uow\<close> (commit, or rollback that keeps the counters);
    \<open>to_dict\<close>; the store invariant \<open>wf_store\<close> and \<open>wf_db\<close> (the latter adds
    the specification's rule that a reservation holds at least one table), and
    that each store operation keeps it.
  \<^item> \<open>Booking\<close>: \<open>create_reservation\<close> (the field check, \<open>list(set(...))\<close> as
    \<open>remdups\<close>, the \<open>try\<close> block as \<open>create_uow\<close> run under \<open>run_uow\<close>).
    Lemmas: the success case, atomicity, unknown tables, unparsable dates,
    null names, the absence of an availability check (any valid request sent
    twice books the same tables twice), and preservation of the invariant.
  \<^item> \<open>Availability\<close>: \<open>get_table_status\<close> and the specification's predicate
    \<open>occupied\<close>; the refinement lemma says the handler computes it.
  \<^item> \<open>Lifecycle\<close>: \<open>update_reservation_status\<close>, \<open>cancel_reservation\<close>,
    \<open>delete_reservation\<close>, and the specification's transition relation
    \<open>spec_step\<close> (an inductive predicate). Lemmas: every specified transition
    is implemented, the code allows more (a cancelled or rejected reservation
    can be accepted again), freeing tables is a function of the status, error
    paths, the effect of delete.
  \<^item> \<open>Queries\<close>: \<open>get_my_reservations\<close> and \<open>get_all_reservations\<close>, with
    \<open>ORDER BY ... DESC\<close> as \<open>sort_desc\<close>, one admissible order of the
    query (which has no tie-breaking column); the lemmas state what every
    admissible order has: the rows are a permutation of the selected ones,
    sorted descending.
  \<^item> \<open>Auth\<close>: \<open>register_client\<close>, \<open>login_client\<close>, \<open>login_admin\<close>, with the
    werkzeug password hash and its check as parameters, and the lookups
    \<open>filter_by(username=...)\<close>, \<open>filter_by(email=...)\<close> under MySQL's
    case-insensitive collation (\<open>ci_key\<close>, defined in \<open>Entities\<close>);
    registration then login, the uniqueness checks up to letter case, missing
    fields, and the crash on a missing password.
  \<^item> \<open>Config\<close>: the database URI of lines 14--20, with the password escaped by
    \<open>urllib.parse.quote_plus\<close> (modelled on bytes), and SQLAlchemy's
    reading of it (\<open>parse_db_url\<close>: the pattern of \<open>_parse_url\<close> and
    \<open>urllib.parse.unquote\<close> on the user and the password); lemmas: the URI is
    read back to the configured user, host and schema and to the password,
    except that a space of the password comes back as \<open>+\<close>; the escaped
    password cannot contain the \<open>@\<close> that ends the credentials.
  \<^item> \<open>Routing\<close>: Werkzeug's URL map for the ten \<open>@app.route\<close> rules: the
    path split at its slashes (\<open>split_segs\<close>, a \<open>function\<close> whose
    termination is proved by the measure \<open>length\<close>), the unsigned
    \<open>IntegerConverter\<close> (\<open>int_converter\<close>), the rule table
    (\<open>rule_matches\<close>) and \<open>route\<close> with its 404, 405 and automatic
    \<open>OPTIONS\<close> answers; URL building (\<open>endpoint_path\<close>, as \<open>url_for\<close>
    renders a rule). Lemmas: the splitting loop terminates on every path
    after one round per slash; building then matching gives back the endpoint
    exactly when its id is non-negative, and an id the converter refuses
    is a 404 of the router for every method.
  \<^item> \<open>App\<close>: the request surface as the datatype \<open>request\<close> (one
    constructor per view with the inputs it reads) and Flask's dispatch as
    \<open>handle\<close>; \<open>serve\<close> runs a list of requests one after the other.
  \<^item> \<open>Json\<close>: the values every \<open>return jsonify(...)\<close> builds
    (\<open>payload_json\<close>, with \<open>to_dict\<close> of lines 52--58 and 65) as the
    datatype \<open>json\<close>; their encoding to bytes by \<open>json.dumps\<close> is library
    code and is not modelled.
  \<^item> \<open>Http\<close>: one exchange end to end (\<open>http_step\<close>): routing, the views'
    reads of \<open>request.get_json()\<close> and \<open>request.args\<close>
    (\<open>decode_request\<close>, Python's \<open>in\<close> and \<open>data.get\<close> on any JSON
    value), the view, and the reply, a JSON value or Flask's HTML error page
    for the router's 404 and 405 and for an exception no view catches. A body
    whose field values have JSON types the views do not expect is outside the
    model: \<open>decode_request\<close> gives \<open>Unmodelled\<close> and \<open>http_step\<close>
    \<open>None\<close>. Lemmas: every request of the model sent over HTTP is answered
    as \<open>handle\<close> answers it, a body that is not an object crashes four
    views with an HTML 500, and an exchange changes the store only as some
    request does.
  \<^item> This theory: \<open>reachable\<close> and \<open>http_reachable\<close>, the stores reachable
    from a seed by requests and by HTTP exchanges, and the refinement of the
    second by the first. \<open>created_db\<close> is the store \<open>db.create_all()\<close>
    leaves (lines 176--178).
    Lemmas: every request keeps the system invariant \<open>sys_inv\<close> (hence every
    reachable store satisfies it, by the induction principle
    \<open>reachable_invariant\<close>), the dining tables are never changed and the id
    counters never decrease (so from \<open>created_db\<close> no booking ever
    succeeds), read-only requests do not write, every response has the shape
    \<open>response_ok\<close> of the specification's error taxonomy, cancel requests can
    always free every slot, and the end-to-end scenario of the specification
    evaluates to the expected responses. Every store reached by modelled HTTP
    exchanges is reached by requests (\<open>http_reachable\<close>), so the
    invariants carry over to them.

  \<^bold>\<open>Approximations.\<close> Each request is one atomic step: the database runs
  each handler's writes in one transaction, and concurrent requests are
  modelled by their serial order (which already exhibits the double booking
  the specification documents). Rows are lists in primary-key order, and
  \<open>SELECT\<close> without \<open>ORDER BY\<close>, as well as the ties of \<open>ORDER BY\<close>, return
  rows in that order, one of the orders the database may choose; no property
  depends on it. Strings compared by the database are compared with their
  ASCII letters folded to lower case, as MySQL's default collation does; its
  accent folding is not modelled, and the \<open>String(n)\<close> length limits are
  not checked. A time string outside MySQL's documented \<open>TIME\<close> literal
  forms is taken to match no stored time. Request bodies are JSON values; a value of a
  type a view does not expect (a number where it reads a string, a float) is
  outside the model, and so are characters above code point 255. No loop of the program is unbounded: the only loop is over the
  requested table ids, modelled by structural recursion, and the router's
  splitting of a path at its slashes is a \<open>function\<close> proved terminating,
  so no fuel is needed.

  Date rendering follows current CPython (3.12.5 and later), which pads
  \<open>%Y\<close> to four digits on every platform.

  \<^bold>\<open>Not modelled.\<close> The framework objects of the setup (\<open>Flask(__name__)\<close>,
  \<open>CORS(app)\<close>, \<open>SQLALCHEMY_TRACK_MODIFICATIONS\<close>, \<open>app.run\<close>), which hold
  no state the handlers read (\<open>CORS(app)\<close> only adds response headers,
  and the debug flag only the indentation of the JSON); the HTTP framing and
  headers, the byte encoding of JSON replies, a request without a JSON content type, Werkzeug's merge of
  repeated slashes; and werkzeug's salted hashing (a parameter with its
  contract).
  Dining tables are created by no endpoint; the seeds \<open>demo_db\<close> and
  \<open>seed_db\<close> stand for a database seeded outside the program.
\<close>

section \<open>The application\<close>

text \<open>The stores reachable from a seed store by any sequence of requests.\<close>

inductive reachable :: "(string \<Rightarrow> string) \<Rightarrow> db \<Rightarrow> db \<Rightarrow> bool" for hash s0 where
  init: "reachable hash s0 s0"
| step: "reachable hash s0 s \<Longrightarrow> reachable hash s0 (snd (handle hash check rq s))"


text \<open>The system invariant: the store invariant of \<open>Entities\<close>, and every
  stored slot a calendar date and a time of day (the \<open>DATE\<close> and \<open>TIME\<close>
  columns hold only what \<open>strptime\<close> accepted).\<close>

definition slots_valid :: "db \<Rightarrow> bool" where
  "slots_valid s \<longleftrightarrow>
     (\<forall>r \<in> set (reservations s). valid_date (reservation_date r) \<and> valid_time (reservation_time r))"

definition sys_inv :: "db \<Rightarrow> bool" where
  "sys_inv s \<longleftrightarrow> wf_db s \<and> slots_valid s"

text \<open>The seed of the end-to-end scenario: tables \<open>T1\<close> (four seats) and
  \<open>T2\<close> (two seats), nothing else, as \<open>db.create_all()\<close> and a seeding
  script leave it.\<close>

definition seed_db :: db where
  "seed_db = \<lparr>users = [], reservations = [],
              dining_tables = [\<lparr>table_id = 1, table_number = ''T1'', capacity = 4\<rparr>,
                               \<lparr>table_id = 2, table_number = ''T2'', capacity = 2\<rparr>],
              reservation_tables = [], next_user_id = 1, next_res_id = 1\<rparr>"

text \<open>The end-to-end scenario of section 8 of the specification, from
  \<open>seed_db\<close>: a client registers and logs in, reads the availability of
  2025-07-04 18:00, books \<open>T1\<close> and \<open>T2\<close> for it, reads the availability
  again; staff accept the booking; the client lists its reservations; staff
  delete the booking; the availability is read a third time.\<close>

definition scenario :: "request list" where
  "scenario =
     [Register \<lparr>rb_username = Val ''bob'', rb_password = Val ''secret'',
                rb_email = Val ''bob@example.org'', rb_phone = Val ''556''\<rparr>,
      LoginClient \<lparr>lb_username = Val ''bob'', lb_password = Val ''secret''\<rparr>,
      GetTables (Some ''2025-07-04'') (Some ''18:00''),
      CreateReservation \<lparr>cb_name = Val ''Bob'', cb_contact = Val ''556'', cb_date = Val ''2025-07-04'',
                         cb_time = Val ''18:00'', cb_table_ids = Val [1, 2], cb_user_id = Val 1\<rparr>,
      GetTables (Some ''2025-07-04'') (Some ''18:00''),
      UpdateStatus 1 (Val ''Accepted''),
      MyReservations 1,
      DeleteReservation 1,
      GetTables (Some ''2025-07-04'') (Some ''18:00'')]"

text \<open>The store \<open>db.create_all()\<close> leaves on an empty database (lines
  176--178, run before \<open>app.run\<close>): every table empty, both
  \<open>AUTO_INCREMENT\<close> counters at 1.\<close>

definition created_db :: db where
  "created_db = \<lparr>users = [], reservations = [], dining_tables = [], reservation_tables = [],
                 next_user_id = 1, next_res_id = 1\<rparr>"

text \<open>The shape of the responses the specification's error taxonomy
  (sections 6 and 7) describes: a status among those the interface lists, a
  success body exactly for the 2xx statuses, and the body of an uncaught or
  caught exception exactly for 500.\<close>

fun success_payload :: "payload \<Rightarrow> bool" where
  "success_payload (Error _) = False"
| "success_payload (ErrorExn _) = False"
| "success_payload _ = True"

fun exn_payload :: "payload \<Rightarrow> bool" where
  "exn_payload (ErrorExn _) = True"
| "exn_payload _ = False"

definition response_ok :: "response \<Rightarrow> bool" where
  "response_ok r \<longleftrightarrow> fst r \<in> {200, 201, 400, 401, 404, 409, 500}
     \<and> (fst r < 300 \<longleftrightarrow> success_payload (snd r)) \<and> (fst r = 500 \<longleftrightarrow> exn_payload (snd r))"

section \<open>Each request keeps the system invariant\<close>

lemma slots_valid_set_status [simp]: "slots_valid (set_status rid st s) = slots_valid s"
  by (simp add: slots_valid_def)

lemma slots_valid_delete_res: "slots_valid s \<Longrightarrow> slots_valid (delete_res rid s)"
  by (simp add: slots_valid_def)

lemma slots_valid_create_reservation:
  assumes "slots_valid s"
  shows "slots_valid (snd (create_reservation b s))"
  unfolding slots_valid_def
proof
  fix r assume "r \<in> set (reservations (snd (create_reservation b s)))"
  then have "r \<in> set (reservations s) \<or> (\<exists>ds ts. cb_date b = Val ds \<and> parse_date ds = Some (reservation_date r)
           \<and> cb_time b = Val ts \<and> parse_time ts = Some (reservation_time r))"
    by (rule create_reservation_rows)
  with assms show "valid_date (reservation_date r) \<and> valid_time (reservation_time r)"
    by (auto simp: slots_valid_def dest: parse_date_valid parse_time_valid)
qed

lemma sys_inv_views:
  "sys_inv s \<Longrightarrow> sys_inv (snd (register_client hash b s))"
  "sys_inv s \<Longrightarrow> sys_inv (snd (create_reservation cb s))"
  "sys_inv s \<Longrightarrow> sys_inv (snd (cancel_reservation rid s))"
  "sys_inv s \<Longrightarrow> sys_inv (snd (update_reservation_status rid st s))"
  "sys_inv s \<Longrightarrow> sys_inv (snd (delete_reservation rid s))"
proof -
  assume "sys_inv s"
  then have wf: "wf_db s" and sv: "slots_valid s" by (simp_all add: sys_inv_def)
  show "sys_inv (snd (register_client hash b s))"
    using wf sv by (simp add: sys_inv_def register_client_wf slots_valid_def register_client_frame)
  show "sys_inv (snd (create_reservation cb s))"
    using wf sv by (simp add: sys_inv_def create_reservation_wf slots_valid_create_reservation)
  show "sys_inv (snd (cancel_reservation rid s))"
    using wf sv lifecycle_wf [OF wf, of rid] by (simp add: sys_inv_def cancel_reservation_def split: option.split)
  show "sys_inv (snd (update_reservation_status rid st s))"
    using wf sv lifecycle_wf [OF wf, of rid st]
    by (simp add: sys_inv_def update_reservation_status_def split: option.split)
  show "sys_inv (snd (delete_reservation rid s))"
    using wf sv lifecycle_wf [OF wf, of rid]
    by (simp add: sys_inv_def delete_reservation_def slots_valid_delete_res split: option.split)
qed

lemma handle_sys_inv: "sys_inv s \<Longrightarrow> sys_inv (snd (handle hash check rq s))"
  by (cases rq) (simp_all add: sys_inv_views)

lemma handle_frame:
  "dining_tables (snd (handle hash check rq s)) = dining_tables s
   \<and> next_res_id s \<le> next_res_id (snd (handle hash check rq s))
   \<and> next_user_id s \<le> next_user_id (snd (handle hash check rq s))
   \<and> next_res_id (snd (handle hash check rq s)) \<le> next_res_id s + 1
   \<and> next_user_id (snd (handle hash check rq s)) \<le> next_user_id s + 1"
  by (cases rq) (simp_all add: register_client_frame create_reservation_frame lifecycle_defs split: option.split)

lemma reachable_serve:
  "reachable hash s0 s \<Longrightarrow> reachable hash s0 (snd (serve hash check rqs s))"
proof (induction rqs arbitrary: s)
  case Nil
  then show ?case by simp
next
  case (Cons rq rqs)
  then have "reachable hash s0 (snd (serve hash check rqs (snd (handle hash check rq s))))"
    by (blast intro: reachable.step)
  then show ?case by (simp add: case_prod_beta)
qed

lemma response_ok_register: "response_ok (fst (register_client hash b s))"
  by (simp add: response_ok_def register_client_def split: field.split option.split)

lemma response_ok_login: "response_ok (login_client check b s)" "response_ok (login_admin b)"
  by (simp_all add: response_ok_def login_client_def login_admin_def split: field.split option.split)

lemma response_ok_tables: "response_ok (get_table_status d t s)"
  by (simp add: response_ok_def get_table_status_def split: option.split)

lemma response_ok_create: "response_ok (fst (create_reservation b s))"
  by (simp add: response_ok_def create_reservation_def Let_def split: prod.split sum.split)

lemma response_ok_queries: "response_ok (get_my_reservations uid s)" "response_ok (get_all_reservations s)"
  by (simp_all add: response_ok_def get_my_reservations_def get_all_reservations_def split: option.split)

lemma response_ok_lifecycle:
  "response_ok (fst (update_reservation_status rid f s))" "response_ok (fst (cancel_reservation rid s))"
  "response_ok (fst (delete_reservation rid s))"
  by (simp_all add: response_ok_def lifecycle_defs split: option.split)

text \<open>The induction principle of invariants over the reachable stores.\<close>

lemma reachable_invariant:
  assumes "reachable hash s0 s" and "P s0"
    and "\<And>s check rq. P s \<Longrightarrow> P (snd (handle hash check rq s))"
  shows "P s"
  using assms(1) by (induction rule: reachable.induct) (simp_all add: assms(2,3))

lemma serve_cancels:
  "reservations (snd (serve hash check (map CancelReservation ids) s)) =
     map (\<lambda>r. if res_id r \<in> set ids then r\<lparr>status := Cancelled\<rparr> else r) (reservations s)
   \<and> reservation_tables (snd (serve hash check (map CancelReservation ids) s)) = reservation_tables s"
proof (induction ids arbitrary: s)
  case Nil
  then show ?case by simp
next
  case (Cons rid ids)
  then show ?case
    by (simp add: case_prod_beta cancel_reservation_effect upd_status_def comp_def)
qed

section \<open>Properties of the application\<close>

text \<open>C5. Invariant: from a seed store that satisfies the system invariant,
  every store reachable by any sequence of requests satisfies it: user,
  reservation and table keys unique and below their counters, every foreign
  key resolved, every reservation holding at least one table, and every stored
  date and time a valid calendar date and time of day.\<close>

theorem reachable_sys_inv:
  assumes "sys_inv s0" and "reachable hash s0 s"
  shows "sys_inv s"
  using assms(2,1)
proof (rule reachable_invariant)
  fix s' check rq
  assume "sys_inv s'"
  then show "sys_inv (snd (handle hash check rq s'))" by (cases rq) (simp_all add: sys_inv_views)
qed

theorem reachable_sys_inv_witness:
  "sys_inv (snd (serve demo_hash demo_check scenario seed_db))"
proof -
  have "sys_inv seed_db" by code_simp
  moreover have "reachable demo_hash seed_db (snd (serve demo_hash demo_check scenario seed_db))"
    by (rule reachable_serve [OF reachable.init])
  ultimately show ?thesis by (rule reachable_sys_inv)
qed

text \<open>End-to-end scenario (specification, section 8): both tables are
  free, then both booked once the reservation is created, the owner's listing
  shows the accepted reservation with tables \<open>T1\<close> and \<open>T2\<close>, and after the
  deletion both tables are free again.\<close>

theorem end_to_end_scenario:
  "fst (serve demo_hash demo_check scenario seed_db) =
    [(201, Message ''User registered successfully''),
     (200, LoginOk ''Client login successful'' 1 ''bob''),
     (200, Tables [\<lparr>tr_id = 1, tr_number = ''T1'', tr_capacity = 4, tr_is_booked = False\<rparr>,
                   \<lparr>tr_id = 2, tr_number = ''T2'', tr_capacity = 2, tr_is_booked = False\<rparr>]),
     (201, Created ''Reservation successful!'' 1),
     (200, Tables [\<lparr>tr_id = 1, tr_number = ''T1'', tr_capacity = 4, tr_is_booked = True\<rparr>,
                   \<lparr>tr_id = 2, tr_number = ''T2'', tr_capacity = 2, tr_is_booked = True\<rparr>]),
     (200, StatusUpdated 1 ''Accepted''),
     (200, Reservations [\<lparr>rd_id = 1, rd_customer_name = ''Bob'', rd_contact_info = ''556'',
                          rd_date = ''2025-07-04'', rd_time = ''18:00'', rd_status = ''Accepted'',
                          rd_booked_tables = [\<lparr>table_id = 1, table_number = ''T1'', capacity = 4\<rparr>,
                                              \<lparr>table_id = 2, table_number = ''T2'', capacity = 2\<rparr>]\<rparr>]),
     (200, Deleted 1),
     (200, Tables [\<lparr>tr_id = 1, tr_number = ''T1'', tr_capacity = 4, tr_is_booked = False\<rparr>,
                   \<lparr>tr_id = 2, tr_number = ''T2'', tr_capacity = 2, tr_is_booked = False\<rparr>])]"
  by code_simp

text \<open>C15. Reference data and counters: along any sequence of requests the
  dining tables never change, and neither id counter ever decreases, so an id
  is never handed out twice, not even after a rolled-back booking or a
  deletion.\<close>

theorem reachable_frame:
  assumes "reachable hash s0 s"
  shows "dining_tables s = dining_tables s0 \<and> next_res_id s0 \<le> next_res_id s
    \<and> next_user_id s0 \<le> next_user_id s"
  using assms
proof (rule reachable_invariant)
  fix s :: db and check rq
  assume "dining_tables s = dining_tables s0 \<and> next_res_id s0 \<le> next_res_id s
    \<and> next_user_id s0 \<le> next_user_id s"
  with handle_frame [of hash check rq s]
  show "dining_tables (snd (handle hash check rq s)) = dining_tables s0
    \<and> next_res_id s0 \<le> next_res_id (snd (handle hash check rq s))
    \<and> next_user_id s0 \<le> next_user_id (snd (handle hash check rq s))" by fastforce
qed simp

theorem reachable_frame_witness:
  "dining_tables (snd (serve demo_hash demo_check scenario seed_db)) = dining_tables seed_db"
  using reachable_frame [OF reachable_serve [OF reachable.init, of demo_hash seed_db demo_check scenario]]
  by simp

text \<open>Read-only requests (the two logins, the availability query and the
  two listings) leave the store unchanged, so repeating one with no write in
  between gives the same answer (specification, section 8, idempotent read).\<close>

theorem readonly_idempotent:
  assumes "readonly rq"
  shows "snd (handle hash check rq s) = s
    \<and> handle hash check rq (snd (handle hash check rq s)) = handle hash check rq s"
  using assms by (cases rq) simp_all

theorem readonly_idempotent_witness:
  "handle demo_hash demo_check AllReservations (snd (handle demo_hash demo_check AllReservations demo_three))
     = handle demo_hash demo_check AllReservations demo_three"
  using readonly_idempotent [of AllReservations demo_hash demo_check demo_three] by simp

text \<open>C22. Response shape: whatever the request and the store, the answer has
  one of the statuses 200, 201, 400, 401, 404, 409, 500, a success body exactly
  when the status is below 300, and an exception body exactly when it is 500.\<close>

theorem handle_response_ok: "response_ok (fst (handle hash check rq s))"
  by (cases rq)
     (simp_all add: response_ok_register response_ok_login response_ok_tables response_ok_create
        response_ok_queries response_ok_lifecycle)

text \<open>C23. Liveness of freeing: from any store, the holders' cancel requests
  alone, one per reservation, free every table for every slot.\<close>

theorem slots_can_be_freed:
  "\<exists>rqs. set rqs \<subseteq> range CancelReservation
     \<and> (\<forall>d t. occupied (snd (serve hash check rqs s)) d t = {})"
proof (intro exI conjI allI)
  let ?rqs = "map CancelReservation (map res_id (reservations s))"
  show "set ?rqs \<subseteq> range CancelReservation" by auto
  fix d t
  let ?s' = "snd (serve hash check ?rqs s)"
  have "reservations ?s' = map (\<lambda>r. r\<lparr>status := Cancelled\<rparr>) (reservations s)"
    using serve_cancels [of hash check "map res_id (reservations s)" s] by simp
  then have "\<forall>r \<in> set (reservations ?s'). status r = Cancelled" by auto
  then show "occupied ?s' d t = {}" by (auto simp: occupied_def)
qed

text \<open>C24. No endpoint creates a dining table, and a reservation needs one:
  from the store \<open>db.create_all()\<close> leaves, no sequence of requests ever
  produces a reservation.\<close>

theorem created_db_never_books:
  assumes "reachable hash created_db s"
  shows "dining_tables s = [] \<and> reservations s = []"
proof -
  have "sys_inv s \<and> dining_tables s = []"
    using assms
  proof (rule reachable_invariant [where P = "\<lambda>s. sys_inv s \<and> dining_tables s = []"])
    show "sys_inv created_db \<and> dining_tables created_db = []"
      by (simp add: created_db_def sys_inv_def slots_valid_def wf_db_def wf_store_def)
  next
    fix s :: db and check rq
    assume "sys_inv s \<and> dining_tables s = []"
    then show "sys_inv (snd (handle hash check rq s)) \<and> dining_tables (snd (handle hash check rq s)) = []"
      using handle_sys_inv [of s hash check rq] handle_frame [of hash check rq s] by simp
  qed
  then have wf: "wf_db s" and nt: "table_ids s = {}"
    by (simp_all add: sys_inv_def table_ids_def)
  have "r \<notin> set (reservations s)" for r
  proof
    assume r: "r \<in> set (reservations s)"
    with wf obtain p where "p \<in> set (reservation_tables s)" by (auto simp: wf_db_def has_table_def)
    with wf nt show False by (cases p) (auto simp: wf_db_def wf_store_def)
  qed
  then have "reservations s = []" by (cases "reservations s") auto
  with \<open>sys_inv s \<and> dining_tables s = []\<close> show ?thesis by simp
qed

theorem created_db_never_books_witness:
  "reservations (snd (serve demo_hash demo_check scenario created_db)) = []"
  using created_db_never_books [OF reachable_serve [OF reachable.init, of demo_hash created_db demo_check scenario]]
  by simp

text \<open>C26. Bounds on the \<open>AUTO_INCREMENT\<close> counters: a sequence of \<open>n\<close>
  requests raises each counter by at most \<open>n\<close> (one per booking or
  registration, failed bookings included) and never lowers it, so the signed
  32-bit \<open>INT\<close> id columns are exhausted only after as many requests as ids
  remain below \<open>2147483647\<close>.\<close>

theorem serve_counter_bounds:
  "next_res_id s \<le> next_res_id (snd (serve hash check rqs s))
   \<and> next_res_id (snd (serve hash check rqs s)) \<le> next_res_id s + int (length rqs)
   \<and> next_user_id s \<le> next_user_id (snd (serve hash check rqs s))
   \<and> next_user_id (snd (serve hash check rqs s)) \<le> next_user_id s + int (length rqs)"
proof (induction rqs arbitrary: s)
  case Nil
  then show ?case by simp
next
  case (Cons rq rqs)
  let ?s1 = "snd (handle hash check rq s)"
  from Cons.IH [of ?s1] handle_frame [of hash check rq s] show ?case
    by (simp add: case_prod_beta)
qed

text \<open>C27. Booking then reading back (specification, section 4.3): after a
  201 answer to a booking request on a store that satisfies the invariant, the
  admin listing contains the new reservation, Pending, whose booked tables are
  exactly the requested tables, each once.\<close>

theorem book_then_list:
  assumes "sys_inv s" and "fst (handle hash check (CreateReservation b) s) = (201, Created msg rid)"
    and "cb_table_ids b = Val xs"
  shows "\<exists>ds dct. get_all_reservations (snd (handle hash check (CreateReservation b) s)) = (200, Reservations ds)
     \<and> dct \<in> set ds \<and> rd_id dct = rid \<and> rd_status dct = ''Pending''
     \<and> set (map table_id (rd_booked_tables dct)) = set xs \<and> distinct (map table_id (rd_booked_tables dct))"
proof -
  from assms(2) obtain xs' n c d t where xs': "cb_table_ids b = Val xs'" and rid: "rid = next_res_id s"
    and sub: "set xs' \<subseteq> table_ids s"
    and st: "snd (create_reservation b s) = booked_state s n c d t (get_field (cb_user_id b)) (remdups xs')"
    by (auto dest: create_reservation_201D)
  with assms(3) have "xs' = xs" by simp
  let ?s' = "booked_state s n c d t (get_field (cb_user_id b)) (remdups xs)"
  let ?r = "\<lparr>res_id = next_res_id s, customer_name = n, contact_info = c, reservation_date = d,
             reservation_time = t, status = Pending, res_user = get_field (cb_user_id b)\<rparr>"
  from assms(1) have ws: "wf_store s" by (simp add: sys_inv_def wf_db_def)
  have r: "?r \<in> set (reservations ?s')" by (simp add: booked_state_def)
  have tabs: "map table_id (tables_of ?s' (next_res_id s)) = filter (\<lambda>i. i \<in> set xs) (map table_id (dining_tables s))"
    using tables_of_booked [OF ws, of "remdups xs"] sub \<open>xs' = xs\<close> by simp
  have "set (filter (\<lambda>i. i \<in> set xs) (map table_id (dining_tables s))) = set xs"
    using sub \<open>xs' = xs\<close> by (auto simp: table_ids_def)
  moreover have "distinct (filter (\<lambda>i. i \<in> set xs) (map table_id (dining_tables s)))"
    using ws by (simp add: wf_store_def)
  ultimately have tset: "set (map table_id (rd_booked_tables (to_dict ?s' ?r))) = set xs
      \<and> distinct (map table_id (rd_booked_tables (to_dict ?s' ?r)))"
    using tabs by (simp add: to_dict_def)
  have mem: "to_dict ?s' ?r \<in> set (map (to_dict ?s') (sort_desc all_key (reservations ?s')))"
    using r by auto
  have "rd_id (to_dict ?s' ?r) = rid \<and> rd_status (to_dict ?s' ?r) = ''Pending''"
    using rid by (simp add: to_dict_def)
  with tset mem st \<open>xs' = xs\<close> show ?thesis
    by (intro exI [of _ "map (to_dict ?s') (sort_desc all_key (reservations ?s'))"] exI [of _ "to_dict ?s' ?r"])
       (simp add: get_all_reservations_def)
qed

theorem book_then_list_witness:
  "\<exists>ds dct. get_all_reservations (snd (handle demo_hash demo_check (CreateReservation demo_body) demo_db)) = (200, Reservations ds)
     \<and> dct \<in> set ds \<and> rd_id dct = 1 \<and> rd_status dct = ''Pending''
     \<and> set (map table_id (rd_booked_tables dct)) = set [1, 2, 1] \<and> distinct (map table_id (rd_booked_tables dct))"
proof -
  have "sys_inv demo_db" by code_simp
  moreover have "fst (handle demo_hash demo_check (CreateReservation demo_body) demo_db) =
      (201, Created ''Reservation successful!'' 1)" by code_simp
  moreover have "cb_table_ids demo_body = Val [1, 2, 1]" by (simp add: demo_body_def)
  ultimately show ?thesis by (rule book_then_list)
qed



end
